theory Spec2Isabelle
  imports Complex_Main "HOL-Library.Word"
begin

section \<open>Numbers\<close>

text \<open>
  JavaScript numbers are IEEE doubles. The development reads them as real numbers: every
  arithmetic operation is the exact one. Where the source can divide zero by zero the
  model says so explicitly (\<open>None\<close> stands for NaN), since HOL's \<open>0 / 0\<close> is \<open>0\<close>.
  A \<open>Uint8Array\<close> is a list of 8-bit words.
\<close>

type_synonym byte = "8 word"

definition byte_val :: "byte \<Rightarrow> real" where
  "byte_val v = real (unat v)"

text \<open>
  The quotient \<open>x / y\<close> of two numbers where the divisor may be \<open>0\<close>. There the quotient
  is NaN (for \<open>0 / 0\<close>) or an infinity, and no real number: \<open>None\<close>.
\<close>

definition js_div :: "real \<Rightarrow> real \<Rightarrow> real option" where
  "js_div x y = (if y = 0 then None else Some (x / y))"

text \<open>
  The real number that a quotient is, for a field whose readers do arithmetic on it.
  A quotient that is no real number has no such reading: nothing is known of
  \<open>number None\<close>.
\<close>

definition number :: "real option \<Rightarrow> real" where
  "number q = the q"

section \<open>Spectrum analysis: \<open>src/utils/audioUtils.ts\<close>\<close>

record AudioData =
  frequencyData :: "byte list"
  timeDomainData :: "byte list"
  energy :: "real option"
  bassEnergy :: real
  midEnergy :: real
  trebleEnergy :: real

text \<open>
  The body of the \<open>for\<close> loop of \<open>analyzeAudio\<close>, from index \<open>i\<close> on; the list is the
  part of the array not yet visited, the tuple holds \<open>totalEnergy\<close>, \<open>bassEnergy\<close>,
  \<open>midEnergy\<close> and \<open>trebleEnergy\<close>.
\<close>

fun analyze_loop ::
  "nat \<Rightarrow> nat \<Rightarrow> nat \<Rightarrow> byte list \<Rightarrow> real \<times> real \<times> real \<times> real \<Rightarrow> real \<times> real \<times> real \<times> real"
where
  "analyze_loop bassEnd midEnd i [] acc = acc"
| "analyze_loop bassEnd midEnd i (v # vs) (totalE, bassE, midE, trebleE) =
     (let val = byte_val v in
      analyze_loop bassEnd midEnd (Suc i) vs
        (totalE + val,
         if i < bassEnd then bassE + val else bassE,
         if i < bassEnd then midE else if i < midEnd then midE + val else midE,
         if i < bassEnd then trebleE else if i < midEnd then trebleE else trebleE + val))"

definition bassEnd_of :: "nat \<Rightarrow> nat" where
  "bassEnd_of len = nat \<lfloor>real len * 0.06\<rfloor>"

definition midEnd_of :: "nat \<Rightarrow> nat" where
  "midEnd_of len = nat \<lfloor>real len * 0.40\<rfloor>"

text \<open>\<open>n || 1\<close> on a count.\<close>

definition or_one :: "nat \<Rightarrow> real" where
  "or_one n = (if n = 0 then 1 else real n)"

text \<open>
  The four quotients of the \<open>return\<close> statement of \<open>analyzeAudio\<close>, in the order
  \<open>energy\<close>, \<open>bassEnergy\<close>, \<open>midEnergy\<close>, \<open>trebleEnergy\<close>. \<open>dataArray\<close> is the
  content of the buffer once \<open>analyser.getByteFrequencyData\<close> has refreshed it. On an
  empty array \<open>totalEnergy / length\<close> is \<open>0 / 0\<close>, that is NaN; the three other divisors
  go through \<open>|| 1\<close>.
\<close>

definition analyzeAudio_quotients ::
  "byte list \<Rightarrow> real option \<times> real option \<times> real option \<times> real option"
where
  "analyzeAudio_quotients dataArray =
     (let len = length dataArray;
          bassEnd = bassEnd_of len;
          midEnd = midEnd_of len;
          (totalEnergy, bassE, midE, trebleE) =
             analyze_loop bassEnd midEnd 0 dataArray (0, 0, 0, 0)
      in (js_div totalEnergy (real len),
          js_div bassE (or_one bassEnd),
          js_div midE (or_one (midEnd - bassEnd)),
          js_div trebleE (or_one (len - midEnd))))"

text \<open>
  The object that \<open>analyzeAudio\<close> returns. The readers of \<open>energy\<close> allow for NaN; the
  readers of the three band energies compute with them.
\<close>

definition analyzeAudio :: "nat \<Rightarrow> byte list \<Rightarrow> AudioData" where
  "analyzeAudio fftSize dataArray =
     (let (e, bassQ, midQ, trebleQ) = analyzeAudio_quotients dataArray
      in \<lparr> frequencyData = dataArray,
           timeDomainData = replicate fftSize 0,
           energy = e,
           bassEnergy = number bassQ,
           midEnergy = number midQ,
           trebleEnergy = number trebleQ \<rparr>)"

text \<open>\<open>detectBeat\<close> of the same file.\<close>

definition detectBeat :: "real \<Rightarrow> real \<Rightarrow> real \<Rightarrow> bool" where
  "detectBeat e averageEnergy threshold = (e > averageEnergy * threshold)"

subsection \<open>What the claim about the analyser speaks of\<close>

text \<open>The bins of the index range \<open>[a, b)\<close>, and the arithmetic mean of a run of bins
  (0 on an empty run).\<close>

definition bins :: "nat \<Rightarrow> nat \<Rightarrow> byte list \<Rightarrow> byte list" where
  "bins a b xs = take (b - a) (drop a xs)"

definition mean :: "byte list \<Rightarrow> real" where
  "mean xs = (if xs = [] then 0 else sum_list (map byte_val xs) / real (length xs))"


section \<open>Configuration: the constants module\<close>

definition COLOR_BASE :: string where "COLOR_BASE = ''255, 255, 255''"
definition COLOR_MID_FREQ :: string where "COLOR_MID_FREQ = ''215, 245, 255''"
definition COLOR_HIGH_FREQ :: string where "COLOR_HIGH_FREQ = ''165, 243, 252''"

definition GRAVITY :: real where "GRAVITY = 0.03"
definition FRICTION :: real where "FRICTION = 0.95"
definition BASE_PARTICLE_SIZE :: real where "BASE_PARTICLE_SIZE = 0.4"
definition SIZE_VARIATION :: real where "SIZE_VARIATION = 2.4"
definition BEAT_THRESHOLD_INIT :: real where "BEAT_THRESHOLD_INIT = 1.35"
definition BEAT_DECAY_RATE :: real where "BEAT_DECAY_RATE = 0.98"
definition MAX_PARTICLES_PER_FIREWORK :: real where "MAX_PARTICLES_PER_FIREWORK = 1200"
definition MIN_PARTICLES_PER_FIREWORK :: real where "MIN_PARTICLES_PER_FIREWORK = 300"
definition ENERGY_MULTIPLIER :: real where "ENERGY_MULTIPLIER = 4.5"
definition FADE_SPEED_BASE :: real where "FADE_SPEED_BASE = 0.008"
definition FADE_SPEED_VAR :: real where "FADE_SPEED_VAR = 0.005"

section \<open>The environment of a frame\<close>

text \<open>
  \<open>Math.random\<close> is a source of draws consumed in order: the function gives the draws
  still to come, \<open>random\<close> takes the next one. The host promises \<open>0 \<le> draw < 1\<close>.
\<close>

type_synonym rng = "nat \<Rightarrow> real"

definition random :: "rng \<Rightarrow> real \<times> rng" where
  "random g = (g 0, \<lambda>n. g (Suc n))"

definition unit_draws :: "rng \<Rightarrow> bool" where
  "unit_draws g = (\<forall>n. 0 \<le> g n \<and> g n < 1)"

text \<open>\<open>a % b\<close> on numbers: the remainder has the sign of the dividend.\<close>

definition js_rem :: "real \<Rightarrow> real \<Rightarrow> real" where
  "js_rem a b = a - b * of_int (if 0 \<le> a / b then \<lfloor>a / b\<rfloor> else \<lceil>a / b\<rceil>)"

text \<open>A comparison \<open>e > c\<close> where \<open>e\<close> may be NaN: false on NaN.\<close>

definition num_gt :: "real option \<Rightarrow> real \<Rightarrow> bool" where
  "num_gt e c = (case e of None \<Rightarrow> False | Some v \<Rightarrow> v > c)"

datatype FrequencyBand = Bass | Mid | Treble

text \<open>
  What a frame reads from its surroundings, in both visualizers: the window size, the
  clock (\<open>Date.now()\<close>, one reading for the whole frame), the draws of \<open>Math.random\<close>,
  and the audio graph: the analyser's \<open>fftSize\<close> when there is an analyser, the content
  of the data array once refreshed when there is one, the playing flag, and whether the
  audio context is in state \<open>running\<close>.
\<close>

record Frame =
  innerWidth :: real
  innerHeight :: real
  now :: int
  rand :: rng
  analyser :: "nat option"
  dataArray :: "byte list option"
  isPlaying :: bool
  contextRunning :: bool

text \<open>The guard of the audio block of \<open>render\<close>, and the analysis it then runs.\<close>

definition audio_active :: "'a Frame_scheme \<Rightarrow> AudioData option" where
  "audio_active f =
     (case analyser f of
        None \<Rightarrow> None
      | Some fftSize \<Rightarrow>
          (case dataArray f of
             None \<Rightarrow> None
           | Some arr \<Rightarrow>
               if isPlaying f \<and> contextRunning f then Some (analyzeAudio fftSize arr)
               else None))"

section \<open>Particles and blueprints\<close>

record Particle =
  px :: real
  py :: real
  pz :: real
  vx :: real
  vy :: real
  vz :: real
  alpha :: real
  psize :: real
  color :: string
  life :: real
  decayRate :: real
  shimmerOffset :: real

record NeonParticle = Particle +
  hue :: real
  vertices :: "(real \<times> real) list"
  spinSpeed :: real
  angle :: real

datatype TipShape = Point | Fork | Star

record Rib =
  pos :: real
  ribLength :: real
  ribAngle :: real
  subRibs :: nat

record SnowflakeBlueprint =
  armLength :: real
  centerPlateSize :: real
  ribs :: "Rib list"
  tipShape :: TipShape

text \<open>
  The rib loop of both spawn functions (\<open>for (let r = 0; r < numRibs; r++)\<close>), over the
  indices still to visit.
\<close>

fun gen_ribs :: "nat \<Rightarrow> nat list \<Rightarrow> rng \<Rightarrow> Rib list \<times> rng" where
  "gen_ribs numRibs [] g = ([], g)"
| "gen_ribs numRibs (r # rs) g =
     (let p = 0.2 + (real r / real numRibs) * 0.6;
          maxLen = (1 - p) * 0.6;
          (u, g) = random g;
          len = maxLen * (0.4 + u * 0.6);
          (sub, g) = (if len > 0.3 then (let (w, g) = random g in (nat \<lfloor>w * 3\<rfloor>, g))
                      else (0, g));
          (rest, g) = gen_ribs numRibs rs g
      in (\<lparr> pos = p, ribLength = len, ribAngle = pi / 3, subRibs = sub \<rparr> # rest, g))"

text \<open>
  The blueprint section of \<open>spawnNeonSnowflake\<close>: the object literal, whose fields draw
  in order, then the rib loop.
\<close>

definition neon_blueprint :: "rng \<Rightarrow> SnowflakeBlueprint \<times> rng" where
  "neon_blueprint g =
     (let (c, g) = random g;
          (plate, g) = (if c < 0.3 then (let (d, g) = random g in (0.15 + d * 0.1, g))
                        else (0, g));
          (t, g) = random g;
          tip = (if t > 0.5 then Point else Fork);
          (n, g) = random g;
          numRibs = nat (\<lfloor>n * 4\<rfloor> + 2);
          (rs, g) = gen_ribs numRibs [0..<numRibs] g
      in (\<lparr> armLength = 1.0, centerPlateSize = plate, ribs = rs, tipShape = tip \<rparr>, g))"

text \<open>The blueprint section of the classic \<open>spawnSnowflake\<close>.\<close>

definition classic_blueprint :: "rng \<Rightarrow> SnowflakeBlueprint \<times> rng" where
  "classic_blueprint g =
     (let (c, g) = random g;
          (plate, g) = (if c < 0.3 then (let (d, g) = random g in (0.15 + d * 0.1, g))
                        else (0, g));
          (t, g) = random g;
          (tip, g) = (if t > 0.5 then (Point, g)
                      else (let (t2, g) = random g in (if t2 > 0.5 then Fork else Star, g)));
          (n, g) = random g;
          numRibs = nat (\<lfloor>n * 4\<rfloor> + 2);
          (rs, g) = gen_ribs numRibs [0..<numRibs] g
      in (\<lparr> armLength = 1.0, centerPlateSize = plate, ribs = rs, tipShape = tip \<rparr>, g))"

section \<open>The state of the two visualizers\<close>

text \<open>
  The refs both components hold: the live particles, the running average and the
  threshold of each band, and the time of the last spawn.
\<close>

record 'p Vis =
  particles :: "'p list"
  avgBass :: real
  avgMid :: real
  avgTreble :: real
  bassThreshold :: real
  midThreshold :: real
  trebleThreshold :: real
  lastSpawnTime :: int

text \<open>The neon visualizer adds the gesture refs.\<close>

record NeonState = "NeonParticle Vis" +
  lastVideoTime :: real
  lastDetectedGesture :: string
  isFrozen :: bool
  cameraOffset :: "real \<times> real"
  targetOffset :: "real \<times> real"

text \<open>The classic visualizer adds \<open>rotationRef\<close>, as \<open>(x, y)\<close>.\<close>

record ClassicState = "Particle Vis" +
  rotation :: "real \<times> real"

definition neon_init :: NeonState where
  "neon_init =
     \<lparr> particles = [], avgBass = 0, avgMid = 0, avgTreble = 0,
       bassThreshold = BEAT_THRESHOLD_INIT, midThreshold = BEAT_THRESHOLD_INIT,
       trebleThreshold = BEAT_THRESHOLD_INIT, lastSpawnTime = 0,
       lastVideoTime = - 1, lastDetectedGesture = ''None'', isFrozen = False,
       cameraOffset = (0, 0), targetOffset = (0, 0) \<rparr>"

definition classic_init :: ClassicState where
  "classic_init =
     \<lparr> particles = [], avgBass = 0, avgMid = 0, avgTreble = 0,
       bassThreshold = BEAT_THRESHOLD_INIT, midThreshold = BEAT_THRESHOLD_INIT,
       trebleThreshold = BEAT_THRESHOLD_INIT, lastSpawnTime = 0,
       rotation = (0, 0) \<rparr>"

section \<open>The neon emitter: \<open>spawnNeonSnowflake\<close>\<close>

type_synonym points = "(real \<times> real) list"

fun createShard_loop :: "real \<Rightarrow> nat \<Rightarrow> nat list \<Rightarrow> rng \<Rightarrow> points \<times> rng" where
  "createShard_loop sz sides [] g = ([], g)"
| "createShard_loop sz sides (i # is) g =
     (let a = (real i / real sides) * pi * 2;
          (u, g) = random g;
          r = sz * (0.5 + u * 0.5);
          (rest, g) = createShard_loop sz sides is g
      in ((cos a * r, sin a * r) # rest, g))"

definition createShard :: "real \<Rightarrow> rng \<Rightarrow> points \<times> rng" where
  "createShard sz g =
     (let (u, g) = random g;
          sides = nat (\<lfloor>u * 3\<rfloor> + 3)
      in createShard_loop sz sides [0..<sides] g)"

text \<open>\<open>addLine\<close> of the neon emitter; \<open>Math.hypot\<close> is the Euclidean length.\<close>

definition neon_addLine :: "points \<Rightarrow> real \<Rightarrow> real \<Rightarrow> real \<Rightarrow> real \<Rightarrow> points" where
  "neon_addLine pts x1 y1 x2 y2 =
     (let dist = sqrt ((x2 - x1)\<^sup>2 + (y2 - y1)\<^sup>2);
          count = max 2 (nat \<lfloor>dist * 60\<rfloor>)
      in pts @ map (\<lambda>i. let t = real i / real count
                         in (x1 + (x2 - x1) * t, y1 + (y2 - y1) * t)) [0..<Suc count])"

text \<open>The sub-rib loop of one branch that ends at \<open>(ex, ey)\<close>.\<close>

definition neon_subribs :: "points \<Rightarrow> Rib \<Rightarrow> real \<Rightarrow> real \<Rightarrow> points" where
  "neon_subribs pts rib ex ey =
     (if subRibs rib \<noteq> 0
      then foldl (\<lambda>acc sr.
             let t = real sr / real (subRibs rib + 1);
                 sx = pos rib + (ex - pos rib) * t;
                 sy = 0 + (ey - 0) * t
             in neon_addLine acc sx sy (sx + ribLength rib * 0.3) sy)
           pts [1..<Suc (subRibs rib)]
      else pts)"

text \<open>The body of \<open>blueprint.ribs.forEach\<close>.\<close>

definition neon_rib :: "points \<Rightarrow> Rib \<Rightarrow> points" where
  "neon_rib pts rib =
     (let rx = pos rib + ribLength rib * cos (ribAngle rib);
          ry = ribLength rib * sin (ribAngle rib);
          pts = neon_addLine pts (pos rib) 0 rx ry;
          pts = neon_subribs pts rib rx ry;
          lx = pos rib + ribLength rib * cos (- ribAngle rib);
          ly = ribLength rib * sin (- ribAngle rib);
          pts = neon_addLine pts (pos rib) 0 lx ly
      in neon_subribs pts rib lx ly)"

definition neon_points :: "SnowflakeBlueprint \<Rightarrow> points" where
  "neon_points blueprint =
     (let pts = [];
          pts = (if centerPlateSize blueprint > 0
                 then (let s = centerPlateSize blueprint;
                           plateAngle = pi / 6
                       in neon_addLine pts (s * cos plateAngle) (s * sin plateAngle)
                            (s * cos (- plateAngle)) (s * sin (- plateAngle)))
                 else pts);
          pts = neon_addLine pts 0 0 (armLength blueprint) 0
      in foldl neon_rib pts (ribs blueprint))"

text \<open>The locals of a spawn call that the instantiation loops read.\<close>

record Burst =
  startX :: real
  startY :: real
  startZ :: real
  burstScale :: real
  speedBase :: real
  skipRatio :: real

text \<open>
  The inner loop \<open>for (const pt of points)\<close> of one arm. The draw of the skip test is
  made only when \<open>skipRatio > 0\<close>; the fields of the pushed object draw in the order
  they are written.
\<close>

fun neon_emit_arm ::
  "Burst \<Rightarrow> real \<Rightarrow> real \<Rightarrow> real \<Rightarrow> points \<Rightarrow> NeonParticle list \<Rightarrow> rng \<Rightarrow> NeonParticle list \<times> rng"
where
  "neon_emit_arm b baseHue cosA sinA [] ps g = (ps, g)"
| "neon_emit_arm b baseHue cosA sinA (pt # pts) ps g =
     (let (skip, g) = (if skipRatio b > 0 then (let (u, g) = random g in (u < skipRatio b, g))
                       else (False, g))
      in if skip then neon_emit_arm b baseHue cosA sinA pts ps g
         else (let fx = (fst pt * cosA - snd pt * sinA) * burstScale b;
                   fy = (fst pt * sinA + snd pt * cosA) * burstScale b;
                   fz = 0;
                   (u1, g) = random g;
                   sz = (u1 * 4 + 1) * burstScale b;
                   (u2, g) = random g;
                   (u3, g) = random g;
                   (u4, g) = random g;
                   (verts, g) = createShard sz g;
                   (u5, g) = random g;
                   (u6, g) = random g
               in neon_emit_arm b baseHue cosA sinA pts
                    (ps @ [\<lparr> px = startX b, py = startY b, pz = startZ b,
                              vx = fx * speedBase b, vy = fy * speedBase b,
                              vz = fz * speedBase b,
                              alpha = 1, psize = sz, color = [],
                              life = 1.0,
                              decayRate = FADE_SPEED_BASE + (u3 * FADE_SPEED_VAR),
                              shimmerOffset = u4 * pi * 2,
                              hue = js_rem (baseHue + u2 * 40 - 20) 360,
                              vertices = verts,
                              spinSpeed = (u5 - 0.5) * 0.2,
                              angle = u6 * pi * 2 \<rparr>]) g))"

text \<open>The outer loop \<open>for (let i = 0; i < arms; i++)\<close>.\<close>

fun neon_emit ::
  "Burst \<Rightarrow> real \<Rightarrow> nat \<Rightarrow> points \<Rightarrow> nat list \<Rightarrow> NeonParticle list \<Rightarrow> rng \<Rightarrow> NeonParticle list \<times> rng"
where
  "neon_emit b baseHue arms pts [] ps g = (ps, g)"
| "neon_emit b baseHue arms pts (i # is) ps g =
     (let armRotation = (real i / real arms) * pi * 2;
          (ps, g) = neon_emit_arm b baseHue (cos armRotation) (sin armRotation) pts ps g
      in neon_emit b baseHue arms pts is ps g)"

definition neon_band_hue :: "FrequencyBand \<Rightarrow> real" where
  "neon_band_hue band = (case band of Bass \<Rightarrow> 280 | Mid \<Rightarrow> 180 | Treble \<Rightarrow> 320)"

definition spawnNeonSnowflake ::
  "'f Frame_scheme \<Rightarrow> FrequencyBand \<Rightarrow> real \<Rightarrow> NeonState \<Rightarrow> rng \<Rightarrow> NeonState \<times> rng"
where
  "spawnNeonSnowflake f band intensity s g =
     (if length (particles s) > 2000 then (s, g)
      else
        (let s = s\<lparr>lastSpawnTime := now f\<rparr>;
             spreadX = innerWidth f * 0.7;
             spreadY = innerHeight f * 0.5;
             (u, g) = random g; sx = (u - 0.5) * spreadX;
             (u, g) = random g; sy = (u - 0.5) * spreadY;
             (u, g) = random g; sz = (u - 0.5) * 400;
             baseHue = js_rem (neon_band_hue band + of_int (now f) * 0.05) 360;
             (u, g) = random g; randomScale = 0.3 + u * 2.2;
             scale = randomScale * (0.8 + intensity * 0.4);
             speed = ENERGY_MULTIPLIER * (0.5 + intensity * 0.5);
             (blueprint, g) = neon_blueprint g;
             arms = 6;
             particleBudgetBase = MIN_PARTICLES_PER_FIREWORK
               + (MAX_PARTICLES_PER_FIREWORK - MIN_PARTICLES_PER_FIREWORK) * intensity;
             totalParticles = particleBudgetBase * sqrt scale;
             pts = neon_points blueprint;
             totalPointsNeeded = real (length pts * arms);
             skip = (if totalPointsNeeded > totalParticles
                     then 1 - (totalParticles / totalPointsNeeded) else 0);
             (ps, g) = neon_emit
                \<lparr> startX = sx, startY = sy, startZ = sz, burstScale = scale,
                  speedBase = speed, skipRatio = skip \<rparr>
                baseHue arms pts [0..<arms] (particles s) g
         in (s\<lparr>particles := ps\<rparr>, g)))"

section \<open>The classic emitter: \<open>addParticle\<close> and \<open>spawnSnowflake\<close>\<close>

text \<open>
  \<open>addParticle\<close>; the two multipliers are the parameters that default to \<open>1.0\<close>. The
  fields of the pushed object draw in the order they are written.
\<close>

definition addParticle ::
  "real \<Rightarrow> real \<Rightarrow> real \<Rightarrow> real \<Rightarrow> real \<Rightarrow> real \<Rightarrow> string \<Rightarrow> real \<Rightarrow> real
     \<Rightarrow> ClassicState \<Rightarrow> rng \<Rightarrow> ClassicState \<times> rng"
where
  "addParticle x0 y0 z0 vx0 vy0 vz0 col lifeMult sizeMult s g =
     (if length (particles s) > 4000 then (s, g)
      else
        (let (u1, g) = random g;
             (u2, g) = random g;
             (u3, g) = random g
         in (s\<lparr>particles := particles s @
               [\<lparr> px = x0, py = y0, pz = z0, vx = vx0, vy = vy0, vz = vz0,
                  alpha = 1,
                  psize = ((u1 * SIZE_VARIATION * 0.6) + BASE_PARTICLE_SIZE) * sizeMult,
                  color = col,
                  life = 1.0 * lifeMult,
                  decayRate = FADE_SPEED_BASE + (u2 * FADE_SPEED_VAR),
                  shimmerOffset = u3 * pi * 2 \<rparr>]\<rparr>, g)))"

text \<open>The loop of the classic \<open>addLine\<close>: every point draws its two jitters.\<close>

fun classic_addLine_loop ::
  "real \<Rightarrow> real \<Rightarrow> real \<Rightarrow> real \<Rightarrow> nat \<Rightarrow> nat list \<Rightarrow> points \<Rightarrow> rng \<Rightarrow> points \<times> rng"
where
  "classic_addLine_loop x1 y1 x2 y2 count [] pts g = (pts, g)"
| "classic_addLine_loop x1 y1 x2 y2 count (i # is) pts g =
     (let t = real i / real count;
          jitter = 0.015;
          (u, g) = random g;
          (w, g) = random g
      in classic_addLine_loop x1 y1 x2 y2 count is
           (pts @ [(x1 + (x2 - x1) * t + (u - 0.5) * jitter,
                    y1 + (y2 - y1) * t + (w - 0.5) * jitter)]) g)"

definition classic_addLine ::
  "real \<Rightarrow> real \<Rightarrow> real \<Rightarrow> real \<Rightarrow> real \<Rightarrow> points \<Rightarrow> rng \<Rightarrow> points \<times> rng"
where
  "classic_addLine x1 y1 x2 y2 density pts g =
     (let dist = sqrt ((x2 - x1)\<^sup>2 + (y2 - y1)\<^sup>2);
          count = max 3 (nat \<lfloor>dist * 100 * density\<rfloor>)
      in classic_addLine_loop x1 y1 x2 y2 count [0..<Suc count] pts g)"

text \<open>The sub-rib loop \<open>for (let sr = 1; sr <= rib.subRibs; sr++)\<close> of one branch.\<close>

fun classic_subribs_loop ::
  "Rib \<Rightarrow> real \<Rightarrow> real \<Rightarrow> nat list \<Rightarrow> points \<Rightarrow> rng \<Rightarrow> points \<times> rng"
where
  "classic_subribs_loop rib ex ey [] pts g = (pts, g)"
| "classic_subribs_loop rib ex ey (sr # srs) pts g =
     (let t = real sr / real (subRibs rib + 1);
          sx = pos rib + (ex - pos rib) * t;
          sy = 0 + (ey - 0) * t;
          subLen = ribLength rib * 0.3;
          (pts, g) = classic_addLine sx sy (sx + subLen) sy 1.0 pts g
      in classic_subribs_loop rib ex ey srs pts g)"

definition classic_subribs :: "Rib \<Rightarrow> real \<Rightarrow> real \<Rightarrow> points \<Rightarrow> rng \<Rightarrow> points \<times> rng" where
  "classic_subribs rib ex ey pts g =
     (if subRibs rib \<noteq> 0 \<and> subRibs rib > 0
      then classic_subribs_loop rib ex ey [1..<Suc (subRibs rib)] pts g
      else (pts, g))"

text \<open>\<open>blueprint.ribs.forEach\<close>, over the ribs still to visit.\<close>

fun classic_ribs :: "Rib list \<Rightarrow> points \<Rightarrow> rng \<Rightarrow> points \<times> rng" where
  "classic_ribs [] pts g = (pts, g)"
| "classic_ribs (rib # rest) pts g =
     (let rx = pos rib + ribLength rib * cos (ribAngle rib);
          ry = ribLength rib * sin (ribAngle rib);
          (pts, g) = classic_addLine (pos rib) 0 rx ry 1.2 pts g;
          (pts, g) = classic_subribs rib rx ry pts g;
          lx = pos rib + ribLength rib * cos (- ribAngle rib);
          ly = ribLength rib * sin (- ribAngle rib);
          (pts, g) = classic_addLine (pos rib) 0 lx ly 1.2 pts g;
          (pts, g) = classic_subribs rib lx ly pts g
      in classic_ribs rest pts g)"

definition classic_points :: "SnowflakeBlueprint \<Rightarrow> rng \<Rightarrow> points \<times> rng" where
  "classic_points blueprint g =
     (let pts = [];
          (pts, g) =
            (if centerPlateSize blueprint > 0
             then (let s = centerPlateSize blueprint;
                       plateAngle = pi / 6
                   in classic_addLine (s * cos plateAngle) (s * sin plateAngle)
                        (s * cos (- plateAngle)) (s * sin (- plateAngle)) 2.0 pts g)
             else (pts, g));
          (pts, g) = classic_addLine 0 0 (armLength blueprint) 0 1.5 pts g;
          (pts, g) = classic_ribs (ribs blueprint) pts g
      in if tipShape blueprint = Fork
         then (let tipLen = 0.15;
                   tipAngle = pi / 4;
                   (pts, g) = classic_addLine (armLength blueprint) 0
                      (armLength blueprint + tipLen * cos tipAngle) (tipLen * sin tipAngle)
                      1.5 pts g
               in classic_addLine (armLength blueprint) 0
                    (armLength blueprint + tipLen * cos (- tipAngle)) (tipLen * sin (- tipAngle))
                    1.5 pts g)
         else (pts, g))"

fun classic_emit_arm ::
  "Burst \<Rightarrow> string \<Rightarrow> real \<Rightarrow> real \<Rightarrow> points \<Rightarrow> ClassicState \<Rightarrow> rng \<Rightarrow> ClassicState \<times> rng"
where
  "classic_emit_arm b col cosA sinA [] s g = (s, g)"
| "classic_emit_arm b col cosA sinA (pt # pts) s g =
     (let (skip, g) = (if skipRatio b > 0 then (let (u, g) = random g in (u < skipRatio b, g))
                       else (False, g))
      in if skip then classic_emit_arm b col cosA sinA pts s g
         else (let fx = (fst pt * cosA - snd pt * sinA) * burstScale b;
                   fy = (fst pt * sinA + snd pt * cosA) * burstScale b;
                   fz = 0;
                   (s, g) = addParticle (startX b) (startY b) (startZ b)
                              (fx * speedBase b) (fy * speedBase b) (fz * speedBase b)
                              col 1.0 (burstScale b) s g
               in classic_emit_arm b col cosA sinA pts s g))"

fun classic_emit ::
  "Burst \<Rightarrow> string \<Rightarrow> nat \<Rightarrow> points \<Rightarrow> nat list \<Rightarrow> ClassicState \<Rightarrow> rng \<Rightarrow> ClassicState \<times> rng"
where
  "classic_emit b col arms pts [] s g = (s, g)"
| "classic_emit b col arms pts (i # is) s g =
     (let armRotation = (real i / real arms) * pi * 2;
          (s, g) = classic_emit_arm b col (cos armRotation) (sin armRotation) pts s g
      in classic_emit b col arms pts is s g)"

definition classic_band_color :: "FrequencyBand \<Rightarrow> string" where
  "classic_band_color band =
     (case band of Bass \<Rightarrow> COLOR_BASE | Mid \<Rightarrow> COLOR_MID_FREQ | Treble \<Rightarrow> COLOR_HIGH_FREQ)"

definition spawnSnowflake ::
  "'f Frame_scheme \<Rightarrow> FrequencyBand \<Rightarrow> real \<Rightarrow> ClassicState \<Rightarrow> rng \<Rightarrow> ClassicState \<times> rng"
where
  "spawnSnowflake f band intensity s g =
     (let s = s\<lparr>lastSpawnTime := now f\<rparr>;
          col = classic_band_color band;
          spreadX = innerWidth f * 0.7;
          spreadY = innerHeight f * 0.5;
          (u, g) = random g; sx = (u - 0.5) * spreadX;
          (u, g) = random g; sy = (u - 0.5) * spreadY;
          (u, g) = random g; sz = (u - 0.5) * 300;
          (u, g) = random g; randomScale = 0.3 + u * 2.2;
          scale = randomScale * (0.8 + intensity * 0.4);
          speed = ENERGY_MULTIPLIER * (0.3 + intensity * 0.5);
          (blueprint, g) = classic_blueprint g;
          arms = 6;
          particleBudgetBase = MIN_PARTICLES_PER_FIREWORK
            + (MAX_PARTICLES_PER_FIREWORK - MIN_PARTICLES_PER_FIREWORK) * intensity;
          totalParticles = particleBudgetBase * sqrt scale;
          (pts, g) = classic_points blueprint g;
          totalPointsNeeded = real (length pts * arms);
          skip = (if totalPointsNeeded > totalParticles
                  then 1 - (totalParticles / totalPointsNeeded) else 0)
      in classic_emit
           \<lparr> startX = sx, startY = sy, startZ = sz, burstScale = scale,
             speedBase = speed, skipRatio = skip \<rparr>
           col arms pts [0..<arms] s g)"

section \<open>The gesture controller of the neon visualizer: \<open>detectGestures\<close>\<close>

text \<open>
  A recognition result: for each detected hand the ranked category names, and for each
  hand the \<open>(x, y)\<close> of its landmarks. The call \<open>recognizeForVideo\<close> either throws or
  returns a result.
\<close>

record GestureResult =
  gestures :: "string list list"
  landmarks :: "(real \<times> real) list list"

datatype exn = RecognizerError

text \<open>
  What a neon frame reads beside the audio graph: whether the recognizer, the video
  element and the camera are there, the video's \<open>currentTime\<close>, and what
  \<open>recognizeForVideo\<close> does when it is called in this frame.
\<close>

record NeonFrame = Frame +
  recognizerLoaded :: bool
  videoMounted :: bool
  cameraReady :: bool
  videoTime :: real
  recognition :: "exn + GestureResult"

text \<open>The last statement of the \<open>try\<close> block; the callback it notifies is outside the model.\<close>

definition note_gesture :: "string \<Rightarrow> NeonState \<Rightarrow> NeonState" where
  "note_gesture gesture s =
     (if gesture \<noteq> lastDetectedGesture s then s\<lparr>lastDetectedGesture := gesture\<rparr> else s)"

text \<open>
  Every way the \<open>try\<close> block can throw is a branch that returns the state as it is at
  the throw: the recognizer call itself, \<open>result.gestures[0][0]\<close> on a hand without
  categories, and \<open>landmarks[9]\<close> on a hand with fewer than ten landmarks (which comes
  after the assignment to \<open>isFrozenRef\<close>).
\<close>

definition detectGestures :: "NeonFrame \<Rightarrow> NeonState \<Rightarrow> NeonState" where
  "detectGestures f s =
     (if \<not> recognizerLoaded f \<or> \<not> videoMounted f \<or> \<not> cameraReady f then s
      else if videoTime f = lastVideoTime s then s
      else
        (let s = s\<lparr>lastVideoTime := videoTime f\<rparr>
         in case recognition f of
              Inl e \<Rightarrow> s
            | Inr result \<Rightarrow>
                (case gestures result of
                   [] \<Rightarrow> note_gesture ''None'' (s\<lparr>isFrozen := False, targetOffset := (0, 0)\<rparr>)
                 | hand # _ \<Rightarrow>
                     (case hand of
                        [] \<Rightarrow> s
                      | gesture # _ \<Rightarrow>
                          if gesture = ''Open_Palm''
                          then
                            (let s = s\<lparr>isFrozen := True\<rparr>
                             in case landmarks result of
                                  [] \<Rightarrow> note_gesture gesture s
                                | lm # _ \<Rightarrow>
                                    if length lm > 0
                                    then (if length lm > 9
                                          then (let hx = fst (lm ! 9);
                                                    hy = snd (lm ! 9);
                                                    maxOffset = 300
                                                in note_gesture gesture
                                                     (s\<lparr>targetOffset :=
                                                          ((0.5 - hx) * maxOffset * 2,
                                                           (0.5 - hy) * maxOffset * 2)\<rparr>))
                                          else s)
                                    else note_gesture gesture s)
                          else note_gesture gesture
                                 (s\<lparr>isFrozen := False, targetOffset := (0, 0)\<rparr>)))))"

section \<open>The beat detector inside \<open>render\<close>\<close>

type_synonym SpawnCall = "FrequencyBand \<times> real"

text \<open>
  The block of the neon \<open>render\<close> guarded by \<open>!isFrozenRef.current\<close>, one definition
  for each \<open>if\<close> statement. What the statements pass on is the state, the random source,
  the calls of the spawn function made so far in the frame, in order (each call site
  appends its arguments), and the local \<open>spawned\<close>.
\<close>

type_synonym 's beat = "'s \<times> rng \<times> SpawnCall list \<times> bool"

definition neon_bass_block ::
  "'f Frame_scheme \<Rightarrow> AudioData \<Rightarrow> NeonState beat \<Rightarrow> NeonState beat"
where
  "neon_bass_block f analysis r =
     (case r of (s, g, calls, spawned) \<Rightarrow>
        if bassEnergy analysis > avgBass s * bassThreshold s
             \<and> bassEnergy analysis > 25
        then (let intensity = min (bassEnergy analysis / 255) 1;
                  (s, g) = spawnNeonSnowflake f Bass intensity s g
              in (s\<lparr>bassThreshold := BEAT_THRESHOLD_INIT * 1.5\<rparr>, g,
                  calls @ [(Bass, intensity)], True))
        else (s\<lparr>bassThreshold := max BEAT_THRESHOLD_INIT (bassThreshold s * BEAT_DECAY_RATE)\<rparr>,
              g, calls, spawned))"

definition neon_mid_block ::
  "'f Frame_scheme \<Rightarrow> AudioData \<Rightarrow> NeonState beat \<Rightarrow> NeonState beat"
where
  "neon_mid_block f analysis r =
     (case r of (s, g, calls, spawned) \<Rightarrow>
        if \<not> spawned \<and> midEnergy analysis > avgMid s * midThreshold s
             \<and> midEnergy analysis > 20
        then (let intensity = min (midEnergy analysis / 255) 1;
                  (s, g) = spawnNeonSnowflake f Mid intensity s g
              in (s\<lparr>midThreshold := BEAT_THRESHOLD_INIT * 1.5\<rparr>, g,
                  calls @ [(Mid, intensity)], True))
        else (s\<lparr>midThreshold := max BEAT_THRESHOLD_INIT (midThreshold s * BEAT_DECAY_RATE)\<rparr>,
              g, calls, spawned))"

definition neon_treble_block ::
  "'f Frame_scheme \<Rightarrow> AudioData \<Rightarrow> NeonState beat \<Rightarrow> NeonState beat"
where
  "neon_treble_block f analysis r =
     (case r of (s, g, calls, spawned) \<Rightarrow>
        if \<not> spawned \<and> trebleEnergy analysis > avgTreble s * trebleThreshold s
             \<and> trebleEnergy analysis > 15
        then (let intensity = min (trebleEnergy analysis / 255) 1;
                  (s, g) = spawnNeonSnowflake f Treble intensity s g
              in (s\<lparr>trebleThreshold := BEAT_THRESHOLD_INIT * 1.4\<rparr>, g,
                  calls @ [(Treble, intensity)], True))
        else (s\<lparr>trebleThreshold := max BEAT_THRESHOLD_INIT (trebleThreshold s * BEAT_DECAY_RATE)\<rparr>,
              g, calls, spawned))"

definition neon_fallback_block ::
  "'f Frame_scheme \<Rightarrow> AudioData \<Rightarrow> int \<Rightarrow> NeonState beat \<Rightarrow> NeonState beat"
where
  "neon_fallback_block f analysis timeSinceLast r =
     (case r of (s, g, calls, spawned) \<Rightarrow>
        if \<not> spawned \<and> timeSinceLast > 600 \<and> num_gt (energy analysis) 10
        then (if bassEnergy analysis > midEnergy analysis
                  \<and> bassEnergy analysis > trebleEnergy analysis
              then (let (s, g) = spawnNeonSnowflake f Bass 0.4 s g
                    in (s, g, calls @ [(Bass, 0.4)], spawned))
              else if midEnergy analysis > trebleEnergy analysis
              then (let (s, g) = spawnNeonSnowflake f Mid 0.4 s g
                    in (s, g, calls @ [(Mid, 0.4)], spawned))
              else (let (s, g) = spawnNeonSnowflake f Treble 0.4 s g
                    in (s, g, calls @ [(Treble, 0.4)], spawned)))
        else (s, g, calls, spawned))"

definition neon_beat ::
  "'f Frame_scheme \<Rightarrow> AudioData \<Rightarrow> NeonState \<Rightarrow> rng \<Rightarrow> NeonState \<times> rng \<times> SpawnCall list"
where
  "neon_beat f analysis s g =
     (let timeSinceLast = now f - lastSpawnTime s;
          r = (s, g, [], False);
          r = neon_bass_block f analysis r;
          r = neon_mid_block f analysis r;
          r = neon_treble_block f analysis r;
          (s, g, calls, spawned) = neon_fallback_block f analysis timeSinceLast r
      in (s\<lparr>avgBass := avgBass s * 0.92 + bassEnergy analysis * 0.08,
            avgMid := avgMid s * 0.92 + midEnergy analysis * 0.08,
            avgTreble := avgTreble s * 0.92 + trebleEnergy analysis * 0.08\<rparr>,
          g, calls))"

text \<open>The same block of the classic \<open>render\<close>, which calls \<open>spawnSnowflake\<close>.\<close>

definition classic_bass_block ::
  "'f Frame_scheme \<Rightarrow> AudioData \<Rightarrow> ClassicState beat \<Rightarrow> ClassicState beat"
where
  "classic_bass_block f analysis r =
     (case r of (s, g, calls, spawned) \<Rightarrow>
        if bassEnergy analysis > avgBass s * bassThreshold s
             \<and> bassEnergy analysis > 25
        then (let intensity = min (bassEnergy analysis / 255) 1;
                  (s, g) = spawnSnowflake f Bass intensity s g
              in (s\<lparr>bassThreshold := BEAT_THRESHOLD_INIT * 1.5\<rparr>, g,
                  calls @ [(Bass, intensity)], True))
        else (s\<lparr>bassThreshold := max BEAT_THRESHOLD_INIT (bassThreshold s * BEAT_DECAY_RATE)\<rparr>,
              g, calls, spawned))"

definition classic_mid_block ::
  "'f Frame_scheme \<Rightarrow> AudioData \<Rightarrow> ClassicState beat \<Rightarrow> ClassicState beat"
where
  "classic_mid_block f analysis r =
     (case r of (s, g, calls, spawned) \<Rightarrow>
        if \<not> spawned \<and> midEnergy analysis > avgMid s * midThreshold s
             \<and> midEnergy analysis > 20
        then (let intensity = min (midEnergy analysis / 255) 1;
                  (s, g) = spawnSnowflake f Mid intensity s g
              in (s\<lparr>midThreshold := BEAT_THRESHOLD_INIT * 1.5\<rparr>, g,
                  calls @ [(Mid, intensity)], True))
        else (s\<lparr>midThreshold := max BEAT_THRESHOLD_INIT (midThreshold s * BEAT_DECAY_RATE)\<rparr>,
              g, calls, spawned))"

definition classic_treble_block ::
  "'f Frame_scheme \<Rightarrow> AudioData \<Rightarrow> ClassicState beat \<Rightarrow> ClassicState beat"
where
  "classic_treble_block f analysis r =
     (case r of (s, g, calls, spawned) \<Rightarrow>
        if \<not> spawned \<and> trebleEnergy analysis > avgTreble s * trebleThreshold s
             \<and> trebleEnergy analysis > 15
        then (let intensity = min (trebleEnergy analysis / 255) 1;
                  (s, g) = spawnSnowflake f Treble intensity s g
              in (s\<lparr>trebleThreshold := BEAT_THRESHOLD_INIT * 1.4\<rparr>, g,
                  calls @ [(Treble, intensity)], True))
        else (s\<lparr>trebleThreshold := max BEAT_THRESHOLD_INIT (trebleThreshold s * BEAT_DECAY_RATE)\<rparr>,
              g, calls, spawned))"

definition classic_fallback_block ::
  "'f Frame_scheme \<Rightarrow> AudioData \<Rightarrow> int \<Rightarrow> ClassicState beat \<Rightarrow> ClassicState beat"
where
  "classic_fallback_block f analysis timeSinceLast r =
     (case r of (s, g, calls, spawned) \<Rightarrow>
        if \<not> spawned \<and> timeSinceLast > 600 \<and> num_gt (energy analysis) 10
        then (if bassEnergy analysis > midEnergy analysis
                  \<and> bassEnergy analysis > trebleEnergy analysis
              then (let (s, g) = spawnSnowflake f Bass 0.4 s g
                    in (s, g, calls @ [(Bass, 0.4)], spawned))
              else if midEnergy analysis > trebleEnergy analysis
              then (let (s, g) = spawnSnowflake f Mid 0.4 s g
                    in (s, g, calls @ [(Mid, 0.4)], spawned))
              else (let (s, g) = spawnSnowflake f Treble 0.4 s g
                    in (s, g, calls @ [(Treble, 0.4)], spawned)))
        else (s, g, calls, spawned))"

definition classic_beat ::
  "'f Frame_scheme \<Rightarrow> AudioData \<Rightarrow> ClassicState \<Rightarrow> rng \<Rightarrow> ClassicState \<times> rng \<times> SpawnCall list"
where
  "classic_beat f analysis s g =
     (let timeSinceLast = now f - lastSpawnTime s;
          r = (s, g, [], False);
          r = classic_bass_block f analysis r;
          r = classic_mid_block f analysis r;
          r = classic_treble_block f analysis r;
          (s, g, calls, spawned) = classic_fallback_block f analysis timeSinceLast r
      in (s\<lparr>avgBass := avgBass s * 0.92 + bassEnergy analysis * 0.08,
            avgMid := avgMid s * 0.92 + midEnergy analysis * 0.08,
            avgTreble := avgTreble s * 0.92 + trebleEnergy analysis * 0.08\<rparr>,
          g, calls))"

section \<open>The physics and render loop\<close>

text \<open>
  What a frame shows: the spawn calls it made and what it handed to the canvas, in
  drawing order. Fill styles, glow and the neon flicker draw are not part of the model.
\<close>

record 'd Output =
  spawnCalls :: "SpawnCall list"
  drawn :: "'d list"

subsection \<open>Neon\<close>

text \<open>The statements under \<open>if (!isFrozenRef.current)\<close> in the particle loop.\<close>

definition neon_update :: "real option \<Rightarrow> NeonParticle \<Rightarrow> NeonParticle" where
  "neon_update en p =
     (let p = p\<lparr>px := px p + vx p\<rparr>;
          p = p\<lparr>py := py p + vy p\<rparr>;
          p = p\<lparr>pz := pz p + vz p\<rparr>;
          p = p\<lparr>vy := vy p + GRAVITY\<rparr>;
          p = p\<lparr>vx := vx p * FRICTION\<rparr>;
          p = p\<lparr>vy := vy p * FRICTION\<rparr>;
          p = p\<lparr>vz := vz p * FRICTION\<rparr>;
          p = p\<lparr>angle := angle p + spinSpeed p\<rparr>;
          dynamicDecay =
            (case en of
               None \<Rightarrow> decayRate p
             | Some e \<Rightarrow> if e > 0 then decayRate p + (e / 255) * FADE_SPEED_VAR
                         else decayRate p)
      in p\<lparr>life := life p - dynamicDecay\<rparr>)"

text \<open>
  The perspective scale \<open>800 / (800 + p.z)\<close> of the neon loop and its test \<open>scale > 0\<close>.
  At \<open>p.z = -800\<close> the quotient is IEEE's \<open>+Infinity\<close>, which passes the test.
\<close>

definition neon_scale :: "'a Particle_scheme \<Rightarrow> real" where
  "neon_scale p = 800 / (800 + pz p)"

definition neon_scale_positive :: "'a Particle_scheme \<Rightarrow> bool" where
  "neon_scale_positive p = (if 800 + pz p = 0 then True else neon_scale p > 0)"

text \<open>
  The loop \<open>for (let i = length - 1; i >= 0; i--)\<close>. The counter is \<open>i + 1\<close>, so the
  loop starts at the length and stops at \<open>0\<close>; the particle is updated in place and
  either drawn or spliced out. The index stays below the length, since a splice removes
  an index already visited.
\<close>

fun neon_loop ::
  "bool \<Rightarrow> real option \<Rightarrow> nat \<Rightarrow> NeonParticle list \<Rightarrow> NeonParticle list
     \<Rightarrow> NeonParticle list \<times> NeonParticle list"
where
  "neon_loop frozen en 0 ps dr = (ps, dr)"
| "neon_loop frozen en (Suc i) ps dr =
     (let p = ps ! i;
          p = (if \<not> frozen then neon_update en p else p);
          ps = ps[i := p]
      in if life p > 0
         then neon_loop frozen en i ps (if neon_scale_positive p then dr @ [p] else dr)
         else neon_loop frozen en i (take i ps @ drop (Suc i) ps) dr)"

record NeonOutput = "NeonParticle Output" +
  origin :: "real \<times> real"

definition neon_render :: "NeonFrame \<Rightarrow> NeonState \<Rightarrow> NeonOutput \<times> NeonState" where
  "neon_render f s =
     (let s = detectGestures f s;
          s = s\<lparr>cameraOffset :=
                 (fst (cameraOffset s) + (fst (targetOffset s) - fst (cameraOffset s)) * 0.1,
                  snd (cameraOffset s) + (snd (targetOffset s) - snd (cameraOffset s)) * 0.1)\<rparr>;
          en = Some 0;
          g = rand f;
          calls = [];
          (s, g, calls, en) =
            (case audio_active f of
               None \<Rightarrow> (s, g, calls, en)
             | Some analysis \<Rightarrow>
                 if \<not> isFrozen s
                 then (let (s, g, calls) = neon_beat f analysis s g
                       in (s, g, calls, energy analysis))
                 else (s, g, calls, energy analysis));
          org = (innerWidth f / 2 + fst (cameraOffset s),
                 innerHeight f / 2 + snd (cameraOffset s));
          (ps, dr) = neon_loop (isFrozen s) en (length (particles s)) (particles s) []
      in (\<lparr> spawnCalls = calls, drawn = dr, origin = org \<rparr>, s\<lparr>particles := ps\<rparr>))"

subsection \<open>Classic\<close>

definition rotate3D :: "real \<Rightarrow> real \<Rightarrow> real \<Rightarrow> real \<Rightarrow> real \<Rightarrow> real \<times> real \<times> real" where
  "rotate3D x0 y0 z0 angleX angleY =
     (let cosY = cos angleY;
          sinY = sin angleY;
          x1 = x0 * cosY - z0 * sinY;
          z1 = z0 * cosY + x0 * sinY;
          cosX = cos angleX;
          sinX = sin angleX;
          y2 = y0 * cosX - z1 * sinX;
          z2 = z1 * cosX + y0 * sinX
      in (x1, y2, z2))"

definition classic_update :: "real option \<Rightarrow> Particle \<Rightarrow> Particle" where
  "classic_update en p =
     (let p = p\<lparr>px := px p + vx p\<rparr>;
          p = p\<lparr>py := py p + vy p\<rparr>;
          p = p\<lparr>pz := pz p + vz p\<rparr>;
          p = p\<lparr>vy := vy p + GRAVITY\<rparr>;
          p = p\<lparr>vx := vx p * FRICTION\<rparr>;
          p = p\<lparr>vy := vy p * FRICTION\<rparr>;
          p = p\<lparr>vz := vz p * FRICTION\<rparr>;
          dynamicDecay =
            (case en of
               None \<Rightarrow> decayRate p
             | Some e \<Rightarrow> if e > 0 then decayRate p + (e / 255) * FADE_SPEED_VAR
                         else decayRate p);
          p = p\<lparr>life := life p - dynamicDecay\<rparr>
      in p\<lparr>alpha := life p\<rparr>)"

record ClassicDraw =
  x2d :: real
  y2d :: real
  size2d :: real
  finalOpacity :: real
  fillColor :: string

text \<open>
  The branch \<open>if (p.life > 0)\<close> of the classic loop: \<open>None\<close> when \<open>depth > 0\<close> fails and
  nothing is drawn.
\<close>

definition classic_draw ::
  "'f Frame_scheme \<Rightarrow> real \<times> real \<Rightarrow> Particle \<Rightarrow> ClassicDraw option"
where
  "classic_draw f rot p =
     (let centerX = innerWidth f / 2;
          centerY = innerHeight f / 2;
          fov = 800;
          (rx, ry, rz) = rotate3D (px p) (py p) (pz p) (fst rot) (snd rot);
          depth = rz + fov
      in if depth > 0
         then (let scale = fov / depth;
                   sx = rx * scale + centerX;
                   sy = ry * scale + centerY;
                   sz = max 0.1 (psize p * scale);
                   opacity = alpha p * min 1 scale;
                   shimmer = cos (of_int (now f) * 0.02 + shimmerOffset p * 10)
               in Some \<lparr> x2d = sx, y2d = sy, size2d = sz,
                         finalOpacity = opacity * (0.6 + shimmer * 0.4),
                         fillColor = color p \<rparr>)
         else None)"

fun classic_loop ::
  "'f Frame_scheme \<Rightarrow> real \<times> real \<Rightarrow> real option \<Rightarrow> nat \<Rightarrow> Particle list \<Rightarrow> ClassicDraw list
     \<Rightarrow> Particle list \<times> ClassicDraw list"
where
  "classic_loop f rot en 0 ps dr = (ps, dr)"
| "classic_loop f rot en (Suc i) ps dr =
     (let p = classic_update en (ps ! i);
          ps = ps[i := p]
      in if life p > 0
         then classic_loop f rot en i ps
                (case classic_draw f rot p of None \<Rightarrow> dr | Some d \<Rightarrow> dr @ [d])
         else classic_loop f rot en i (take i ps @ drop (Suc i) ps) dr)"

definition classic_render ::
  "'f Frame_scheme \<Rightarrow> ClassicState \<Rightarrow> ClassicDraw Output \<times> ClassicState"
where
  "classic_render f s =
     (let globalEnergy = Some 0;
          g = rand f;
          calls = [];
          (s, g, calls, globalEnergy) =
            (case audio_active f of
               None \<Rightarrow> (s, g, calls, globalEnergy)
             | Some analysis \<Rightarrow>
                 (let (s, g, calls) = classic_beat f analysis s g
                  in (s, g, calls, energy analysis)));
          (ps, dr) = classic_loop f (rotation s) globalEnergy
                       (length (particles s)) (particles s) []
      in (\<lparr> spawnCalls = calls, drawn = dr \<rparr>, s\<lparr>particles := ps\<rparr>))"

subsection \<open>The projections, as functions of a particle\<close>

text \<open>
  The scale and the offset from the canvas centre that \<open>classic_draw\<close> computes for a
  particle it draws, and the offset the neon loop translates by.
\<close>

definition classic_scale :: "real \<times> real \<Rightarrow> 'a Particle_scheme \<Rightarrow> real" where
  "classic_scale rot p =
     (case rotate3D (px p) (py p) (pz p) (fst rot) (snd rot) of
        (rx, ry, rz) \<Rightarrow> 800 / (rz + 800))"

definition classic_offset :: "real \<times> real \<Rightarrow> 'a Particle_scheme \<Rightarrow> real \<times> real" where
  "classic_offset rot p =
     (case rotate3D (px p) (py p) (pz p) (fst rot) (snd rot) of
        (rx, ry, rz) \<Rightarrow> (rx * classic_scale rot p, ry * classic_scale rot p))"

definition neon_offset :: "'a Particle_scheme \<Rightarrow> real \<times> real" where
  "neon_offset p = (px p * neon_scale p, py p * neon_scale p)"

section \<open>Sessions\<close>

text \<open>
  The states a session can be in: the refs as they are created, then one \<open>render\<close> per
  animation frame, in any surroundings whose \<open>Math.random\<close> keeps its promise.
\<close>

inductive neon_reachable :: "NeonState \<Rightarrow> bool" where
  neon_start: "neon_reachable neon_init"
| neon_frame: "neon_reachable s \<Longrightarrow> unit_draws (rand f) \<Longrightarrow> neon_reachable (snd (neon_render f s))"

inductive classic_reachable :: "ClassicState \<Rightarrow> bool" where
  classic_start: "classic_reachable classic_init"
| classic_frame:
    "classic_reachable s \<Longrightarrow> unit_draws (rand (f :: Frame))
       \<Longrightarrow> classic_reachable (snd (classic_render f s))"

section \<open>Notions the properties are stated in\<close>

subsection \<open>Blueprints\<close>

text \<open>The number of ribs that the draw \<open>u\<close> selects: \<open>Math.floor(u * 4) + 2\<close>.\<close>

definition rib_count :: "real \<Rightarrow> nat" where
  "rib_count u = nat (\<lfloor>u * 4\<rfloor> + 2)"

text \<open>Between two and five ribs, at strictly increasing positions in \<open>[0.2, 0.8)\<close>.\<close>

definition ribs_ok :: "Rib list \<Rightarrow> bool" where
  "ribs_ok rs = (2 \<le> length rs \<and> length rs \<le> 5 \<and> sorted_wrt (<) (map pos rs)
      \<and> (\<forall>r \<in> set rs. 0.2 \<le> pos r \<and> pos r < 0.8))"

text \<open>A rib of at most unit length with at most two sub-ribs.\<close>

definition small_rib :: "Rib \<Rightarrow> bool" where
  "small_rib rib = (0 \<le> ribLength rib \<and> ribLength rib \<le> 1 \<and> subRibs rib \<le> 2)"

text \<open>A blueprint as the generator makes them: a unit arm, a plate of at most unit size, at
  most five ribs, all small.\<close>

definition plain_blueprint :: "SnowflakeBlueprint \<Rightarrow> bool" where
  "plain_blueprint bp =
     (armLength bp = 1 \<and> 0 \<le> centerPlateSize bp \<and> centerPlateSize bp \<le> 1
      \<and> length (ribs bp) \<le> 5 \<and> list_all small_rib (ribs bp))"

subsection \<open>Particles\<close>

text \<open>A particle as a spawn creates it, at depth \<open>z0\<close>.\<close>

definition born :: "real \<Rightarrow> 'a Particle_scheme \<Rightarrow> bool" where
  "born z0 p = (life p = 1 \<and> FADE_SPEED_BASE \<le> decayRate p \<and> pz p = z0 \<and> vz p = 0)"

text \<open>A particle as a spawn leaves it: full life, a decay rate of at least the base rate,
  a depth within \<open>d\<close> of the screen plane and no motion in depth.\<close>

definition newborn :: "real \<Rightarrow> 'a Particle_scheme \<Rightarrow> bool" where
  "newborn d p = (life p = 1 \<and> FADE_SPEED_BASE \<le> decayRate p \<and> - d \<le> pz p \<and> pz p < d \<and> vz p = 0)"

text \<open>What one pass of the particle loop does to a particle, and whether it keeps it.\<close>

definition neon_aged :: "bool \<Rightarrow> real option \<Rightarrow> NeonParticle \<Rightarrow> NeonParticle" where
  "neon_aged frozen en p = (if frozen then p else neon_update en p)"

definition alive :: "'a Particle_scheme \<Rightarrow> bool" where
  "alive p = (life p > 0)"

text \<open>A particle between two frames: alive, with at most full life, a decay rate of at least
  the base rate, a depth within \<open>d\<close> of the screen plane and no motion in depth.\<close>

definition settled :: "real \<Rightarrow> 'a Particle_scheme \<Rightarrow> bool" where
  "settled d p =
     (0 < life p \<and> life p \<le> 1 \<and> FADE_SPEED_BASE \<le> decayRate p
        \<and> - d \<le> pz p \<and> pz p < d \<and> vz p = 0)"


text \<open>Every particle is alive and in front of the eye.\<close>

definition visible :: "'a Particle_scheme list \<Rightarrow> bool" where
  "visible ps = (\<forall>p \<in> set ps. alive p \<and> neon_scale_positive p)"

text \<open>From one particle list and random source to the next by adding particles at the end,
  each as a spawn leaves it when the draws keep their promise.\<close>

definition appends :: "real \<Rightarrow> 'a Particle_scheme list \<times> rng \<Rightarrow> 'a Particle_scheme list \<times> rng \<Rightarrow> bool" where
  "appends d before after =
     (\<exists>new. fst after = fst before @ new
        \<and> (unit_draws (snd before) \<longrightarrow> (\<forall>p \<in> set new. newborn d p) \<and> unit_draws (snd after)))"



subsection \<open>The spawn decision\<close>

text \<open>The energy test of each band against the state at the start of the frame's audio block.\<close>

definition bass_hit :: "AudioData \<Rightarrow> ('p, 'a) Vis_scheme \<Rightarrow> bool" where
  "bass_hit a s = (bassEnergy a > avgBass s * bassThreshold s \<and> bassEnergy a > 25)"

definition mid_hit :: "AudioData \<Rightarrow> ('p, 'a) Vis_scheme \<Rightarrow> bool" where
  "mid_hit a s = (midEnergy a > avgMid s * midThreshold s \<and> midEnergy a > 20)"

definition treble_hit :: "AudioData \<Rightarrow> ('p, 'a) Vis_scheme \<Rightarrow> bool" where
  "treble_hit a s = (trebleEnergy a > avgTreble s * trebleThreshold s \<and> trebleEnergy a > 15)"

definition dominant :: "AudioData \<Rightarrow> FrequencyBand" where
  "dominant a =
     (if bassEnergy a > midEnergy a \<and> bassEnergy a > trebleEnergy a then Bass
      else if midEnergy a > trebleEnergy a then Mid else Treble)"

definition expected_calls :: "int \<Rightarrow> AudioData \<Rightarrow> ('p, 'a) Vis_scheme \<Rightarrow> SpawnCall list" where
  "expected_calls t a s =
     (if bass_hit a s then [(Bass, min (bassEnergy a / 255) 1)]
      else if mid_hit a s then [(Mid, min (midEnergy a / 255) 1)]
      else if treble_hit a s then [(Treble, min (trebleEnergy a / 255) 1)]
      else if t - lastSpawnTime s > 600 \<and> num_gt (energy a) 10 then [(dominant a, 0.4)]
      else [])"

text \<open>The energy of a band in an analysis.\<close>

definition band_energy :: "AudioData \<Rightarrow> FrequencyBand \<Rightarrow> real" where
  "band_energy a band =
     (case band of Bass \<Rightarrow> bassEnergy a | Mid \<Rightarrow> midEnergy a | Treble \<Rightarrow> trebleEnergy a)"

text \<open>A band fires when its test passes and no band before it in the order bass, mid,
  treble has fired in the frame.\<close>

definition bass_fires :: "AudioData \<Rightarrow> ('p, 'a) Vis_scheme \<Rightarrow> bool" where
  "bass_fires a s = bass_hit a s"

definition mid_fires :: "AudioData \<Rightarrow> ('p, 'a) Vis_scheme \<Rightarrow> bool" where
  "mid_fires a s = (\<not> bass_hit a s \<and> mid_hit a s)"

definition treble_fires :: "AudioData \<Rightarrow> ('p, 'a) Vis_scheme \<Rightarrow> bool" where
  "treble_fires a s = (\<not> bass_hit a s \<and> \<not> mid_hit a s \<and> treble_hit a s)"

subsection \<open>Thresholds and running averages\<close>

text \<open>The threshold a detector leaves behind: the boosted initial value when it fired,
  the clamped decay otherwise.\<close>

definition next_threshold :: "bool \<Rightarrow> real \<Rightarrow> real \<Rightarrow> real" where
  "next_threshold fired boost thr =
     (if fired then BEAT_THRESHOLD_INIT * boost else max BEAT_THRESHOLD_INIT (thr * BEAT_DECAY_RATE))"

text \<open>The exponential moving average of a band.\<close>

definition next_average :: "real \<Rightarrow> real \<Rightarrow> real" where
  "next_average avg e = avg * 0.92 + e * 0.08"

text \<open>The thresholds of \<open>s'\<close> are those that the detectors of \<open>s\<close> leave on the analysis \<open>a\<close>;
  the thresholds of \<open>s'\<close> are those of \<open>s\<close>.\<close>

definition detectors_step :: "AudioData \<Rightarrow> ('p, 'a) Vis_scheme \<Rightarrow> ('p, 'a) Vis_scheme \<Rightarrow> bool" where
  "detectors_step a s s' =
     (bassThreshold s' = next_threshold (bass_fires a s) 1.5 (bassThreshold s)
      \<and> midThreshold s' = next_threshold (mid_fires a s) 1.5 (midThreshold s)
      \<and> trebleThreshold s' = next_threshold (treble_fires a s) 1.4 (trebleThreshold s))"

definition detectors_rest :: "('p, 'a) Vis_scheme \<Rightarrow> ('p, 'a) Vis_scheme \<Rightarrow> bool" where
  "detectors_rest s s' =
     (bassThreshold s' = bassThreshold s \<and> midThreshold s' = midThreshold s
      \<and> trebleThreshold s' = trebleThreshold s)"

text \<open>The running averages of \<open>s'\<close> are those of \<open>s\<close> moved towards the analysis \<open>a\<close>; the
  running averages of \<open>s'\<close> are those of \<open>s\<close>.\<close>

definition averages_step :: "AudioData \<Rightarrow> ('p, 'a) Vis_scheme \<Rightarrow> ('p, 'a) Vis_scheme \<Rightarrow> bool" where
  "averages_step a s s' =
     (avgBass s' = 0.92 * avgBass s + 0.08 * bassEnergy a
      \<and> avgMid s' = 0.92 * avgMid s + 0.08 * midEnergy a
      \<and> avgTreble s' = 0.92 * avgTreble s + 0.08 * trebleEnergy a)"

definition averages_rest :: "('p, 'a) Vis_scheme \<Rightarrow> ('p, 'a) Vis_scheme \<Rightarrow> bool" where
  "averages_rest s s' =
     (avgBass s' = avgBass s \<and> avgMid s' = avgMid s \<and> avgTreble s' = avgTreble s)"

text \<open>Every threshold lies between its initial value and its boosted value.\<close>

definition thresholds_ok :: "('p, 'a) Vis_scheme \<Rightarrow> bool" where
  "thresholds_ok s =
     (BEAT_THRESHOLD_INIT \<le> bassThreshold s \<and> bassThreshold s \<le> BEAT_THRESHOLD_INIT * 1.5
      \<and> BEAT_THRESHOLD_INIT \<le> midThreshold s \<and> midThreshold s \<le> BEAT_THRESHOLD_INIT * 1.5
      \<and> BEAT_THRESHOLD_INIT \<le> trebleThreshold s \<and> trebleThreshold s \<le> BEAT_THRESHOLD_INIT * 1.4)"

subsection \<open>Frames and runs of frames\<close>

text \<open>What the classic loop draws for the particles it keeps, in list order.\<close>

definition classic_shown :: "'f Frame_scheme \<Rightarrow> real \<times> real \<Rightarrow> Particle list \<Rightarrow> ClassicDraw list" where
  "classic_shown f rot ps = List.map_filter (classic_draw f rot) ps"

text \<open>Whether the particle loop of a neon frame runs frozen: the flag as \<open>detectGestures\<close>
  leaves it at the start of the frame.\<close>

definition neon_frozen :: "NeonFrame \<Rightarrow> NeonState \<Rightarrow> bool" where
  "neon_frozen f s = isFrozen (detectGestures f s)"

text \<open>The local \<open>energy\<close> (\<open>globalEnergy\<close>) that the particle loop of a frame reads.\<close>

definition frame_energy :: "'f Frame_scheme \<Rightarrow> real option" where
  "frame_energy f = (case audio_active f of None \<Rightarrow> Some 0 | Some a \<Rightarrow> energy a)"

text \<open>The neon state after gesture detection and camera smoothing, where the audio block
  of \<open>render\<close> starts.\<close>

definition neon_panned :: "NeonFrame \<Rightarrow> NeonState \<Rightarrow> NeonState" where
  "neon_panned f s =
     (let s = detectGestures f s
      in s\<lparr>cameraOffset :=
             (fst (cameraOffset s) + (fst (targetOffset s) - fst (cameraOffset s)) * 0.1,
              snd (cameraOffset s) + (snd (targetOffset s) - snd (cameraOffset s)) * 0.1)\<rparr>)"

text \<open>Whether the beat detector runs in a frame, and on which analysis.\<close>

definition neon_hears :: "NeonFrame \<Rightarrow> NeonState \<Rightarrow> AudioData option" where
  "neon_hears f s = (if neon_frozen f s then None else audio_active f)"

text \<open>What holds of a neon state between frames.\<close>

definition neon_inv :: "NeonState \<Rightarrow> bool" where
  "neon_inv s = ((\<forall>p \<in> set (particles s). settled 200 p) \<and> thresholds_ok s)"

text \<open>What holds of a classic state between frames.\<close>

definition classic_inv :: "ClassicState \<Rightarrow> bool" where
  "classic_inv s =
     ((\<forall>p \<in> set (particles s). settled 150 p) \<and> thresholds_ok s
        \<and> length (particles s) \<le> 4001 \<and> rotation s = (0, 0))"

text \<open>The frame's detection runs (the recognizer, the video and the camera are there and the
  video shows a new picture) and its top gesture is the open palm.\<close>

definition palm_seen :: "NeonFrame \<Rightarrow> NeonState \<Rightarrow> bool" where
  "palm_seen f s =
     (recognizerLoaded f \<and> videoMounted f \<and> cameraReady f \<and> videoTime f \<noteq> lastVideoTime s
      \<and> (case recognition f of
            Inl e \<Rightarrow> False
          | Inr result \<Rightarrow>
              (case gestures result of
                 [] \<Rightarrow> False
               | hand # _ \<Rightarrow> (case hand of [] \<Rightarrow> False | gesture # _ \<Rightarrow> gesture = ''Open_Palm''))))"

text \<open>The frame supplies a detection that is empty or whose top gesture is not the open palm.\<close>

definition clears :: "NeonFrame \<Rightarrow> bool" where
  "clears f =
     (case recognition f of
        Inl e \<Rightarrow> False
      | Inr result \<Rightarrow>
          (case gestures result of
             [] \<Rightarrow> True
           | hand # _ \<Rightarrow> (case hand of [] \<Rightarrow> False | gesture # _ \<Rightarrow> gesture \<noteq> ''Open_Palm'')))"

text \<open>The frame's detection runs and supplies such a detection.\<close>

definition clear_seen :: "NeonFrame \<Rightarrow> NeonState \<Rightarrow> bool" where
  "clear_seen f s =
     (recognizerLoaded f \<and> videoMounted f \<and> cameraReady f \<and> videoTime f \<noteq> lastVideoTime s
      \<and> clears f)"

text \<open>A frozen frame: the particles are as before, nothing is spawned, every particle is
  drawn (the loop runs from the last to the first), and the flag is still set.\<close>

definition still_frame :: "NeonFrame \<Rightarrow> NeonState \<Rightarrow> bool" where
  "still_frame f s =
     (particles (snd (neon_render f s)) = particles s
      \<and> spawnCalls (fst (neon_render f s)) = []
      \<and> drawn (fst (neon_render f s)) = rev (particles s)
      \<and> isFrozen (snd (neon_render f s)))"

text \<open>Every frame of a run of frames is a frozen frame.\<close>

fun still_run :: "NeonFrame list \<Rightarrow> NeonState \<Rightarrow> bool" where
  "still_run [] s = True"
| "still_run (f # fs) s = (still_frame f s \<and> still_run fs (snd (neon_render f s)))"




section \<open>Concrete surroundings\<close>

text \<open>A random source whose every draw is one half.\<close>

definition half_draws :: rng where
  "half_draws = (\<lambda>n. 1 / 2)"

text \<open>A random source whose every draw is 0.995.\<close>

definition high_draws :: rng where
  "high_draws = (\<lambda>n. 0.995)"

text \<open>Twenty bins of a quiet hum, and twenty bins with one loud bass bin.\<close>

definition quiet_bins :: "byte list" where
  "quiet_bins = [12, 12, 12, 12, 12, 12, 12, 12, 12, 12, 12, 12, 12, 12, 12, 12, 12, 12, 12, 12]"

definition loud_bins :: "byte list" where
  "loud_bins = [200, 0, 0, 0, 0, 0, 0, 0, 0, 0, 0, 0, 0, 0, 0, 0, 0, 0, 0, 0]"

text \<open>A frame at clock \<open>t\<close> whose audio graph plays the given bins, and a frame whose audio
  is paused.\<close>

definition audio_frame :: "int \<Rightarrow> byte list \<Rightarrow> Frame" where
  "audio_frame t bs =
     \<lparr> innerWidth = 1280, innerHeight = 720, now = t, rand = half_draws,
       analyser = Some 2048, dataArray = Some bs, isPlaying = True, contextRunning = True \<rparr>"

definition paused_frame :: "int \<Rightarrow> Frame" where
  "paused_frame t =
     \<lparr> innerWidth = 1280, innerHeight = 720, now = t, rand = half_draws,
       analyser = Some 2048, dataArray = Some quiet_bins, isPlaying = False,
       contextRunning = True \<rparr>"

text \<open>Recognition results: an open palm over the centre of the picture, a fist, and no hand.\<close>

definition palm :: GestureResult where
  "palm = \<lparr> gestures = [[''Open_Palm'']], landmarks = [replicate 21 (0.5, 0.5)] \<rparr>"

definition fist :: GestureResult where
  "fist = \<lparr> gestures = [[''Closed_Fist'']], landmarks = [replicate 21 (0.5, 0.5)] \<rparr>"

definition no_hand :: GestureResult where
  "no_hand = \<lparr> gestures = [], landmarks = [] \<rparr>"

text \<open>A neon frame at clock \<open>t\<close> playing the given bins, with the camera running, the video
  at time \<open>vt\<close> and the given outcome of the recognizer call.\<close>

definition neon_frame :: "int \<Rightarrow> byte list \<Rightarrow> real \<Rightarrow> exn + GestureResult \<Rightarrow> NeonFrame" where
  "neon_frame t bs vt outcome =
     \<lparr> innerWidth = 1280, innerHeight = 720, now = t, rand = half_draws,
       analyser = Some 2048, dataArray = Some bs, isPlaying = True, contextRunning = True,
       recognizerLoaded = True, videoMounted = True, cameraReady = True,
       videoTime = vt, recognition = outcome \<rparr>"

text \<open>An open palm whose landmark 9 is a quarter of the way across the picture.\<close>

definition palm_left :: GestureResult where
  "palm_left = \<lparr> gestures = [[''Open_Palm'']], landmarks = [replicate 21 (0.25, 0.5)] \<rparr>"

text \<open>A neon particle and a classic particle as a spawn leaves them, with the slowest decay.\<close>

definition spark :: NeonParticle where
  "spark =
     \<lparr> px = 10, py = 20, pz = 100, vx = 1, vy = 2, vz = 0, alpha = 1, psize = 3, color = [],
       life = 1, decayRate = 0.008, shimmerOffset = 0,
       hue = 280, vertices = [(1, 0), (0, 1), (- 1, 0)], spinSpeed = 0.05, angle = 0 \<rparr>"

definition dust :: Particle where
  "dust =
     \<lparr> px = 10, py = 20, pz = 100, vx = 1, vy = 2, vz = 0, alpha = 1, psize = 1,
       color = COLOR_BASE, life = 1, decayRate = 0.008, shimmerOffset = 0 \<rparr>"

text \<open>A classic and a neon session holding \<open>n\<close> particles.\<close>

definition crowd :: "nat \<Rightarrow> ClassicState" where
  "crowd n = classic_init\<lparr>particles := replicate n dust\<rparr>"

definition neon_crowd :: "nat \<Rightarrow> NeonState" where
  "neon_crowd n = neon_init\<lparr>particles := replicate n spark\<rparr>"

text \<open>The classic session after one frame of the loud bins.\<close>

definition after_loud :: ClassicState where
  "after_loud = snd (classic_render (audio_frame 1000 loud_bins) classic_init)"

text \<open>The neon session after one frame that saw that palm.\<close>

definition after_palm :: NeonState where
  "after_palm = snd (neon_render (neon_frame 1000 quiet_bins 1 (Inr palm_left)) neon_init)"

text \<open>The neon session after one frame of the loud bins with no hand in the picture.\<close>

definition neon_lit :: NeonState where
  "neon_lit = snd (neon_render (neon_frame 1000 loud_bins 1 (Inr no_hand)) neon_init)"

section \<open>Properties of the spectrum analyser\<close>

lemma analyze_loop_sums:
  "bassEnd \<le> midEnd \<Longrightarrow>
   analyze_loop bassEnd midEnd i vs (t, b, m, tr) =
     (t + sum_list (map byte_val vs),
      b + sum_list (map byte_val (take (bassEnd - i) vs)),
      m + sum_list (map byte_val (take (midEnd - max i bassEnd) (drop (bassEnd - i) vs))),
      tr + sum_list (map byte_val (drop (midEnd - i) vs)))"
proof (induction vs arbitrary: i t b m tr)
  case Nil
  then show ?case by simp
next
  case (Cons v vs)
  show ?case
  proof (cases "i < bassEnd")
    case True
    then have "bassEnd - i = Suc (bassEnd - Suc i)" "midEnd - i = Suc (midEnd - Suc i)" 
       "max i bassEnd = bassEnd" "max (Suc i) bassEnd = bassEnd"
      using Cons.prems by auto
    then show ?thesis using True Cons.IH[OF Cons.prems] by (simp add: Let_def)
  next
    case False
    note nb = this
    show ?thesis
    proof (cases "i < midEnd")
      case True
      then have "bassEnd - i = 0" "bassEnd - Suc i = 0" "midEnd - i = Suc (midEnd - Suc i)" 
       "max i bassEnd = i" "max (Suc i) bassEnd = Suc i"
        using nb by auto
      then show ?thesis using True nb Cons.IH[OF Cons.prems] by (simp add: Let_def)
    next
      case False
      then have "bassEnd - i = 0" "bassEnd - Suc i = 0" "midEnd - i = 0" "midEnd - Suc i = 0"
        using nb by auto
      then show ?thesis using False nb Cons.IH[OF Cons.prems] by (simp add: Let_def)
    qed
  qed
qed

lemma ends_le: "bassEnd_of n \<le> midEnd_of n"
  unfolding bassEnd_of_def midEnd_of_def
  by (intro nat_mono floor_mono) simp

lemma midEnd_lt: "0 < n \<Longrightarrow> midEnd_of n < n"
proof -
  assume "0 < n"
  then have "real n * 0.40 < real n" by simp
  then have "\<lfloor>real n * 0.40\<rfloor> < int n" by linarith
  with \<open>0 < n\<close> show ?thesis unfolding midEnd_of_def by linarith
qed

lemma byte_val_bounds: "0 \<le> byte_val v \<and> byte_val v \<le> 255"
proof -
  have "unat v < 2 ^ 8" using unsigned_less [of v] by simp
  then have "unat v \<le> 255" by simp
  then have "real (unat v) \<le> real 255" by (rule of_nat_mono)
  moreover have "0 \<le> real (unat v)" by (rule of_nat_0_le_iff)
  ultimately show ?thesis unfolding byte_val_def by linarith
qed

lemma sum_bytes_bounds:
  "0 \<le> sum_list (map byte_val xs) \<and> sum_list (map byte_val xs) \<le> 255 * real (length xs)"
proof (induction xs)
  case Nil
  then show ?case by simp
next
  case (Cons x xs)
  then show ?case using byte_val_bounds [of x] by (simp add: algebra_simps)
qed

lemma mean_bounds: "0 \<le> mean xs \<and> mean xs \<le> 255"
proof (cases "xs = []")
  case True
  then show ?thesis by (simp add: mean_def)
next
  case False
  then have "0 < real (length xs)" by simp
  then show ?thesis using sum_bytes_bounds [of xs] False
    by (simp add: mean_def divide_le_eq)
qed


lemma or_one_nonzero: "or_one k \<noteq> 0"
  by (simp add: or_one_def)

lemma mean_take_or_one:
  "k \<le> length xs \<Longrightarrow>
   js_div (sum_list (map byte_val (take k xs))) (or_one k) = Some (mean (take k xs))"
  by (cases "k = 0") (auto simp: js_div_def mean_def or_one_def min_def)

lemma analyzeAudio_quotients_means:
  assumes "arr \<noteq> []"
  shows "analyzeAudio_quotients arr =
      (Some (mean arr),
       Some (mean (bins 0 (bassEnd_of (length arr)) arr)),
       Some (mean (bins (bassEnd_of (length arr)) (midEnd_of (length arr)) arr)),
       Some (mean (bins (midEnd_of (length arr)) (length arr) arr)))"
proof -
  let ?n = "length arr"
  let ?b = "bassEnd_of ?n"
  let ?m = "midEnd_of ?n"
  have bm: "?b \<le> ?m" by (rule ends_le)
  have mn: "?m < ?n" using assms by (simp add: midEnd_lt)
  have loop: "analyze_loop ?b ?m 0 arr (0, 0, 0, 0) =
      (sum_list (map byte_val arr),
       sum_list (map byte_val (take ?b arr)),
       sum_list (map byte_val (take (?m - ?b) (drop ?b arr))),
       sum_list (map byte_val (drop ?m arr)))"
    using analyze_loop_sums [OF bm, of 0 arr 0 0 0 0] by simp
  have e: "js_div (sum_list (map byte_val arr)) (real ?n) = Some (mean arr)"
    using assms by (simp add: js_div_def mean_def)
  have b: "js_div (sum_list (map byte_val (take ?b arr))) (or_one ?b) = Some (mean (bins 0 ?b arr))"
    using bm mn mean_take_or_one [of ?b arr] by (simp add: bins_def)
  have "?m - ?b \<le> length (drop ?b arr)" using mn by simp
  then have m: "js_div (sum_list (map byte_val (take (?m - ?b) (drop ?b arr)))) (or_one (?m - ?b))
      = Some (mean (bins ?b ?m arr))"
    using mean_take_or_one [of "?m - ?b" "drop ?b arr"] by (simp add: bins_def)
  have "?n - ?m \<le> length (drop ?m arr)" by simp
  then have t: "js_div (sum_list (map byte_val (drop ?m arr))) (or_one (?n - ?m))
      = Some (mean (bins ?m ?n arr))"
    using mean_take_or_one [of "?n - ?m" "drop ?m arr"] by (simp add: bins_def)
  show ?thesis
    unfolding analyzeAudio_quotients_def Let_def loop prod.case e b m t ..
qed

text \<open>On every array, empty or not, the three band quotients are real numbers.\<close>

lemma analyzeAudio_quotients_numbers:
  "\<exists>e b m t. analyzeAudio_quotients arr = (e, Some b, Some m, Some t)"
  by (simp add: analyzeAudio_quotients_def Let_def split_def js_div_def or_one_nonzero)

lemma analyzeAudio_fields:
  assumes "arr \<noteq> []"
  shows "energy (analyzeAudio fftSize arr) = Some (mean arr)"
    and "bassEnergy (analyzeAudio fftSize arr) =
           mean (bins 0 (bassEnd_of (length arr)) arr)"
    and "midEnergy (analyzeAudio fftSize arr) =
           mean (bins (bassEnd_of (length arr)) (midEnd_of (length arr)) arr)"
    and "trebleEnergy (analyzeAudio fftSize arr) =
           mean (bins (midEnd_of (length arr)) (length arr) arr)"
  by (simp_all add: analyzeAudio_def analyzeAudio_quotients_means [OF assms] number_def)

lemma bins_partition:
  "a \<le> b \<Longrightarrow> bins 0 a xs @ bins a b xs @ bins b (length xs) xs = xs"
proof -
  assume ab: "a \<le> b"
  have "take (b - a) (drop a xs) @ drop b xs = drop a xs"
    using ab by (metis add_diff_cancel_left' append_take_drop_id drop_drop le_Suc_ex add.commute)
  then show ?thesis by (simp add: bins_def)
qed

text \<open>
  Claim C1. On a non-empty array, the three band energies are the arithmetic means of
  the bins \<open>[0, bassEnd)\<close>, \<open>[bassEnd, midEnd)\<close> and \<open>[midEnd, length)\<close>, with
  \<open>bassEnd = floor (0.06 * length)\<close> and \<open>midEnd = floor (0.40 * length)\<close>; the three
  runs of bins, one after the other, are the whole array; each band energy lies in
  \<open>[0, 255]\<close>; \<open>energy\<close> is the mean of the whole array; none of the four quotients
  that the function returns is NaN; a band without bins has the divisor 1 and the
  quotient 0.
\<close>

theorem analyzeAudio_band_means:
  assumes "arr \<noteq> []"
  shows "(let n = length arr; b = bassEnd_of n; m = midEnd_of n;
              (e, bassQ, midQ, trebleQ) = analyzeAudio_quotients arr;
              r = analyzeAudio fftSize arr
          in b \<le> m \<and> m < n
           \<and> bins 0 b arr @ bins b m arr @ bins m n arr = arr
           \<and> e = Some (mean arr)
           \<and> bassQ = Some (mean (bins 0 b arr))
           \<and> midQ = Some (mean (bins b m arr))
           \<and> trebleQ = Some (mean (bins m n arr))
           \<and> bassEnergy r = mean (bins 0 b arr)
           \<and> midEnergy r = mean (bins b m arr)
           \<and> trebleEnergy r = mean (bins m n arr)
           \<and> energy r = Some (mean arr)
           \<and> 0 \<le> bassEnergy r \<and> bassEnergy r \<le> 255
           \<and> 0 \<le> midEnergy r \<and> midEnergy r \<le> 255
           \<and> 0 \<le> trebleEnergy r \<and> trebleEnergy r \<le> 255
           \<and> (b = 0 \<longrightarrow> or_one b = 1 \<and> bassQ = Some 0 \<and> bassEnergy r = 0)
           \<and> (m = b \<longrightarrow> or_one (m - b) = 1 \<and> midQ = Some 0 \<and> midEnergy r = 0))"
proof -
  have pos: "0 < length arr" using assms by simp
  have e0: "mean (bins a a arr) = 0" for a by (simp add: bins_def mean_def)
  have o: "or_one 0 = 1" by (simp add: or_one_def)
  show ?thesis
    unfolding Let_def analyzeAudio_quotients_means [OF assms] prod.case
    using ends_le [of "length arr"] midEnd_lt [OF pos]
      bins_partition [OF ends_le, where xs = arr]
      analyzeAudio_fields [OF assms, of fftSize] mean_bounds e0 o
    by simp
qed

theorem analyzeAudio_band_means_witness:
  "[200, 200, 0, 0, 0, 0, 0, 0, 0, 0, 0, 0, 0, 0, 0, 0, 0, 0, 0, 0 :: byte] \<noteq> []
   \<and> bassEnergy (analyzeAudio 2048 [200, 200, 0, 0, 0, 0, 0, 0, 0, 0, 0, 0, 0, 0, 0, 0, 0, 0, 0, 0]) = 200
   \<and> midEnergy (analyzeAudio 2048 [200, 200, 0, 0, 0, 0, 0, 0, 0, 0, 0, 0, 0, 0, 0, 0, 0, 0, 0, 0]) = 200 / 7
   \<and> trebleEnergy (analyzeAudio 2048 [200, 200, 0, 0, 0, 0, 0, 0, 0, 0, 0, 0, 0, 0, 0, 0, 0, 0, 0, 0]) = 0
   \<and> energy (analyzeAudio 2048 [200, 200, 0, 0, 0, 0, 0, 0, 0, 0, 0, 0, 0, 0, 0, 0, 0, 0, 0, 0]) = Some 20
   \<and> [60, 20 :: byte] \<noteq> []
   \<and> bassEnd_of (length [60, 20 :: byte]) = 0
   \<and> midEnd_of (length [60, 20 :: byte]) = 0
   \<and> analyzeAudio_quotients [60, 20] = (Some 40, Some 0, Some 0, Some 40)
   \<and> bassEnergy (analyzeAudio 2048 [60, 20]) = 0
   \<and> midEnergy (analyzeAudio 2048 [60, 20]) = 0
   \<and> trebleEnergy (analyzeAudio 2048 [60, 20]) = 40
   \<and> energy (analyzeAudio 2048 [60, 20]) = Some 40"
proof -
  let ?xs = "[200, 200, 0, 0, 0, 0, 0, 0, 0, 0, 0, 0, 0, 0, 0, 0, 0, 0, 0, 0 :: byte]"
  let ?ys = "[60, 20 :: byte]"
  have ne: "?xs \<noteq> []" by simp
  have len: "length ?xs = 20" by simp
  have b: "bassEnd_of 20 = 1" by (simp add: bassEnd_of_def)
  have m: "midEnd_of 20 = 8" by (simp add: midEnd_of_def)
  have ne2: "?ys \<noteq> []" by simp
  have len2: "length ?ys = 2" by simp
  have b2: "bassEnd_of 2 = 0" by (simp add: bassEnd_of_def)
  have m2: "midEnd_of 2 = 0" by (simp add: midEnd_of_def)
  have long: "bassEnergy (analyzeAudio 2048 ?xs) = 200
      \<and> midEnergy (analyzeAudio 2048 ?xs) = 200 / 7
      \<and> trebleEnergy (analyzeAudio 2048 ?xs) = 0
      \<and> energy (analyzeAudio 2048 ?xs) = Some 20"
    using analyzeAudio_band_means [OF ne, of 2048]
    unfolding Let_def len b m
    by (simp add: split_def bins_def mean_def byte_val_def)
  have short: "analyzeAudio_quotients ?ys = (Some 40, Some 0, Some 0, Some 40)
      \<and> bassEnergy (analyzeAudio 2048 ?ys) = 0
      \<and> midEnergy (analyzeAudio 2048 ?ys) = 0
      \<and> trebleEnergy (analyzeAudio 2048 ?ys) = 40
      \<and> energy (analyzeAudio 2048 ?ys) = Some 40"
    using analyzeAudio_band_means [OF ne2, of 2048]
    unfolding Let_def len2 b2 m2
    by (auto simp add: split_def bins_def mean_def byte_val_def prod_eq_iff)
  have ends: "bassEnd_of (length ?ys) = 0" "midEnd_of (length ?ys) = 0"
    by (simp_all add: bassEnd_of_def midEnd_of_def)
  show ?thesis using long short ne ne2 ends by blast
qed

section \<open>Properties of the blueprint generator\<close>

lemma unit_draws_random:
  "unit_draws g \<Longrightarrow> 0 \<le> fst (random g) \<and> fst (random g) < 1 \<and> unit_draws (snd (random g))"
  by (simp add: unit_draws_def random_def)

lemma unit_draws_half: "unit_draws half_draws"
  by (simp add: unit_draws_def half_draws_def)

lemma random_half: "random half_draws = (1 / 2, half_draws)"
  by (simp add: random_def half_draws_def)

lemma gen_ribs_pos:
  "map pos (fst (gen_ribs n idxs g)) = map (\<lambda>r. 0.2 + (real r / real n) * 0.6) idxs"
  by (induction idxs arbitrary: g) (simp_all add: Let_def split_def)

lemma rib_count_range: "0 \<le> u \<Longrightarrow> u < 1 \<Longrightarrow> 2 \<le> rib_count u \<and> rib_count u \<le> 5"
proof -
  assume u: "0 \<le> u" "u < 1"
  then have "0 \<le> \<lfloor>u * 4\<rfloor>" by simp
  moreover have "\<lfloor>u * 4\<rfloor> < 4" using u by (simp add: floor_less_iff)
  ultimately show ?thesis unfolding rib_count_def by linarith
qed

lemma rib_positions:
  assumes "0 < n"
  shows "sorted_wrt (<) (map (\<lambda>r. 0.2 + (real r / real n) * 0.6) [0..<n])"
    and "\<forall>q \<in> set (map (\<lambda>r. 0.2 + (real r / real n) * 0.6) [0..<n]). (0.2::real) \<le> q \<and> q < 0.8"
proof -
  show "sorted_wrt (<) (map (\<lambda>r. 0.2 + (real r / real n) * 0.6) [0..<n])"
    unfolding sorted_wrt_map
    by (rule sorted_wrt_mono_rel [OF _ sorted_wrt_upt]) (use assms in \<open>simp add: divide_strict_right_mono\<close>)
  show "\<forall>q \<in> set (map (\<lambda>r. 0.2 + (real r / real n) * 0.6) [0..<n]). (0.2::real) \<le> q \<and> q < 0.8"
  proof
    fix q assume "q \<in> set (map (\<lambda>r. 0.2 + (real r / real n) * 0.6) [0..<n])"
    then obtain r where r: "r < n" and q: "q = 0.2 + (real r / real n) * 0.6" by auto
    have "0 \<le> real r / real n" by simp
    moreover have "real r / real n < 1" using r assms by simp
    ultimately show "0.2 \<le> q \<and> q < 0.8" unfolding q by simp
  qed
qed

lemma neon_blueprint_ribs:
  assumes "unit_draws g"
  shows "\<exists>u g'. 0 \<le> u \<and> u < 1 \<and>
     ribs (fst (neon_blueprint g)) = fst (gen_ribs (rib_count u) [0..<rib_count u] g')"
proof (cases "g 0 < 0.3")
  case True
  have "0 \<le> g 3 \<and> g 3 < 1" using assms by (simp add: unit_draws_def)
  moreover have "ribs (fst (neon_blueprint g)) =
      fst (gen_ribs (rib_count (g 3)) [0..<rib_count (g 3)] (\<lambda>n. g (Suc (Suc (Suc (Suc n))))))"
    using True by (simp add: neon_blueprint_def Let_def split_def random_def rib_count_def eval_nat_numeral)
  ultimately show ?thesis by blast
next
  case False
  have "0 \<le> g 2 \<and> g 2 < 1" using assms by (simp add: unit_draws_def)
  moreover have "ribs (fst (neon_blueprint g)) =
      fst (gen_ribs (rib_count (g 2)) [0..<rib_count (g 2)] (\<lambda>n. g (Suc (Suc (Suc n)))))"
    using False by (simp add: neon_blueprint_def Let_def split_def random_def rib_count_def eval_nat_numeral)
  ultimately show ?thesis by blast
qed

lemma classic_blueprint_ribs:
  assumes "unit_draws g"
  shows "\<exists>u g'. 0 \<le> u \<and> u < 1 \<and>
     ribs (fst (classic_blueprint g)) = fst (gen_ribs (rib_count u) [0..<rib_count u] g')"
proof -
  have u: "0 \<le> g k \<and> g k < 1" for k using assms by (simp add: unit_draws_def)
  have "\<exists>k g'. ribs (fst (classic_blueprint g)) =
      fst (gen_ribs (rib_count (g k)) [0..<rib_count (g k)] g')"
    by (cases "g 0 < 0.3"; cases "g 1 > 0.5"; cases "g 2 > 0.5")
       (simp_all add: classic_blueprint_def Let_def split_def random_def rib_count_def, blast+)
  then show ?thesis using u by blast
qed

lemma gen_ribs_ok:
  assumes "0 \<le> u" "u < 1"
  shows "ribs_ok (fst (gen_ribs (rib_count u) [0..<rib_count u] g))"
proof -
  let ?n = "rib_count u"
  let ?rs = "fst (gen_ribs ?n [0..<?n] g)"
  have n: "2 \<le> ?n \<and> ?n \<le> 5" using assms by (rule rib_count_range)
  then have pos: "0 < ?n" by simp
  have m: "map pos ?rs = map (\<lambda>r. 0.2 + (real r / real ?n) * 0.6) [0..<?n]"
    by (rule gen_ribs_pos)
  have len: "length ?rs = ?n" using arg_cong [OF m, of length] by simp
  have "\<forall>q \<in> set (map pos ?rs). (0.2::real) \<le> q \<and> q < 0.8"
    unfolding m by (rule rib_positions(2) [OF pos])
  then have "\<forall>r \<in> set ?rs. 0.2 \<le> pos r \<and> pos r < 0.8" by simp
  moreover have "sorted_wrt (<) (map pos ?rs)" unfolding m by (rule rib_positions(1) [OF pos])
  ultimately show ?thesis using n len unfolding ribs_ok_def by simp
qed

text \<open>
  Claim C7, as amended. In both variants a blueprint has between two and five ribs, at
  strictly increasing positions that lie in the half-open interval \<open>[0.2, 0.8)\<close>. The
  first rib sits at \<open>0.2\<close> itself, which is why the open interval of the claim fails.
\<close>

theorem blueprint_ribs:
  assumes "unit_draws g"
  shows "ribs_ok (ribs (fst (neon_blueprint g))) \<and> ribs_ok (ribs (fst (classic_blueprint g)))"
  using neon_blueprint_ribs [OF assms] classic_blueprint_ribs [OF assms] gen_ribs_ok
  by metis

lemma neon_ribs_half:
  "map pos (ribs (fst (neon_blueprint half_draws))) = [0.2, 0.35, 0.5, 0.65]"
  by (simp add: neon_blueprint_def random_half Let_def upt_rec)

lemma classic_ribs_half:
  "map pos (ribs (fst (classic_blueprint half_draws))) = [0.2, 0.35, 0.5, 0.65]"
  by (simp add: classic_blueprint_def random_half Let_def upt_rec)

lemma hd_pos: "map pos rs = a # as \<Longrightarrow> pos (hd rs) = a"
  by (cases rs) auto

theorem blueprint_ribs_counterexample:
  "\<not> (0.2 < pos (hd (ribs (fst (neon_blueprint half_draws)))))
   \<and> \<not> (0.2 < pos (hd (ribs (fst (classic_blueprint half_draws)))))"
  using hd_pos [OF neon_ribs_half] hd_pos [OF classic_ribs_half] by simp

theorem blueprint_ribs_witness:
  "unit_draws half_draws
   \<and> ribs_ok (ribs (fst (neon_blueprint half_draws)))
   \<and> ribs_ok (ribs (fst (classic_blueprint half_draws)))
   \<and> map pos (ribs (fst (neon_blueprint half_draws))) = [0.2, 0.35, 0.5, 0.65]"
  using blueprint_ribs [OF unit_draws_half] unit_draws_half neon_ribs_half by simp

section \<open>Properties of the emitters\<close>

lemma unit_draws_snd_random: "unit_draws g \<Longrightarrow> unit_draws (snd (random g))"
  by (simp add: unit_draws_def random_def)

lemma unit_draws_fst_random: "unit_draws g \<Longrightarrow> 0 \<le> fst (random g) \<and> fst (random g) < 1"
  by (simp add: unit_draws_def random_def)

lemma createShard_loop_draws:
  "unit_draws g \<Longrightarrow> unit_draws (snd (createShard_loop sz sides idxs g))"
  by (induction idxs arbitrary: g) (simp_all add: Let_def split_def unit_draws_snd_random)

lemma createShard_draws: "unit_draws g \<Longrightarrow> unit_draws (snd (createShard sz g))"
  by (simp add: createShard_def Let_def split_def createShard_loop_draws unit_draws_snd_random)

lemma neon_emit_arm_new:
  "\<exists>new. fst (neon_emit_arm b h c s pts ps g) = ps @ new
      \<and> (unit_draws g \<longrightarrow> (\<forall>p \<in> set new. born (startZ b) p)
            \<and> unit_draws (snd (neon_emit_arm b h c s pts ps g)))"
proof (induction pts arbitrary: ps g)
  case Nil
  then show ?case by simp
next
  case (Cons pt pts)
  let ?g1 = "if skipRatio b > 0 then snd (random g) else g"
  have g1: "unit_draws g \<Longrightarrow> unit_draws ?g1" by (simp add: unit_draws_snd_random)
  show ?case
  proof (cases "skipRatio b > 0 \<and> fst (random g) < skipRatio b")
    case True
    then have "neon_emit_arm b h c s (pt # pts) ps g = neon_emit_arm b h c s pts ps ?g1"
      by (simp add: Let_def split_def)
    then show ?thesis using Cons.IH [of ps ?g1] g1 by auto
  next
    case False
    let ?ga = "snd (random (snd (random (snd (random (snd (random ?g1)))))))"
    let ?gb = "snd (createShard ((fst (random ?g1) * 4 + 1) * burstScale b) ?ga)"
    let ?g2 = "snd (random (snd (random ?gb)))"
    have g2: "unit_draws ?g2" if "unit_draws g"
    proof -
      have "unit_draws ?ga" using g1 [OF that] by (simp add: unit_draws_snd_random)
      then have "unit_draws ?gb" by (rule createShard_draws)
      then show ?thesis by (simp add: unit_draws_snd_random)
    qed
    have u3: "0 \<le> fst (random (snd (random (snd (random ?g1)))))" if "unit_draws g"
      using g1 [OF that] by (simp add: unit_draws_fst_random unit_draws_snd_random)
    obtain q where step: "neon_emit_arm b h c s (pt # pts) ps g = neon_emit_arm b h c s pts (ps @ [q]) ?g2"
      and q: "unit_draws g \<longrightarrow> born (startZ b) q"
      using False u3 by (cases "skipRatio b > 0") (simp_all add: Let_def split_def born_def FADE_SPEED_VAR_def)
    from Cons.IH [of "ps @ [q]" ?g2] obtain new where
      n: "fst (neon_emit_arm b h c s pts (ps @ [q]) ?g2) = (ps @ [q]) @ new"
      "unit_draws ?g2 \<longrightarrow> (\<forall>p \<in> set new. born (startZ b) p)
         \<and> unit_draws (snd (neon_emit_arm b h c s pts (ps @ [q]) ?g2))" by blast
    show ?thesis unfolding step using q n g2 by (intro exI [of _ "q # new"]) auto
  qed
qed

lemma neon_emit_new:
  "\<exists>new. fst (neon_emit b h arms pts idxs ps g) = ps @ new
      \<and> (unit_draws g \<longrightarrow> (\<forall>p \<in> set new. born (startZ b) p)
            \<and> unit_draws (snd (neon_emit b h arms pts idxs ps g)))"
proof (induction idxs arbitrary: ps g)
  case Nil
  then show ?case by simp
next
  case (Cons i idxs)
  let ?r = "neon_emit_arm b h (cos (real i / real arms * pi * 2)) (sin (real i / real arms * pi * 2)) pts ps g"
  from neon_emit_arm_new obtain new1 where
    a: "fst ?r = ps @ new1"
       "unit_draws g \<longrightarrow> (\<forall>p \<in> set new1. born (startZ b) p) \<and> unit_draws (snd ?r)" by blast
  from Cons.IH [of "fst ?r" "snd ?r"] obtain new2 where
    b: "fst (neon_emit b h arms pts idxs (fst ?r) (snd ?r)) = fst ?r @ new2"
       "unit_draws (snd ?r) \<longrightarrow> (\<forall>p \<in> set new2. born (startZ b) p)
          \<and> unit_draws (snd (neon_emit b h arms pts idxs (fst ?r) (snd ?r)))" by blast
  have "neon_emit b h arms pts (i # idxs) ps g = neon_emit b h arms pts idxs (fst ?r) (snd ?r)"
    by (simp add: Let_def split_def)
  then show ?case using a b by (intro exI [of _ "new1 @ new2"]) auto
qed

lemma gen_ribs_draws: "unit_draws g \<Longrightarrow> unit_draws (snd (gen_ribs n idxs g))"
  by (induction idxs arbitrary: g) (simp_all add: Let_def split_def unit_draws_snd_random)

lemma neon_blueprint_draws: "unit_draws g \<Longrightarrow> unit_draws (snd (neon_blueprint g))"
  by (simp add: neon_blueprint_def Let_def split_def gen_ribs_draws unit_draws_snd_random)

lemma classic_blueprint_draws: "unit_draws g \<Longrightarrow> unit_draws (snd (classic_blueprint g))"
  by (simp add: classic_blueprint_def Let_def split_def gen_ribs_draws unit_draws_snd_random)

lemma depth_draw: "0 \<le> u \<Longrightarrow> u < 1 \<Longrightarrow> 0 < d \<Longrightarrow> - d \<le> (u - 0.5) * (2 * d) \<and> (u - 0.5) * (2 * d) < (d::real)"
  by (simp add: algebra_simps)

lemma spawnNeonSnowflake_full:
  "length (particles s) > 2000 \<Longrightarrow> spawnNeonSnowflake f band intensity s g = (s, g)"
  by (simp add: spawnNeonSnowflake_def)

lemma spawnNeonSnowflake_effect:
  "\<exists>new t. fst (spawnNeonSnowflake f band intensity s g)
            = s\<lparr>particles := particles s @ new, lastSpawnTime := t\<rparr>
      \<and> (unit_draws g \<longrightarrow> (\<forall>p \<in> set new. newborn 200 p)
            \<and> unit_draws (snd (spawnNeonSnowflake f band intensity s g)))"
proof (cases "length (particles s) > 2000")
  case True
  then show ?thesis
    by (intro exI [of _ "[]"] exI [of _ "lastSpawnTime s"]) (simp add: spawnNeonSnowflake_full)
next
  case False
  let ?g3 = "snd (random (snd (random g)))"
  let ?u = "fst (random ?g3)"
  let ?g4 = "snd (random (snd (random ?g3)))"
  let ?bp = "neon_blueprint ?g4"
  have g5: "unit_draws (snd ?bp)" and z: "- 200 \<le> (?u - 0.5) * 400 \<and> (?u - 0.5) * 400 < 200"
    if "unit_draws g"
  proof -
    have g3: "unit_draws ?g3" using that by (simp add: unit_draws_snd_random)
    then have "unit_draws ?g4" by (simp add: unit_draws_snd_random)
    then show "unit_draws (snd ?bp)" by (rule neon_blueprint_draws)
    show "- 200 \<le> (?u - 0.5) * 400 \<and> (?u - 0.5) * 400 < 200"
      using unit_draws_fst_random [OF g3] depth_draw [of ?u 200] by simp
  qed
  obtain b h pts where
    sp: "spawnNeonSnowflake f band intensity s g =
       (case neon_emit b h 6 pts [0..<6] (particles s) (snd ?bp) of
          (ps, g') \<Rightarrow> (s\<lparr>lastSpawnTime := now f, particles := ps\<rparr>, g'))"
    and b: "startZ b = (?u - 0.5) * 400"
    using False by (simp add: spawnNeonSnowflake_def Let_def split_def)
  from neon_emit_new [of b h 6 pts "[0..<6]" "particles s" "snd ?bp"] obtain new where
    n: "fst (neon_emit b h 6 pts [0..<6] (particles s) (snd ?bp)) = particles s @ new"
       "unit_draws (snd ?bp) \<longrightarrow> (\<forall>p \<in> set new. born (startZ b) p)
          \<and> unit_draws (snd (neon_emit b h 6 pts [0..<6] (particles s) (snd ?bp)))" by blast
  have "\<forall>p \<in> set new. newborn 200 p" if "unit_draws g"
    using n(2) g5 [OF that] z [OF that] unfolding b born_def newborn_def by simp
  then show ?thesis using n g5 unfolding sp
    by (intro exI [of _ new] exI [of _ "now f"]) (simp add: split_def)
qed

lemma addParticle_full:
  "length (particles s) > 4000 \<Longrightarrow> addParticle x0 y0 z0 a b c col lm sm s g = (s, g)"
  by (simp add: addParticle_def)

lemma addParticle_size:
  "length (particles (fst (addParticle x0 y0 z0 a b c col lm sm s g))) \<le> max (length (particles s)) 4001"
  by (simp add: addParticle_def Let_def split_def)

lemma addParticle_effect:
  "\<exists>new. fst (addParticle x0 y0 z0 a b 0 col 1 sm s g) = s\<lparr>particles := particles s @ new\<rparr>
      \<and> length (particles s @ new) \<le> max (length (particles s)) 4001
      \<and> (length (particles s) > 4000 \<longrightarrow> new = [])
      \<and> (unit_draws g \<longrightarrow> (\<forall>p \<in> set new. born z0 p)
            \<and> unit_draws (snd (addParticle x0 y0 z0 a b 0 col 1 sm s g)))"
proof (cases "length (particles s) > 4000")
  case True
  then show ?thesis by (intro exI [of _ "[]"]) (simp add: addParticle_full)
next
  case False
  have u2: "0 \<le> fst (random (snd (random g)))" if "unit_draws g"
    using that by (simp add: unit_draws_fst_random unit_draws_snd_random)
  have g3: "unit_draws (snd (random (snd (random (snd (random g))))))" if "unit_draws g"
    using that by (simp add: unit_draws_snd_random)
  obtain q where q: "fst (addParticle x0 y0 z0 a b 0 col 1 sm s g) = s\<lparr>particles := particles s @ [q]\<rparr>"
    "unit_draws g \<longrightarrow> born z0 q"
    using False u2 by (simp add: addParticle_def Let_def split_def born_def FADE_SPEED_VAR_def)
  have "snd (addParticle x0 y0 z0 a b 0 col 1 sm s g) = snd (random (snd (random (snd (random g)))))"
    using False by (simp add: addParticle_def Let_def split_def)
  then show ?thesis using q g3 False by (intro exI [of _ "[q]"]) simp
qed

lemma classic_emit_arm_new:
  "\<exists>new. fst (classic_emit_arm b col c sn pts s g) = s\<lparr>particles := particles s @ new\<rparr>
      \<and> length (particles s @ new) \<le> max (length (particles s)) 4001
      \<and> (length (particles s) > 4000 \<longrightarrow> new = [])
      \<and> (unit_draws g \<longrightarrow> (\<forall>p \<in> set new. born (startZ b) p)
            \<and> unit_draws (snd (classic_emit_arm b col c sn pts s g)))"
proof (induction pts arbitrary: s g)
  case Nil
  then show ?case by (intro exI [of _ "[]"]) simp
next
  case (Cons pt pts)
  let ?g1 = "if skipRatio b > 0 then snd (random g) else g"
  have g1: "unit_draws g \<Longrightarrow> unit_draws ?g1" by (simp add: unit_draws_snd_random)
  show ?case
  proof (cases "skipRatio b > 0 \<and> fst (random g) < skipRatio b")
    case True
    then have step: "classic_emit_arm b col c sn (pt # pts) s g = classic_emit_arm b col c sn pts s ?g1"
      by (simp add: Let_def split_def)
    from Cons.IH [of s ?g1] obtain new where
      n: "fst (classic_emit_arm b col c sn pts s ?g1) = s\<lparr>particles := particles s @ new\<rparr>"
         "length (particles s @ new) \<le> max (length (particles s)) 4001"
         "length (particles s) > 4000 \<longrightarrow> new = []"
         "unit_draws ?g1 \<longrightarrow> (\<forall>p \<in> set new. born (startZ b) p)
            \<and> unit_draws (snd (classic_emit_arm b col c sn pts s ?g1))" by blast
    show ?thesis unfolding step using n g1 by (intro exI [of _ new]) blast
  next
    case False
    let ?a = "addParticle (startX b) (startY b) (startZ b)
                ((fst pt * c - snd pt * sn) * burstScale b * speedBase b)
                ((fst pt * sn + snd pt * c) * burstScale b * speedBase b) 0 col 1 (burstScale b) s ?g1"
    have step: "classic_emit_arm b col c sn (pt # pts) s g = classic_emit_arm b col c sn pts (fst ?a) (snd ?a)"
      using False by (cases "skipRatio b > 0") (simp_all add: Let_def split_def)
    from addParticle_effect obtain new1 where
      a: "fst ?a = s\<lparr>particles := particles s @ new1\<rparr>"
         "length (particles s @ new1) \<le> max (length (particles s)) 4001"
         "length (particles s) > 4000 \<longrightarrow> new1 = []"
         "unit_draws ?g1 \<longrightarrow> (\<forall>p \<in> set new1. born (startZ b) p) \<and> unit_draws (snd ?a)" by blast
    from Cons.IH [of "fst ?a" "snd ?a"] obtain new2 where
      b: "fst (classic_emit_arm b col c sn pts (fst ?a) (snd ?a)) = (fst ?a)\<lparr>particles := particles (fst ?a) @ new2\<rparr>"
         "length (particles (fst ?a) @ new2) \<le> max (length (particles (fst ?a))) 4001"
         "length (particles (fst ?a)) > 4000 \<longrightarrow> new2 = []"
         "unit_draws (snd ?a) \<longrightarrow> (\<forall>p \<in> set new2. born (startZ b) p)
            \<and> unit_draws (snd (classic_emit_arm b col c sn pts (fst ?a) (snd ?a)))" by blast
    show ?thesis unfolding step using a b g1
      by (intro exI [of _ "new1 @ new2"]) (auto simp: a(1))
  qed
qed

lemma classic_emit_new:
  "\<exists>new. fst (classic_emit b col arms pts idxs s g) = s\<lparr>particles := particles s @ new\<rparr>
      \<and> length (particles s @ new) \<le> max (length (particles s)) 4001
      \<and> (length (particles s) > 4000 \<longrightarrow> new = [])
      \<and> (unit_draws g \<longrightarrow> (\<forall>p \<in> set new. born (startZ b) p)
            \<and> unit_draws (snd (classic_emit b col arms pts idxs s g)))"
proof (induction idxs arbitrary: s g)
  case Nil
  then show ?case by (intro exI [of _ "[]"]) simp
next
  case (Cons i idxs)
  let ?a = "classic_emit_arm b col (cos (real i / real arms * pi * 2)) (sin (real i / real arms * pi * 2)) pts s g"
  have step: "classic_emit b col arms pts (i # idxs) s g = classic_emit b col arms pts idxs (fst ?a) (snd ?a)"
    by (simp add: Let_def split_def)
  from classic_emit_arm_new obtain new1 where
    a: "fst ?a = s\<lparr>particles := particles s @ new1\<rparr>"
       "length (particles s @ new1) \<le> max (length (particles s)) 4001"
       "length (particles s) > 4000 \<longrightarrow> new1 = []"
       "unit_draws g \<longrightarrow> (\<forall>p \<in> set new1. born (startZ b) p) \<and> unit_draws (snd ?a)" by blast
  from Cons.IH [of "fst ?a" "snd ?a"] obtain new2 where
    b: "fst (classic_emit b col arms pts idxs (fst ?a) (snd ?a)) = (fst ?a)\<lparr>particles := particles (fst ?a) @ new2\<rparr>"
       "length (particles (fst ?a) @ new2) \<le> max (length (particles (fst ?a))) 4001"
       "length (particles (fst ?a)) > 4000 \<longrightarrow> new2 = []"
       "unit_draws (snd ?a) \<longrightarrow> (\<forall>p \<in> set new2. born (startZ b) p)
          \<and> unit_draws (snd (classic_emit b col arms pts idxs (fst ?a) (snd ?a)))" by blast
  show ?case unfolding step using a b
    by (intro exI [of _ "new1 @ new2"]) (auto simp: a(1))
qed

lemma classic_addLine_loop_draws:
  "unit_draws g \<Longrightarrow> unit_draws (snd (classic_addLine_loop x1 y1 x2 y2 n idxs pts g))"
  by (induction idxs arbitrary: pts g) (simp_all add: Let_def split_def unit_draws_snd_random)

lemma classic_addLine_draws:
  "unit_draws g \<Longrightarrow> unit_draws (snd (classic_addLine x1 y1 x2 y2 d pts g))"
  by (simp add: classic_addLine_def Let_def classic_addLine_loop_draws)

lemma classic_subribs_loop_draws:
  "unit_draws g \<Longrightarrow> unit_draws (snd (classic_subribs_loop rib ex ey idxs pts g))"
  by (induction idxs arbitrary: pts g) (simp_all add: Let_def split_def classic_addLine_draws)

lemma classic_subribs_draws:
  "unit_draws g \<Longrightarrow> unit_draws (snd (classic_subribs rib ex ey pts g))"
  by (simp add: classic_subribs_def classic_subribs_loop_draws)

lemma classic_ribs_draws:
  "unit_draws g \<Longrightarrow> unit_draws (snd (classic_ribs rs pts g))"
  by (induction rs arbitrary: pts g)
     (simp_all add: Let_def split_def classic_addLine_draws classic_subribs_draws)

lemma classic_points_draws:
  "unit_draws g \<Longrightarrow> unit_draws (snd (classic_points bp g))"
  by (simp add: classic_points_def Let_def split_def classic_addLine_draws classic_ribs_draws)

lemma spawnSnowflake_effect:
  "\<exists>new. fst (spawnSnowflake f band intensity s g)
            = s\<lparr>particles := particles s @ new, lastSpawnTime := now f\<rparr>
      \<and> length (particles s @ new) \<le> max (length (particles s)) 4001
      \<and> (length (particles s) > 4000 \<longrightarrow> new = [])
      \<and> (unit_draws g \<longrightarrow> (\<forall>p \<in> set new. newborn 150 p)
            \<and> unit_draws (snd (spawnSnowflake f band intensity s g)))"
proof -
  let ?g3 = "snd (random (snd (random g)))"
  let ?u = "fst (random ?g3)"
  let ?g4 = "snd (random (snd (random ?g3)))"
  let ?bp = "classic_blueprint ?g4"
  let ?pt = "classic_points (fst ?bp) (snd ?bp)"
  let ?s1 = "s\<lparr>lastSpawnTime := now f\<rparr>"
  have g6: "unit_draws (snd ?pt)" and z: "- 150 \<le> (?u - 0.5) * 300 \<and> (?u - 0.5) * 300 < 150"
    if "unit_draws g"
  proof -
    have g3: "unit_draws ?g3" using that by (simp add: unit_draws_snd_random)
    then have "unit_draws ?g4" by (simp add: unit_draws_snd_random)
    then have "unit_draws (snd ?bp)" by (rule classic_blueprint_draws)
    then show "unit_draws (snd ?pt)" by (rule classic_points_draws)
    show "- 150 \<le> (?u - 0.5) * 300 \<and> (?u - 0.5) * 300 < 150"
      using unit_draws_fst_random [OF g3] depth_draw [of ?u 150] by simp
  qed
  obtain b col where
    sp: "spawnSnowflake f band intensity s g = classic_emit b col 6 (fst ?pt) [0..<6] ?s1 (snd ?pt)"
    and b: "startZ b = (?u - 0.5) * 300"
    by (simp add: spawnSnowflake_def Let_def split_def)
  from classic_emit_new [of b col 6 "fst ?pt" "[0..<6]" ?s1 "snd ?pt"] obtain new where
    n: "fst (classic_emit b col 6 (fst ?pt) [0..<6] ?s1 (snd ?pt)) = ?s1\<lparr>particles := particles ?s1 @ new\<rparr>"
       "length (particles ?s1 @ new) \<le> max (length (particles ?s1)) 4001"
       "length (particles ?s1) > 4000 \<longrightarrow> new = []"
       "unit_draws (snd ?pt) \<longrightarrow> (\<forall>p \<in> set new. born (startZ b) p)
          \<and> unit_draws (snd (classic_emit b col 6 (fst ?pt) [0..<6] ?s1 (snd ?pt)))" by blast
  have "\<forall>p \<in> set new. newborn 150 p" if "unit_draws g"
    using n(4) g6 [OF that] z [OF that] unfolding b born_def newborn_def by simp
  then show ?thesis using n g6 unfolding sp
    by (intro exI [of _ new]) simp
qed

section \<open>Properties of the beat detector\<close>

lemma spawnNeon_fields [simp]:
  "avgBass (fst (spawnNeonSnowflake f band i s g)) = avgBass s"
  "avgMid (fst (spawnNeonSnowflake f band i s g)) = avgMid s"
  "avgTreble (fst (spawnNeonSnowflake f band i s g)) = avgTreble s"
  "bassThreshold (fst (spawnNeonSnowflake f band i s g)) = bassThreshold s"
  "midThreshold (fst (spawnNeonSnowflake f band i s g)) = midThreshold s"
  "trebleThreshold (fst (spawnNeonSnowflake f band i s g)) = trebleThreshold s"
  "isFrozen (fst (spawnNeonSnowflake f band i s g)) = isFrozen s"
  "cameraOffset (fst (spawnNeonSnowflake f band i s g)) = cameraOffset s"
  "targetOffset (fst (spawnNeonSnowflake f band i s g)) = targetOffset s"
  "lastVideoTime (fst (spawnNeonSnowflake f band i s g)) = lastVideoTime s"
  "lastDetectedGesture (fst (spawnNeonSnowflake f band i s g)) = lastDetectedGesture s"
  using spawnNeonSnowflake_effect [of f band i s g] by auto

lemma spawn_fields [simp]:
  "avgBass (fst (spawnSnowflake f band i s g)) = avgBass s"
  "avgMid (fst (spawnSnowflake f band i s g)) = avgMid s"
  "avgTreble (fst (spawnSnowflake f band i s g)) = avgTreble s"
  "bassThreshold (fst (spawnSnowflake f band i s g)) = bassThreshold s"
  "midThreshold (fst (spawnSnowflake f band i s g)) = midThreshold s"
  "trebleThreshold (fst (spawnSnowflake f band i s g)) = trebleThreshold s"
  "rotation (fst (spawnSnowflake f band i s g)) = rotation s"
  using spawnSnowflake_effect [of f band i s g] by auto

lemma neon_bass_block_eq:
  "neon_bass_block f a (s, g, calls, spawned) =
     (if bass_hit a s
      then ((fst (spawnNeonSnowflake f Bass (min (bassEnergy a / 255) 1) s g))
               \<lparr>bassThreshold := BEAT_THRESHOLD_INIT * 1.5\<rparr>,
            snd (spawnNeonSnowflake f Bass (min (bassEnergy a / 255) 1) s g),
            calls @ [(Bass, min (bassEnergy a / 255) 1)], True)
      else (s\<lparr>bassThreshold := max BEAT_THRESHOLD_INIT (bassThreshold s * BEAT_DECAY_RATE)\<rparr>,
            g, calls, spawned))"
  by (simp add: neon_bass_block_def bass_hit_def Let_def split_def)

lemma neon_mid_block_eq:
  "neon_mid_block f a (s, g, calls, spawned) =
     (if \<not> spawned \<and> mid_hit a s
      then ((fst (spawnNeonSnowflake f Mid (min (midEnergy a / 255) 1) s g))
               \<lparr>midThreshold := BEAT_THRESHOLD_INIT * 1.5\<rparr>,
            snd (spawnNeonSnowflake f Mid (min (midEnergy a / 255) 1) s g),
            calls @ [(Mid, min (midEnergy a / 255) 1)], True)
      else (s\<lparr>midThreshold := max BEAT_THRESHOLD_INIT (midThreshold s * BEAT_DECAY_RATE)\<rparr>,
            g, calls, spawned))"
  by (simp add: neon_mid_block_def mid_hit_def Let_def split_def)

lemma neon_treble_block_eq:
  "neon_treble_block f a (s, g, calls, spawned) =
     (if \<not> spawned \<and> treble_hit a s
      then ((fst (spawnNeonSnowflake f Treble (min (trebleEnergy a / 255) 1) s g))
               \<lparr>trebleThreshold := BEAT_THRESHOLD_INIT * 1.4\<rparr>,
            snd (spawnNeonSnowflake f Treble (min (trebleEnergy a / 255) 1) s g),
            calls @ [(Treble, min (trebleEnergy a / 255) 1)], True)
      else (s\<lparr>trebleThreshold := max BEAT_THRESHOLD_INIT (trebleThreshold s * BEAT_DECAY_RATE)\<rparr>,
            g, calls, spawned))"
  by (simp add: neon_treble_block_def treble_hit_def Let_def split_def)

lemma neon_fallback_block_eq:
  "neon_fallback_block f a t (s, g, calls, spawned) =
     (if \<not> spawned \<and> t > 600 \<and> num_gt (energy a) 10
      then (fst (spawnNeonSnowflake f (dominant a) 0.4 s g),
            snd (spawnNeonSnowflake f (dominant a) 0.4 s g),
            calls @ [(dominant a, 0.4)], spawned)
      else (s, g, calls, spawned))"
  by (simp add: neon_fallback_block_def dominant_def Let_def split_def)

lemma neon_beat_calls:
  "snd (snd (neon_beat f a s g)) = expected_calls (now f) a s"
  by (simp add: neon_beat_def Let_def split_def expected_calls_def
      neon_bass_block_eq neon_mid_block_eq neon_treble_block_eq neon_fallback_block_eq
      mid_hit_def treble_hit_def)

lemma appends_refl: "appends d x x"
  by (simp add: appends_def)

lemma appends_trans: "appends d x y \<Longrightarrow> appends d y z \<Longrightarrow> appends d x z"
  unfolding appends_def by (elim exE conjE, rule_tac x="new @ newa" in exI) auto

lemma spawnNeonSnowflake_appends:
  "appends 200 (particles s, g)
     (particles (fst (spawnNeonSnowflake f band i s g)), snd (spawnNeonSnowflake f band i s g))"
  using spawnNeonSnowflake_effect [of f band i s g] unfolding appends_def by auto

lemma neon_beat_thresholds:
  "bassThreshold (fst (neon_beat f a s g)) = next_threshold (bass_fires a s) 1.5 (bassThreshold s)"
  "midThreshold (fst (neon_beat f a s g)) = next_threshold (mid_fires a s) 1.5 (midThreshold s)"
  "trebleThreshold (fst (neon_beat f a s g)) = next_threshold (treble_fires a s) 1.4 (trebleThreshold s)"
  by (auto simp add: neon_beat_def Let_def split_def next_threshold_def
      bass_fires_def mid_fires_def treble_fires_def
      neon_bass_block_eq neon_mid_block_eq neon_treble_block_eq neon_fallback_block_eq
      mid_hit_def treble_hit_def)

lemma neon_beat_averages:
  "avgBass (fst (neon_beat f a s g)) = next_average (avgBass s) (bassEnergy a)"
  "avgMid (fst (neon_beat f a s g)) = next_average (avgMid s) (midEnergy a)"
  "avgTreble (fst (neon_beat f a s g)) = next_average (avgTreble s) (trebleEnergy a)"
  by (simp_all add: neon_beat_def Let_def split_def next_average_def
      neon_bass_block_eq neon_mid_block_eq neon_treble_block_eq neon_fallback_block_eq)

lemma neon_beat_gesture_fields:
  "isFrozen (fst (neon_beat f a s g)) = isFrozen s"
  "cameraOffset (fst (neon_beat f a s g)) = cameraOffset s"
  "targetOffset (fst (neon_beat f a s g)) = targetOffset s"
  "lastVideoTime (fst (neon_beat f a s g)) = lastVideoTime s"
  "lastDetectedGesture (fst (neon_beat f a s g)) = lastDetectedGesture s"
  by (simp_all add: neon_beat_def Let_def split_def
      neon_bass_block_eq neon_mid_block_eq neon_treble_block_eq neon_fallback_block_eq)

lemma neon_blocks_append:
  "appends 200 (particles s, g)
     (particles (fst (neon_bass_block f a (s, g, c, sp))), fst (snd (neon_bass_block f a (s, g, c, sp))))"
  "appends 200 (particles s, g)
     (particles (fst (neon_mid_block f a (s, g, c, sp))), fst (snd (neon_mid_block f a (s, g, c, sp))))"
  "appends 200 (particles s, g)
     (particles (fst (neon_treble_block f a (s, g, c, sp))), fst (snd (neon_treble_block f a (s, g, c, sp))))"
  "appends 200 (particles s, g)
     (particles (fst (neon_fallback_block f a t (s, g, c, sp))), fst (snd (neon_fallback_block f a t (s, g, c, sp))))"
  by (simp_all add: neon_bass_block_eq neon_mid_block_eq neon_treble_block_eq neon_fallback_block_eq
      appends_refl spawnNeonSnowflake_appends)

lemma neon_beat_appends:
  "appends 200 (particles s, g) (particles (fst (neon_beat f a s g)), fst (snd (neon_beat f a s g)))"
proof -
  let ?r1 = "neon_bass_block f a (s, g, [], False)"
  let ?r2 = "neon_mid_block f a ?r1"
  let ?r3 = "neon_treble_block f a ?r2"
  let ?r4 = "neon_fallback_block f a (now f - lastSpawnTime s) ?r3"
  have res: "particles (fst (neon_beat f a s g)) = particles (fst ?r4)"
    "fst (snd (neon_beat f a s g)) = fst (snd ?r4)"
    by (simp_all add: neon_beat_def Let_def split_def)
  have 1: "appends 200 (particles s, g) (particles (fst ?r1), fst (snd ?r1))"
    by (rule neon_blocks_append)
  have 2: "appends 200 (particles (fst ?r1), fst (snd ?r1)) (particles (fst ?r2), fst (snd ?r2))"
    using neon_blocks_append(2) [of "fst ?r1" "fst (snd ?r1)" f a "fst (snd (snd ?r1))" "snd (snd (snd ?r1))"]
    by simp
  have 3: "appends 200 (particles (fst ?r2), fst (snd ?r2)) (particles (fst ?r3), fst (snd ?r3))"
    using neon_blocks_append(3) [of "fst ?r2" "fst (snd ?r2)" f a "fst (snd (snd ?r2))" "snd (snd (snd ?r2))"]
    by simp
  have 4: "appends 200 (particles (fst ?r3), fst (snd ?r3)) (particles (fst ?r4), fst (snd ?r4))"
    using neon_blocks_append(4) [of "fst ?r3" "fst (snd ?r3)" f a "now f - lastSpawnTime s" "fst (snd (snd ?r3))" "snd (snd (snd ?r3))"]
    by simp
  show ?thesis unfolding res
    by (rule appends_trans [OF appends_trans [OF appends_trans [OF 1 2] 3] 4])
qed

section \<open>Properties of the particle loop\<close>

lemma neon_loop_Suc:
  "neon_loop frozen en (Suc i) ps dr =
     (if alive (neon_aged frozen en (ps ! i))
      then neon_loop frozen en i (ps[i := neon_aged frozen en (ps ! i)])
             (if neon_scale_positive (neon_aged frozen en (ps ! i))
              then dr @ [neon_aged frozen en (ps ! i)] else dr)
      else neon_loop frozen en i
             (take i (ps[i := neon_aged frozen en (ps ! i)])
                @ drop (Suc i) (ps[i := neon_aged frozen en (ps ! i)])) dr)"
  by (simp add: neon_aged_def alive_def Let_def)

lemma neon_loop_eq:
  "n \<le> length ps \<Longrightarrow>
   neon_loop frozen en n ps dr =
     (filter alive (map (neon_aged frozen en) (take n ps)) @ drop n ps,
      dr @ filter neon_scale_positive (rev (filter alive (map (neon_aged frozen en) (take n ps)))))"
proof (induction n arbitrary: ps dr)
  case 0
  then show ?case by simp
next
  case (Suc i)
  let ?p = "neon_aged frozen en (ps ! i)"
  have i: "i < length ps" using Suc.prems by simp
  have tk: "take (Suc i) ps = take i ps @ [ps ! i]" using i by (simp add: take_Suc_conv_app_nth)
  show ?case
  proof (cases "alive ?p")
    case True
    have le: "i \<le> length (ps[i := ?p])" using i by simp
    have d: "drop i (ps[i := ?p]) = ?p # drop (Suc i) ps"
      using i by (simp add: upd_conv_take_nth_drop)
    show ?thesis
      unfolding neon_loop_Suc using True d
      by (simp add: Suc.IH [OF le] tk del: neon_loop.simps)
  next
    case False
    let ?qs = "take i ps @ drop (Suc i) ps"
    have le: "i \<le> length ?qs" using i by simp
    have qs: "take i ?qs = take i ps" "drop i ?qs = drop (Suc i) ps" using i by simp_all
    show ?thesis
      unfolding neon_loop_Suc using False i
      by (simp add: Suc.IH [OF le] qs tk del: neon_loop.simps)
  qed
qed

lemma neon_loop_all:
  "neon_loop frozen en (length ps) ps [] =
     (filter alive (map (neon_aged frozen en) ps),
      filter neon_scale_positive (rev (filter alive (map (neon_aged frozen en) ps))))"
  using neon_loop_eq [of "length ps" ps frozen en "[]"] by simp

lemma classic_loop_Suc:
  "classic_loop f rot en (Suc i) ps dr =
     (if alive (classic_update en (ps ! i))
      then classic_loop f rot en i (ps[i := classic_update en (ps ! i)])
             (dr @ classic_shown f rot [classic_update en (ps ! i)])
      else classic_loop f rot en i
             (take i (ps[i := classic_update en (ps ! i)])
                @ drop (Suc i) (ps[i := classic_update en (ps ! i)])) dr)"
  by (simp add: alive_def Let_def classic_shown_def List.map_filter_simps split: option.splits)

lemma classic_shown_append:
  "classic_shown f rot (xs @ ys) = classic_shown f rot xs @ classic_shown f rot ys"
  by (simp add: classic_shown_def List.map_filter_def)

lemma classic_shown_Cons:
  "classic_shown f rot (p # ps) = classic_shown f rot [p] @ classic_shown f rot ps"
  using classic_shown_append [of f rot "[p]" ps] by simp

lemma classic_loop_eq:
  "n \<le> length ps \<Longrightarrow>
   classic_loop f rot en n ps dr =
     (filter alive (map (classic_update en) (take n ps)) @ drop n ps,
      dr @ classic_shown f rot (rev (filter alive (map (classic_update en) (take n ps)))))"
proof (induction n arbitrary: ps dr)
  case 0
  then show ?case by (simp add: classic_shown_def List.map_filter_simps)
next
  case (Suc i)
  let ?p = "classic_update en (ps ! i)"
  have i: "i < length ps" using Suc.prems by simp
  have tk: "take (Suc i) ps = take i ps @ [ps ! i]" using i by (simp add: take_Suc_conv_app_nth)
  show ?case
  proof (cases "alive ?p")
    case True
    have le: "i \<le> length (ps[i := ?p])" using i by simp
    have d: "drop i (ps[i := ?p]) = ?p # drop (Suc i) ps"
      using i by (simp add: upd_conv_take_nth_drop)
    show ?thesis
      unfolding classic_loop_Suc using True d
      by (simp add: Suc.IH [OF le] tk classic_shown_append
          classic_shown_Cons [of f rot ?p "rev (filter alive (map (classic_update en) (take i ps)))"]
          del: classic_loop.simps)
  next
    case False
    let ?qs = "take i ps @ drop (Suc i) ps"
    have le: "i \<le> length ?qs" using i by simp
    have qs: "take i ?qs = take i ps" "drop i ?qs = drop (Suc i) ps" using i by simp_all
    show ?thesis
      unfolding classic_loop_Suc using False i
      by (simp add: Suc.IH [OF le] qs tk del: classic_loop.simps)
  qed
qed

lemma classic_loop_all:
  "classic_loop f rot en (length ps) ps [] =
     (filter alive (map (classic_update en) ps),
      classic_shown f rot (rev (filter alive (map (classic_update en) ps))))"
  using classic_loop_eq [of "length ps" ps f rot en "[]"] by simp

section \<open>Properties of the classic beat detector\<close>

lemma classic_bass_block_eq:
  "classic_bass_block f a (s, g, calls, spawned) =
     (if bass_hit a s
      then ((fst (spawnSnowflake f Bass (min (bassEnergy a / 255) 1) s g))
               \<lparr>bassThreshold := BEAT_THRESHOLD_INIT * 1.5\<rparr>,
            snd (spawnSnowflake f Bass (min (bassEnergy a / 255) 1) s g),
            calls @ [(Bass, min (bassEnergy a / 255) 1)], True)
      else (s\<lparr>bassThreshold := max BEAT_THRESHOLD_INIT (bassThreshold s * BEAT_DECAY_RATE)\<rparr>,
            g, calls, spawned))"
  by (simp add: classic_bass_block_def bass_hit_def Let_def split_def)

lemma classic_mid_block_eq:
  "classic_mid_block f a (s, g, calls, spawned) =
     (if \<not> spawned \<and> mid_hit a s
      then ((fst (spawnSnowflake f Mid (min (midEnergy a / 255) 1) s g))
               \<lparr>midThreshold := BEAT_THRESHOLD_INIT * 1.5\<rparr>,
            snd (spawnSnowflake f Mid (min (midEnergy a / 255) 1) s g),
            calls @ [(Mid, min (midEnergy a / 255) 1)], True)
      else (s\<lparr>midThreshold := max BEAT_THRESHOLD_INIT (midThreshold s * BEAT_DECAY_RATE)\<rparr>,
            g, calls, spawned))"
  by (simp add: classic_mid_block_def mid_hit_def Let_def split_def)

lemma classic_treble_block_eq:
  "classic_treble_block f a (s, g, calls, spawned) =
     (if \<not> spawned \<and> treble_hit a s
      then ((fst (spawnSnowflake f Treble (min (trebleEnergy a / 255) 1) s g))
               \<lparr>trebleThreshold := BEAT_THRESHOLD_INIT * 1.4\<rparr>,
            snd (spawnSnowflake f Treble (min (trebleEnergy a / 255) 1) s g),
            calls @ [(Treble, min (trebleEnergy a / 255) 1)], True)
      else (s\<lparr>trebleThreshold := max BEAT_THRESHOLD_INIT (trebleThreshold s * BEAT_DECAY_RATE)\<rparr>,
            g, calls, spawned))"
  by (simp add: classic_treble_block_def treble_hit_def Let_def split_def)

lemma classic_fallback_block_eq:
  "classic_fallback_block f a t (s, g, calls, spawned) =
     (if \<not> spawned \<and> t > 600 \<and> num_gt (energy a) 10
      then (fst (spawnSnowflake f (dominant a) 0.4 s g),
            snd (spawnSnowflake f (dominant a) 0.4 s g),
            calls @ [(dominant a, 0.4)], spawned)
      else (s, g, calls, spawned))"
  by (simp add: classic_fallback_block_def dominant_def Let_def split_def)

lemma classic_beat_calls:
  "snd (snd (classic_beat f a s g)) = expected_calls (now f) a s"
  by (simp add: classic_beat_def Let_def split_def expected_calls_def
      classic_bass_block_eq classic_mid_block_eq classic_treble_block_eq classic_fallback_block_eq
      mid_hit_def treble_hit_def)

lemma spawnSnowflake_appends:
  "appends 150 (particles s, g)
     (particles (fst (spawnSnowflake f band i s g)), snd (spawnSnowflake f band i s g))"
  using spawnSnowflake_effect [of f band i s g] unfolding appends_def by auto

lemma classic_beat_thresholds:
  "bassThreshold (fst (classic_beat f a s g)) = next_threshold (bass_fires a s) 1.5 (bassThreshold s)"
  "midThreshold (fst (classic_beat f a s g)) = next_threshold (mid_fires a s) 1.5 (midThreshold s)"
  "trebleThreshold (fst (classic_beat f a s g)) = next_threshold (treble_fires a s) 1.4 (trebleThreshold s)"
  by (auto simp add: classic_beat_def Let_def split_def next_threshold_def
      bass_fires_def mid_fires_def treble_fires_def
      classic_bass_block_eq classic_mid_block_eq classic_treble_block_eq classic_fallback_block_eq
      mid_hit_def treble_hit_def)

lemma classic_beat_averages:
  "avgBass (fst (classic_beat f a s g)) = next_average (avgBass s) (bassEnergy a)"
  "avgMid (fst (classic_beat f a s g)) = next_average (avgMid s) (midEnergy a)"
  "avgTreble (fst (classic_beat f a s g)) = next_average (avgTreble s) (trebleEnergy a)"
  by (simp_all add: classic_beat_def Let_def split_def next_average_def
      classic_bass_block_eq classic_mid_block_eq classic_treble_block_eq classic_fallback_block_eq)

lemma classic_beat_rotation:
  "rotation (fst (classic_beat f a s g)) = rotation s"
  by (simp add: classic_beat_def Let_def split_def
      classic_bass_block_eq classic_mid_block_eq classic_treble_block_eq classic_fallback_block_eq)

lemma classic_blocks_append:
  "appends 150 (particles s, g)
     (particles (fst (classic_bass_block f a (s, g, c, sp))), fst (snd (classic_bass_block f a (s, g, c, sp))))"
  "appends 150 (particles s, g)
     (particles (fst (classic_mid_block f a (s, g, c, sp))), fst (snd (classic_mid_block f a (s, g, c, sp))))"
  "appends 150 (particles s, g)
     (particles (fst (classic_treble_block f a (s, g, c, sp))), fst (snd (classic_treble_block f a (s, g, c, sp))))"
  "appends 150 (particles s, g)
     (particles (fst (classic_fallback_block f a t (s, g, c, sp))), fst (snd (classic_fallback_block f a t (s, g, c, sp))))"
  by (simp_all add: classic_bass_block_eq classic_mid_block_eq classic_treble_block_eq classic_fallback_block_eq
      appends_refl spawnSnowflake_appends)

lemma classic_beat_appends:
  "appends 150 (particles s, g) (particles (fst (classic_beat f a s g)), fst (snd (classic_beat f a s g)))"
proof -
  let ?r1 = "classic_bass_block f a (s, g, [], False)"
  let ?r2 = "classic_mid_block f a ?r1"
  let ?r3 = "classic_treble_block f a ?r2"
  let ?r4 = "classic_fallback_block f a (now f - lastSpawnTime s) ?r3"
  have res: "particles (fst (classic_beat f a s g)) = particles (fst ?r4)"
    "fst (snd (classic_beat f a s g)) = fst (snd ?r4)"
    by (simp_all add: classic_beat_def Let_def split_def)
  have 1: "appends 150 (particles s, g) (particles (fst ?r1), fst (snd ?r1))"
    by (rule classic_blocks_append)
  have 2: "appends 150 (particles (fst ?r1), fst (snd ?r1)) (particles (fst ?r2), fst (snd ?r2))"
    using classic_blocks_append(2) [of "fst ?r1" "fst (snd ?r1)" f a "fst (snd (snd ?r1))" "snd (snd (snd ?r1))"]
    by simp
  have 3: "appends 150 (particles (fst ?r2), fst (snd ?r2)) (particles (fst ?r3), fst (snd ?r3))"
    using classic_blocks_append(3) [of "fst ?r2" "fst (snd ?r2)" f a "fst (snd (snd ?r2))" "snd (snd (snd ?r2))"]
    by simp
  have 4: "appends 150 (particles (fst ?r3), fst (snd ?r3)) (particles (fst ?r4), fst (snd ?r4))"
    using classic_blocks_append(4) [of "fst ?r3" "fst (snd ?r3)" f a "now f - lastSpawnTime s" "fst (snd (snd ?r3))" "snd (snd (snd ?r3))"]
    by simp
  show ?thesis unfolding res
    by (rule appends_trans [OF appends_trans [OF appends_trans [OF 1 2] 3] 4])
qed

lemma spawnSnowflake_size:
  "length (particles (fst (spawnSnowflake f band i s g))) \<le> max (length (particles s)) 4001"
  using spawnSnowflake_effect [of f band i s g] by auto

lemma classic_blocks_size:
  "length (particles (fst (classic_bass_block f a (s, g, c, sp)))) \<le> max (length (particles s)) 4001"
  "length (particles (fst (classic_mid_block f a (s, g, c, sp)))) \<le> max (length (particles s)) 4001"
  "length (particles (fst (classic_treble_block f a (s, g, c, sp)))) \<le> max (length (particles s)) 4001"
  "length (particles (fst (classic_fallback_block f a t (s, g, c, sp)))) \<le> max (length (particles s)) 4001"
  by (simp_all add: classic_bass_block_eq classic_mid_block_eq classic_treble_block_eq
      classic_fallback_block_eq spawnSnowflake_size)

lemma classic_beat_size:
  "length (particles (fst (classic_beat f a s g))) \<le> max (length (particles s)) 4001"
proof -
  let ?r1 = "classic_bass_block f a (s, g, [], False)"
  let ?r2 = "classic_mid_block f a ?r1"
  let ?r3 = "classic_treble_block f a ?r2"
  let ?r4 = "classic_fallback_block f a (now f - lastSpawnTime s) ?r3"
  have res: "particles (fst (classic_beat f a s g)) = particles (fst ?r4)"
    by (simp add: classic_beat_def Let_def split_def)
  have 1: "length (particles (fst ?r1)) \<le> max (length (particles s)) 4001"
    by (rule classic_blocks_size)
  have 2: "length (particles (fst ?r2)) \<le> max (length (particles (fst ?r1))) 4001"
    using classic_blocks_size(2) [of f a "fst ?r1" "fst (snd ?r1)" "fst (snd (snd ?r1))" "snd (snd (snd ?r1))"]
    by simp
  have 3: "length (particles (fst ?r3)) \<le> max (length (particles (fst ?r2))) 4001"
    using classic_blocks_size(3) [of f a "fst ?r2" "fst (snd ?r2)" "fst (snd (snd ?r2))" "snd (snd (snd ?r2))"]
    by simp
  have 4: "length (particles (fst ?r4)) \<le> max (length (particles (fst ?r3))) 4001"
    using classic_blocks_size(4) [of f a "now f - lastSpawnTime s" "fst ?r3" "fst (snd ?r3)" "fst (snd (snd ?r3))" "snd (snd (snd ?r3))"]
    by simp
  show ?thesis unfolding res using 1 2 3 4 by linarith
qed

section \<open>Properties of a frame\<close>

lemma detectGestures_vis:
  "particles (detectGestures f s) = particles s"
  "avgBass (detectGestures f s) = avgBass s"
  "avgMid (detectGestures f s) = avgMid s"
  "avgTreble (detectGestures f s) = avgTreble s"
  "bassThreshold (detectGestures f s) = bassThreshold s"
  "midThreshold (detectGestures f s) = midThreshold s"
  "trebleThreshold (detectGestures f s) = trebleThreshold s"
  "lastSpawnTime (detectGestures f s) = lastSpawnTime s"
  "cameraOffset (detectGestures f s) = cameraOffset s"
  by (simp_all add: detectGestures_def note_gesture_def Let_def
      split: sum.splits list.splits)

lemma neon_render_idle:
  assumes "neon_hears f s = None"
  shows "neon_render f s =
     (\<lparr> spawnCalls = [],
        drawn = filter neon_scale_positive (rev (filter alive
                  (map (neon_aged (neon_frozen f s) (frame_energy f)) (particles s)))),
        origin = (innerWidth f / 2 + fst (cameraOffset (neon_panned f s)),
                  innerHeight f / 2 + snd (cameraOffset (neon_panned f s))) \<rparr>,
      (neon_panned f s)\<lparr>particles :=
         filter alive (map (neon_aged (neon_frozen f s) (frame_energy f)) (particles s))\<rparr>)"
  using assms
  by (auto simp add: neon_render_def neon_hears_def neon_frozen_def neon_panned_def frame_energy_def
      Let_def split_def neon_loop_all detectGestures_vis split: option.splits if_splits)

lemma neon_render_beat:
  assumes "neon_hears f s = Some a"
  shows "neon_render f s =
     (\<lparr> spawnCalls = snd (snd (neon_beat f a (neon_panned f s) (rand f))),
        drawn = filter neon_scale_positive (rev (filter alive
                  (map (neon_update (energy a))
                     (particles (fst (neon_beat f a (neon_panned f s) (rand f))))))),
        origin = (innerWidth f / 2 + fst (cameraOffset (neon_panned f s)),
                  innerHeight f / 2 + snd (cameraOffset (neon_panned f s))) \<rparr>,
      (fst (neon_beat f a (neon_panned f s) (rand f)))\<lparr>particles :=
         filter alive (map (neon_update (energy a))
           (particles (fst (neon_beat f a (neon_panned f s) (rand f)))))\<rparr>)"
proof -
  have a: "audio_active f = Some a" and fr: "\<not> isFrozen (detectGestures f s)"
    using assms by (auto simp: neon_hears_def neon_frozen_def split: if_splits)
  have ag: "neon_aged False en = neon_update en" for en by (rule ext) (simp add: neon_aged_def)
  show ?thesis
    using a fr
    by (simp add: neon_render_def neon_panned_def Let_def split_def neon_loop_all
        neon_beat_gesture_fields ag)
qed

lemma classic_render_idle:
  assumes "audio_active f = None"
  shows "classic_render f s =
     (\<lparr> spawnCalls = [],
        drawn = classic_shown f (rotation s) (rev (filter alive
                  (map (classic_update (Some 0)) (particles s)))) \<rparr>,
      s\<lparr>particles := filter alive (map (classic_update (Some 0)) (particles s))\<rparr>)"
  using assms by (simp add: classic_render_def Let_def classic_loop_all)

lemma classic_render_beat:
  assumes "audio_active f = Some a"
  shows "classic_render f s =
     (\<lparr> spawnCalls = snd (snd (classic_beat f a s (rand f))),
        drawn = classic_shown f (rotation s) (rev (filter alive
                  (map (classic_update (energy a))
                     (particles (fst (classic_beat f a s (rand f))))))) \<rparr>,
      (fst (classic_beat f a s (rand f)))\<lparr>particles :=
         filter alive (map (classic_update (energy a))
           (particles (fst (classic_beat f a s (rand f)))))\<rparr>)"
  using assms
  by (simp add: classic_render_def Let_def split_def classic_loop_all classic_beat_rotation)

lemma newborn_settled: "newborn d p \<Longrightarrow> settled d p"
  by (simp add: newborn_def settled_def)

lemma neon_update_fields:
  "life (neon_update en p) \<le> life p - decayRate p"
  "decayRate (neon_update en p) = decayRate p"
  "pz (neon_update en p) = pz p + vz p"
  "vz (neon_update en p) = vz p * FRICTION"
  by (simp_all add: neon_update_def Let_def FADE_SPEED_VAR_def split: option.splits)

lemma classic_update_fields:
  "life (classic_update en p) \<le> life p - decayRate p"
  "decayRate (classic_update en p) = decayRate p"
  "pz (classic_update en p) = pz p + vz p"
  "vz (classic_update en p) = vz p * FRICTION"
  by (simp_all add: classic_update_def Let_def FADE_SPEED_VAR_def split: option.splits)

lemma neon_update_settled:
  assumes "settled d p" "alive (neon_update en p)"
  shows "settled d (neon_update en p)"
proof -
  have "life (neon_update en p) \<le> life p - decayRate p" by (rule neon_update_fields)
  moreover have "0 < decayRate p" using assms(1) by (simp add: settled_def FADE_SPEED_BASE_def)
  ultimately have "life (neon_update en p) \<le> 1" using assms(1) by (simp add: settled_def)
  then show ?thesis using assms
    by (simp add: settled_def alive_def neon_update_fields(2,3,4))
qed

lemma classic_update_settled:
  assumes "settled d p" "alive (classic_update en p)"
  shows "settled d (classic_update en p)"
proof -
  have "life (classic_update en p) \<le> life p - decayRate p" by (rule classic_update_fields)
  moreover have "0 < decayRate p" using assms(1) by (simp add: settled_def FADE_SPEED_BASE_def)
  ultimately have "life (classic_update en p) \<le> 1" using assms(1) by (simp add: settled_def)
  then show ?thesis using assms
    by (simp add: settled_def alive_def classic_update_fields(2,3,4))
qed

lemma next_threshold_range:
  assumes "1 \<le> boost" "BEAT_THRESHOLD_INIT \<le> thr" "thr \<le> BEAT_THRESHOLD_INIT * boost"
  shows "BEAT_THRESHOLD_INIT \<le> next_threshold fired boost thr"
    and "next_threshold fired boost thr \<le> BEAT_THRESHOLD_INIT * boost"
proof -
  have i: "0 < BEAT_THRESHOLD_INIT" by (simp add: BEAT_THRESHOLD_INIT_def)
  then have b: "BEAT_THRESHOLD_INIT \<le> BEAT_THRESHOLD_INIT * boost" using assms(1) by simp
  have d: "thr * BEAT_DECAY_RATE \<le> thr" using assms(2) i by (simp add: BEAT_DECAY_RATE_def)
  show "BEAT_THRESHOLD_INIT \<le> next_threshold fired boost thr"
    using b by (simp add: next_threshold_def)
  show "next_threshold fired boost thr \<le> BEAT_THRESHOLD_INIT * boost"
    using b d assms(3) by (simp add: next_threshold_def)
qed

lemma neon_panned_vis:
  "particles (neon_panned f s) = particles s"
  "avgBass (neon_panned f s) = avgBass s"
  "avgMid (neon_panned f s) = avgMid s"
  "avgTreble (neon_panned f s) = avgTreble s"
  "bassThreshold (neon_panned f s) = bassThreshold s"
  "midThreshold (neon_panned f s) = midThreshold s"
  "trebleThreshold (neon_panned f s) = trebleThreshold s"
  "lastSpawnTime (neon_panned f s) = lastSpawnTime s"
  "isFrozen (neon_panned f s) = neon_frozen f s"
  by (simp_all add: neon_panned_def neon_frozen_def Let_def detectGestures_vis)

lemma neon_render_inv:
  assumes "neon_inv s" "unit_draws (rand f)"
  shows "neon_inv (snd (neon_render f s))"
proof (cases "neon_hears f s")
  case None
  have "settled 200 q" if "q \<in> set (filter alive (map (neon_aged (neon_frozen f s) (frame_energy f)) (particles s)))" for q
  proof -
    from that obtain p where p: "p \<in> set (particles s)" "q = neon_aged (neon_frozen f s) (frame_energy f) p" "alive q"
      by auto
    then have "settled 200 p" using assms(1) by (simp add: neon_inv_def)
    then show ?thesis using p(2,3) neon_update_settled [of 200 p] by (auto simp: neon_aged_def)
  qed
  then show ?thesis using assms(1)
    by (simp add: neon_render_idle [OF None] neon_inv_def thresholds_ok_def neon_panned_vis)
next
  case (Some a)
  let ?b = "neon_beat f a (neon_panned f s) (rand f)"
  from neon_beat_appends [of "neon_panned f s" "rand f" f a] assms(2)
  obtain new where new: "particles (fst ?b) = particles s @ new" "\<forall>p \<in> set new. newborn 200 p"
    by (auto simp: appends_def neon_panned_vis)
  have "settled 200 q" if "q \<in> set (filter alive (map (neon_update (energy a)) (particles (fst ?b))))" for q
  proof -
    from that obtain p where p: "p \<in> set (particles s @ new)" "q = neon_update (energy a) p" "alive q"
      unfolding new(1) by auto
    then have "settled 200 p" using assms(1) new(2) newborn_settled by (auto simp: neon_inv_def)
    then show ?thesis using p(2,3) neon_update_settled [of 200 p] by simp
  qed
  moreover have "thresholds_ok (fst ?b)"
    using assms(1) next_threshold_range [of "1.5"] next_threshold_range [of "1.4"]
    by (simp add: neon_inv_def thresholds_ok_def neon_beat_thresholds neon_panned_vis)
  ultimately show ?thesis
    by (simp add: neon_render_beat [OF Some] neon_inv_def thresholds_ok_def)
qed

lemma neon_reachable_inv: "neon_reachable s \<Longrightarrow> neon_inv s"
proof (induction rule: neon_reachable.induct)
  case neon_start
  show ?case by (simp add: neon_inv_def neon_init_def thresholds_ok_def BEAT_THRESHOLD_INIT_def)
next
  case (neon_frame s f)
  then show ?case by (simp add: neon_render_inv)
qed

lemma classic_render_inv:
  assumes "classic_inv s" "unit_draws (rand f)"
  shows "classic_inv (snd (classic_render f s))"
proof (cases "audio_active f")
  case None
  have "settled 150 q" if "q \<in> set (filter alive (map (classic_update (Some 0)) (particles s)))" for q
  proof -
    from that obtain p where p: "p \<in> set (particles s)" "q = classic_update (Some 0) p" "alive q"
      by auto
    then have "settled 150 p" using assms(1) by (simp add: classic_inv_def)
    then show ?thesis using p(2,3) classic_update_settled [of 150 p] by simp
  qed
  moreover have "length (filter alive (map (classic_update (Some 0)) (particles s))) \<le> 4001"
    using assms(1) by (intro le_trans [OF length_filter_le]) (simp add: classic_inv_def)
  ultimately show ?thesis using assms(1)
    by (simp add: classic_render_idle [OF None] classic_inv_def thresholds_ok_def)
next
  case (Some a)
  let ?b = "classic_beat f a s (rand f)"
  from classic_beat_appends [of s "rand f" f a] assms(2)
  obtain new where new: "particles (fst ?b) = particles s @ new" "\<forall>p \<in> set new. newborn 150 p"
    by (auto simp: appends_def)
  have "settled 150 q" if "q \<in> set (filter alive (map (classic_update (energy a)) (particles (fst ?b))))" for q
  proof -
    from that obtain p where p: "p \<in> set (particles s @ new)" "q = classic_update (energy a) p" "alive q"
      unfolding new(1) by auto
    then have "settled 150 p" using assms(1) new(2) newborn_settled by (auto simp: classic_inv_def)
    then show ?thesis using p(2,3) classic_update_settled [of 150 p] by simp
  qed
  moreover have "thresholds_ok (fst ?b)"
    using assms(1) next_threshold_range [of "1.5"] next_threshold_range [of "1.4"]
    by (simp add: classic_inv_def thresholds_ok_def classic_beat_thresholds)
  moreover have "length (filter alive (map (classic_update (energy a)) (particles (fst ?b)))) \<le> 4001"
    using assms(1) classic_beat_size [of f a s "rand f"]
    by (intro le_trans [OF length_filter_le]) (simp add: classic_inv_def)
  ultimately show ?thesis using assms(1)
    by (simp add: classic_render_beat [OF Some] classic_inv_def thresholds_ok_def classic_beat_rotation)
qed

lemma classic_reachable_inv: "classic_reachable s \<Longrightarrow> classic_inv s"
proof (induction rule: classic_reachable.induct)
  case classic_start
  show ?case by (simp add: classic_inv_def classic_init_def thresholds_ok_def BEAT_THRESHOLD_INIT_def)
next
  case (classic_frame s f)
  then show ?case by (simp add: classic_render_inv)
qed

section \<open>The spawn decision\<close>

lemma analyze_quiet:
  "bassEnergy (analyzeAudio 2048 quiet_bins) = 12"
  "midEnergy (analyzeAudio 2048 quiet_bins) = 12"
  "trebleEnergy (analyzeAudio 2048 quiet_bins) = 12"
  "energy (analyzeAudio 2048 quiet_bins) = Some 12"
proof -
  have len: "length quiet_bins = 20" by (simp add: quiet_bins_def)
  have b: "bassEnd_of 20 = 1" by (simp add: bassEnd_of_def)
  have m: "midEnd_of 20 = 8" by (simp add: midEnd_of_def)
  have ne: "quiet_bins \<noteq> []" by (simp add: quiet_bins_def)
  note f = analyzeAudio_fields [OF ne, of 2048, unfolded len b m]
  show "bassEnergy (analyzeAudio 2048 quiet_bins) = 12"
    unfolding f by (simp add: quiet_bins_def bins_def mean_def byte_val_def)
  show "midEnergy (analyzeAudio 2048 quiet_bins) = 12"
    unfolding f by (simp add: quiet_bins_def bins_def mean_def byte_val_def)
  show "trebleEnergy (analyzeAudio 2048 quiet_bins) = 12"
    unfolding f by (simp add: quiet_bins_def bins_def mean_def byte_val_def)
  show "energy (analyzeAudio 2048 quiet_bins) = Some 12"
    unfolding f by (simp add: quiet_bins_def bins_def mean_def byte_val_def)
qed

lemma analyze_loud:
  "bassEnergy (analyzeAudio 2048 loud_bins) = 200"
  "midEnergy (analyzeAudio 2048 loud_bins) = 0"
  "trebleEnergy (analyzeAudio 2048 loud_bins) = 0"
  "energy (analyzeAudio 2048 loud_bins) = Some 10"
proof -
  have len: "length loud_bins = 20" by (simp add: loud_bins_def)
  have b: "bassEnd_of 20 = 1" by (simp add: bassEnd_of_def)
  have m: "midEnd_of 20 = 8" by (simp add: midEnd_of_def)
  have ne: "loud_bins \<noteq> []" by (simp add: loud_bins_def)
  note f = analyzeAudio_fields [OF ne, of 2048, unfolded len b m]
  show "bassEnergy (analyzeAudio 2048 loud_bins) = 200"
    unfolding f by (simp add: loud_bins_def bins_def mean_def byte_val_def)
  show "midEnergy (analyzeAudio 2048 loud_bins) = 0"
    unfolding f by (simp add: loud_bins_def bins_def mean_def byte_val_def)
  show "trebleEnergy (analyzeAudio 2048 loud_bins) = 0"
    unfolding f by (simp add: loud_bins_def bins_def mean_def byte_val_def)
  show "energy (analyzeAudio 2048 loud_bins) = Some 10"
    unfolding f by (simp add: loud_bins_def bins_def mean_def byte_val_def)
qed

lemma audio_frame_active: "audio_active (audio_frame t bs) = Some (analyzeAudio 2048 bs)"
  by (simp add: audio_active_def audio_frame_def)

lemma paused_frame_idle: "audio_active (paused_frame t) = None"
  by (simp add: audio_active_def paused_frame_def)

lemma hits_panned:
  "bass_hit a (neon_panned f s) = bass_hit a s"
  "mid_hit a (neon_panned f s) = mid_hit a s"
  "treble_hit a (neon_panned f s) = treble_hit a s"
  "expected_calls t a (neon_panned f s) = expected_calls t a s"
  by (simp_all add: bass_hit_def mid_hit_def treble_hit_def expected_calls_def neon_panned_vis)

lemma neon_render_calls:
  "neon_hears f s = Some a \<Longrightarrow> spawnCalls (fst (neon_render f s)) = expected_calls (now f) a s"
  by (simp add: neon_render_beat neon_beat_calls hits_panned)

lemma neon_render_no_calls:
  "neon_hears f s = None \<Longrightarrow> spawnCalls (fst (neon_render f s)) = []"
  by (simp add: neon_render_idle)

lemma classic_render_calls:
  "audio_active f = Some a \<Longrightarrow> spawnCalls (fst (classic_render f s)) = expected_calls (now f) a s"
  by (simp add: classic_render_beat classic_beat_calls)

lemma classic_render_no_calls:
  "audio_active f = None \<Longrightarrow> spawnCalls (fst (classic_render f s)) = []"
  by (simp add: classic_render_idle)

lemma expected_calls_length: "length (expected_calls t a s) \<le> 1"
  by (simp add: expected_calls_def)

lemma dominant_max: "band_energy a band \<le> band_energy a (dominant a)"
  by (cases band) (auto simp: band_energy_def dominant_def)

text \<open>
  Claim C2, as amended. On an audio-active frame (unfrozen, in the neon variant) the spawn
  calls of the frame are those of \<open>expected_calls\<close>: the first band in the order bass, mid,
  treble whose energy exceeds both its running average times its threshold and its floor
  (25, 20, 15) fires, with intensity \<open>min (energy / 255) 1\<close>; if none fires, more than 600
  ms have passed since the last spawn and the total energy exceeds 10, one fallback call
  is made for a band of highest energy at intensity 0.4; there is never more than one
  call. At exactly 600 ms no fallback is made.
\<close>

theorem spawn_decision:
  "(neon_hears f s = Some a \<longrightarrow> spawnCalls (fst (neon_render f s)) = expected_calls (now f) a s)
   \<and> (audio_active f' = Some a' \<longrightarrow>
         spawnCalls (fst (classic_render f' c)) = expected_calls (now f') a' c)
   \<and> length (expected_calls t a'' v) \<le> 1
   \<and> band_energy a'' band \<le> band_energy a'' (dominant a'')"
  using neon_render_calls [of f s a] classic_render_calls [of f' a' c]
    expected_calls_length [of t a'' v] dominant_max [of a'' band]
  by blast

lemma quiet_calls:
  "lastSpawnTime s = 0 \<Longrightarrow>
   expected_calls t (analyzeAudio 2048 quiet_bins) s = (if t > 600 then [(Treble, 0.4)] else [])"
  by (simp add: expected_calls_def bass_hit_def mid_hit_def treble_hit_def dominant_def
      analyze_quiet num_gt_def)

theorem spawn_decision_counterexample:
  "now (audio_frame 600 quiet_bins) - lastSpawnTime classic_init = 600
   \<and> energy (analyzeAudio 2048 quiet_bins) = Some 12
   \<and> spawnCalls (fst (classic_render (audio_frame 600 quiet_bins) classic_init)) = []"
  using classic_render_calls [OF audio_frame_active, of 600 quiet_bins classic_init]
  by (simp add: quiet_calls analyze_quiet classic_init_def) (simp add: audio_frame_def)

lemma neon_frame_active: "audio_active (neon_frame t bs vt outcome) = Some (analyzeAudio 2048 bs)"
  by (simp add: audio_active_def neon_frame_def)

lemma neon_frame_no_hand:
  "detectGestures (neon_frame t bs 1 (Inr no_hand)) neon_init = neon_init\<lparr>lastVideoTime := 1\<rparr>"
  by (simp add: detectGestures_def neon_frame_def neon_init_def no_hand_def note_gesture_def)

lemma neon_frame_palm:
  "detectGestures (neon_frame t bs 1 (Inr palm)) neon_init =
     neon_init\<lparr>lastVideoTime := 1, isFrozen := True, lastDetectedGesture := ''Open_Palm''\<rparr>"
  by (simp add: detectGestures_def neon_frame_def neon_init_def palm_def note_gesture_def)

lemma neon_hears_no_hand:
  "neon_hears (neon_frame t bs 1 (Inr no_hand)) neon_init = Some (analyzeAudio 2048 bs)"
  by (simp add: neon_hears_def neon_frozen_def neon_frame_no_hand neon_frame_active)
     (simp add: neon_init_def)

lemma neon_hears_palm:
  "neon_hears (neon_frame t bs 1 (Inr palm)) neon_init = None"
  by (simp add: neon_hears_def neon_frozen_def neon_frame_palm)

theorem spawn_decision_witness:
  "neon_hears (neon_frame 601 quiet_bins 1 (Inr no_hand)) neon_init
      = Some (analyzeAudio 2048 quiet_bins)
   \<and> audio_active (audio_frame 601 quiet_bins) = Some (analyzeAudio 2048 quiet_bins)
   \<and> spawnCalls (fst (neon_render (neon_frame 601 quiet_bins 1 (Inr no_hand)) neon_init))
        = [(Treble, 0.4)]
   \<and> spawnCalls (fst (classic_render (audio_frame 601 quiet_bins) classic_init))
        = [(Treble, 0.4)]"
proof -
  have n: "now (neon_frame 601 quiet_bins 1 (Inr no_hand)) = 601"
    "now (audio_frame 601 quiet_bins) = 601"
    by (simp_all add: neon_frame_def audio_frame_def)
  have l: "lastSpawnTime neon_init = 0" "lastSpawnTime classic_init = 0"
    by (simp_all add: neon_init_def classic_init_def)
  show ?thesis
    using spawn_decision [of "neon_frame 601 quiet_bins 1 (Inr no_hand)" neon_init
        "analyzeAudio 2048 quiet_bins" "audio_frame 601 quiet_bins"
        "analyzeAudio 2048 quiet_bins" classic_init 601 "analyzeAudio 2048 quiet_bins"
        classic_init Bass]
    by (simp add: neon_hears_no_hand audio_frame_active n quiet_calls [OF l(1)] quiet_calls [OF l(2)])
qed

section \<open>Thresholds and running averages\<close>

lemma fires_panned:
  "bass_fires a (neon_panned f s) = bass_fires a s"
  "mid_fires a (neon_panned f s) = mid_fires a s"
  "treble_fires a (neon_panned f s) = treble_fires a s"
  by (simp_all add: bass_fires_def mid_fires_def treble_fires_def hits_panned)

lemma neon_detectors_step:
  "neon_hears f s = Some a \<Longrightarrow> detectors_step a s (snd (neon_render f s))"
  by (simp add: neon_render_beat detectors_step_def neon_beat_thresholds fires_panned neon_panned_vis)

lemma neon_detectors_rest:
  "neon_hears f s = None \<Longrightarrow> detectors_rest s (snd (neon_render f s))"
  by (simp add: neon_render_idle detectors_rest_def neon_panned_vis)

lemma classic_detectors_step:
  "audio_active f = Some a \<Longrightarrow> detectors_step a s (snd (classic_render f s))"
  by (simp add: classic_render_beat detectors_step_def classic_beat_thresholds)

lemma classic_detectors_rest:
  "audio_active f = None \<Longrightarrow> detectors_rest s (snd (classic_render f s))"
  by (simp add: classic_render_idle detectors_rest_def)

lemma neon_averages_step:
  "neon_hears f s = Some a \<Longrightarrow> averages_step a s (snd (neon_render f s))"
  by (simp add: neon_render_beat averages_step_def neon_beat_averages next_average_def neon_panned_vis)

lemma neon_averages_rest:
  "neon_hears f s = None \<Longrightarrow> averages_rest s (snd (neon_render f s))"
  by (simp add: neon_render_idle averages_rest_def neon_panned_vis)

lemma classic_averages_step:
  "audio_active f = Some a \<Longrightarrow> averages_step a s (snd (classic_render f s))"
  by (simp add: classic_render_beat averages_step_def classic_beat_averages next_average_def)

lemma classic_averages_rest:
  "audio_active f = None \<Longrightarrow> averages_rest s (snd (classic_render f s))"
  by (simp add: classic_render_idle averages_rest_def)

lemma next_threshold_facts:
  "next_threshold True boost thr = 1.35 * boost"
  "thr \<le> 1.35 * boost \<longrightarrow> thr \<le> next_threshold True boost thr"
  "thr < 1.35 * boost \<longrightarrow> thr < next_threshold True boost thr"
  "next_threshold False boost thr = max 1.35 (thr * 0.98)"
  "1.35 \<le> next_threshold False boost thr"
  "1.35 \<le> thr \<longrightarrow> next_threshold False boost thr \<le> thr"
  by (simp_all add: next_threshold_def BEAT_THRESHOLD_INIT_def BEAT_DECAY_RATE_def)

lemma neon_reachable_thresholds: "neon_reachable s \<Longrightarrow> thresholds_ok s"
  using neon_reachable_inv by (simp add: neon_inv_def)

lemma classic_reachable_thresholds: "classic_reachable s \<Longrightarrow> thresholds_ok s"
  using classic_reachable_inv by (simp add: classic_inv_def)

text \<open>
  Claim C3, as amended. On an audio-active frame (unfrozen, in the neon variant) a detector
  that fires has its threshold set to the initial value times the band's boost (1.35 times
  1.5 for bass and mid, times 1.4 for treble): the threshold does not fall, and rises
  strictly unless it already had that value. A detector that does not fire has its
  threshold multiplied by 0.98 and clamped at 1.35: it does not rise and never falls below
  1.35. On any other frame the thresholds stay as they are. Between frames each threshold
  lies between 1.35 and its boosted value.
\<close>

theorem threshold_update:
  "(neon_hears f s = Some a \<longrightarrow> detectors_step a s (snd (neon_render f s)))
   \<and> (neon_hears f0 s0 = None \<longrightarrow> detectors_rest s0 (snd (neon_render f0 s0)))
   \<and> (audio_active f' = Some a' \<longrightarrow> detectors_step a' c (snd (classic_render f' c)))
   \<and> (audio_active f0' = None \<longrightarrow> detectors_rest c0 (snd (classic_render f0' c0)))
   \<and> (neon_reachable s1 \<longrightarrow> thresholds_ok s1)
   \<and> (classic_reachable c1 \<longrightarrow> thresholds_ok c1)
   \<and> next_threshold True boost thr = 1.35 * boost
   \<and> (thr \<le> 1.35 * boost \<longrightarrow> thr \<le> next_threshold True boost thr)
   \<and> (thr < 1.35 * boost \<longrightarrow> thr < next_threshold True boost thr)
   \<and> next_threshold False boost thr = max 1.35 (thr * 0.98)
   \<and> 1.35 \<le> next_threshold False boost thr
   \<and> (1.35 \<le> thr \<longrightarrow> next_threshold False boost thr \<le> thr)"
  using neon_detectors_step [of f s a] neon_detectors_rest [of f0 s0]
    classic_detectors_step [of f' a' c] classic_detectors_rest [of f0' c0]
    neon_reachable_thresholds [of s1] classic_reachable_thresholds [of c1]
    next_threshold_facts
  by blast

text \<open>
  Claim C5, as amended. On an audio-active frame (unfrozen, in the neon variant), whether
  or not an onset fires, each running average becomes 0.92 times itself plus 0.08 times
  the band's energy. On any other frame (no analyser, no data array, not playing, context
  not running, or frozen in the neon variant) the running averages stay as they are.
\<close>

theorem average_update:
  "(neon_hears f s = Some a \<longrightarrow> averages_step a s (snd (neon_render f s)))
   \<and> (neon_hears f0 s0 = None \<longrightarrow> averages_rest s0 (snd (neon_render f0 s0)))
   \<and> (audio_active f' = Some a' \<longrightarrow> averages_step a' c (snd (classic_render f' c)))
   \<and> (audio_active f0' = None \<longrightarrow> averages_rest c0 (snd (classic_render f0' c0)))"
  using neon_averages_step [of f s a] neon_averages_rest [of f0 s0]
    classic_averages_step [of f' a' c] classic_averages_rest [of f0' c0]
  by blast

lemma loud_fires_at_start:
  "avgBass s = 0 \<Longrightarrow> bass_fires (analyzeAudio 2048 loud_bins) s"
  "\<not> mid_fires (analyzeAudio 2048 loud_bins) s"
  "\<not> treble_fires (analyzeAudio 2048 loud_bins) s"
  by (simp_all add: bass_fires_def mid_fires_def treble_fires_def bass_hit_def mid_hit_def
      treble_hit_def analyze_loud)

lemma after_loud_fields:
  "bassThreshold after_loud = 2.025"
  "avgBass after_loud = 16"
proof -
  have a0: "avgBass classic_init = 0" by (simp add: classic_init_def)
  have "detectors_step (analyzeAudio 2048 loud_bins) classic_init after_loud"
    unfolding after_loud_def by (rule classic_detectors_step [OF audio_frame_active])
  then show "bassThreshold after_loud = 2.025"
    by (simp add: detectors_step_def loud_fires_at_start(1) [OF a0] next_threshold_def
        BEAT_THRESHOLD_INIT_def)
  have "averages_step (analyzeAudio 2048 loud_bins) classic_init after_loud"
    unfolding after_loud_def by (rule classic_averages_step [OF audio_frame_active])
  then show "avgBass after_loud = 16"
    by (simp add: averages_step_def analyze_loud a0)
qed

lemma loud_fires_again: "bass_hit (analyzeAudio 2048 loud_bins) after_loud"
  by (simp add: bass_hit_def analyze_loud after_loud_fields)

theorem threshold_update_counterexample:
  "spawnCalls (fst (classic_render (audio_frame 1016 loud_bins) after_loud)) = [(Bass, 200 / 255)]
   \<and> bassThreshold (snd (classic_render (audio_frame 1016 loud_bins) after_loud))
        = bassThreshold after_loud"
proof -
  have "spawnCalls (fst (classic_render (audio_frame 1016 loud_bins) after_loud))
      = expected_calls (now (audio_frame 1016 loud_bins)) (analyzeAudio 2048 loud_bins) after_loud"
    by (rule classic_render_calls [OF audio_frame_active])
  then have c: "spawnCalls (fst (classic_render (audio_frame 1016 loud_bins) after_loud))
      = [(Bass, 200 / 255)]"
    by (simp add: expected_calls_def loud_fires_again analyze_loud)
  have "detectors_step (analyzeAudio 2048 loud_bins) after_loud
      (snd (classic_render (audio_frame 1016 loud_bins) after_loud))"
    by (rule classic_detectors_step [OF audio_frame_active])
  then have "bassThreshold (snd (classic_render (audio_frame 1016 loud_bins) after_loud)) = 2.025"
    by (simp add: detectors_step_def bass_fires_def loud_fires_again next_threshold_def
        BEAT_THRESHOLD_INIT_def)
  then show ?thesis using c by (simp add: after_loud_fields)
qed

theorem threshold_update_witness:
  "neon_hears (neon_frame 1000 loud_bins 1 (Inr no_hand)) neon_init
      = Some (analyzeAudio 2048 loud_bins)
   \<and> neon_hears (neon_frame 1000 loud_bins 1 (Inr palm)) neon_init = None
   \<and> audio_active (audio_frame 1000 loud_bins) = Some (analyzeAudio 2048 loud_bins)
   \<and> audio_active (paused_frame 1000) = None
   \<and> neon_reachable neon_init \<and> classic_reachable classic_init
   \<and> bassThreshold (snd (neon_render (neon_frame 1000 loud_bins 1 (Inr no_hand)) neon_init)) = 2.025
   \<and> midThreshold (snd (neon_render (neon_frame 1000 loud_bins 1 (Inr no_hand)) neon_init)) = 1.35
   \<and> bassThreshold (snd (neon_render (neon_frame 1000 loud_bins 1 (Inr palm)) neon_init)) = 1.35
   \<and> bassThreshold (snd (classic_render (audio_frame 1000 loud_bins) classic_init)) = 2.025
   \<and> trebleThreshold (snd (classic_render (audio_frame 1000 loud_bins) classic_init)) = 1.35
   \<and> bassThreshold (snd (classic_render (paused_frame 1000) classic_init)) = 1.35
   \<and> thresholds_ok neon_init \<and> thresholds_ok classic_init
   \<and> (1.35::real) < next_threshold True 1.5 1.35
   \<and> next_threshold False 1.5 2.025 \<le> 2.025"
proof -
  have a0: "avgBass neon_init = 0" "avgBass classic_init = 0"
    by (simp_all add: neon_init_def classic_init_def)
  have t0: "bassThreshold neon_init = 1.35" "midThreshold neon_init = 1.35"
    "bassThreshold classic_init = 1.35" "trebleThreshold classic_init = 1.35"
    by (simp_all add: neon_init_def classic_init_def BEAT_THRESHOLD_INIT_def)
  show ?thesis
    using threshold_update [of "neon_frame 1000 loud_bins 1 (Inr no_hand)" neon_init
        "analyzeAudio 2048 loud_bins" "neon_frame 1000 loud_bins 1 (Inr palm)" neon_init
        "audio_frame 1000 loud_bins" "analyzeAudio 2048 loud_bins" classic_init
        "paused_frame 1000" classic_init neon_init classic_init "1.5" "2.025"]
      threshold_update [of "neon_frame 1000 loud_bins 1 (Inr no_hand)" neon_init
        "analyzeAudio 2048 loud_bins" "neon_frame 1000 loud_bins 1 (Inr palm)" neon_init
        "audio_frame 1000 loud_bins" "analyzeAudio 2048 loud_bins" classic_init
        "paused_frame 1000" classic_init neon_init classic_init "1.5" "1.35"]
    by (simp add: neon_hears_no_hand neon_hears_palm audio_frame_active paused_frame_idle
        neon_start classic_start detectors_step_def detectors_rest_def
        loud_fires_at_start(1) [OF a0(1)] loud_fires_at_start(1) [OF a0(2)]
        loud_fires_at_start(2,3) t0 next_threshold_def BEAT_THRESHOLD_INIT_def BEAT_DECAY_RATE_def)
qed

theorem average_update_counterexample:
  "avgBass after_loud = 16
   \<and> avgBass (snd (classic_render (paused_frame 1016) after_loud)) = 16
   \<and> avgBass (snd (classic_render (paused_frame 1016) after_loud))
        \<noteq> 0.92 * avgBass after_loud + 0.08 * 0"
proof -
  have "averages_rest after_loud (snd (classic_render (paused_frame 1016) after_loud))"
    by (rule classic_averages_rest [OF paused_frame_idle])
  then show ?thesis by (simp add: averages_rest_def after_loud_fields)
qed

theorem average_update_witness:
  "neon_hears (neon_frame 1000 loud_bins 1 (Inr no_hand)) neon_init
      = Some (analyzeAudio 2048 loud_bins)
   \<and> neon_hears (neon_frame 1000 loud_bins 1 (Inr palm)) neon_init = None
   \<and> audio_active (audio_frame 1016 loud_bins) = Some (analyzeAudio 2048 loud_bins)
   \<and> audio_active (paused_frame 1016) = None
   \<and> avgBass (snd (neon_render (neon_frame 1000 loud_bins 1 (Inr no_hand)) neon_init)) = 16
   \<and> avgBass (snd (neon_render (neon_frame 1000 loud_bins 1 (Inr palm)) neon_init)) = 0
   \<and> avgBass (snd (classic_render (audio_frame 1016 loud_bins) after_loud)) = 30.72
   \<and> avgBass (snd (classic_render (paused_frame 1016) after_loud)) = 16"
  using average_update [of "neon_frame 1000 loud_bins 1 (Inr no_hand)" neon_init
      "analyzeAudio 2048 loud_bins" "neon_frame 1000 loud_bins 1 (Inr palm)" neon_init
      "audio_frame 1016 loud_bins" "analyzeAudio 2048 loud_bins" after_loud
      "paused_frame 1016" after_loud]
  by (simp add: neon_hears_no_hand neon_hears_palm audio_frame_active paused_frame_idle
      averages_step_def averages_rest_def analyze_loud after_loud_fields)
     (simp add: neon_init_def)

section \<open>Gesture recognition errors\<close>

lemma detectGestures_throw:
  "recognition f = Inl e \<Longrightarrow>
   detectGestures f s = s \<or> detectGestures f s = s\<lparr>lastVideoTime := videoTime f\<rparr>"
  by (simp add: detectGestures_def Let_def)

lemma detectGestures_throw_fields:
  "recognition f = Inl e \<Longrightarrow>
   isFrozen (detectGestures f s) = isFrozen s
   \<and> targetOffset (detectGestures f s) = targetOffset s
   \<and> lastDetectedGesture (detectGestures f s) = lastDetectedGesture s"
  using detectGestures_throw [of f e s] by auto

lemma neon_render_gesture_fields:
  "isFrozen (snd (neon_render f s)) = isFrozen (detectGestures f s)"
  "targetOffset (snd (neon_render f s)) = targetOffset (detectGestures f s)"
  "lastDetectedGesture (snd (neon_render f s)) = lastDetectedGesture (detectGestures f s)"
proof -
  have p: "isFrozen (neon_panned f s) = isFrozen (detectGestures f s)"
    "targetOffset (neon_panned f s) = targetOffset (detectGestures f s)"
    "lastDetectedGesture (neon_panned f s) = lastDetectedGesture (detectGestures f s)"
    by (simp_all add: neon_panned_def Let_def)
  show "isFrozen (snd (neon_render f s)) = isFrozen (detectGestures f s)"
    by (cases "neon_hears f s") (simp_all add: neon_render_idle neon_render_beat neon_beat_gesture_fields p)
  show "targetOffset (snd (neon_render f s)) = targetOffset (detectGestures f s)"
    by (cases "neon_hears f s") (simp_all add: neon_render_idle neon_render_beat neon_beat_gesture_fields p)
  show "lastDetectedGesture (snd (neon_render f s)) = lastDetectedGesture (detectGestures f s)"
    by (cases "neon_hears f s") (simp_all add: neon_render_idle neon_render_beat neon_beat_gesture_fields p)
qed

text \<open>
  Claim C9. When the recognizer call of a frame throws, \<open>detectGestures\<close> returns normally
  and leaves the frozen flag, the target offset and the last gesture label as they were; of
  the whole state only the video time stamp, which is written before the \<open>try\<close>, can
  differ. The frame then runs on, and the three fields still have their old values after it.
\<close>

theorem recognition_error_keeps_state:
  "recognition f = Inl e \<longrightarrow>
     (detectGestures f s = s \<or> detectGestures f s = s\<lparr>lastVideoTime := videoTime f\<rparr>)
     \<and> isFrozen (detectGestures f s) = isFrozen s
     \<and> targetOffset (detectGestures f s) = targetOffset s
     \<and> lastDetectedGesture (detectGestures f s) = lastDetectedGesture s
     \<and> isFrozen (snd (neon_render f s)) = isFrozen s
     \<and> targetOffset (snd (neon_render f s)) = targetOffset s
     \<and> lastDetectedGesture (snd (neon_render f s)) = lastDetectedGesture s"
  using detectGestures_throw [of f e s] detectGestures_throw_fields [of f e s]
  by (simp add: neon_render_gesture_fields)

lemma after_palm_fields:
  "isFrozen after_palm = True"
  "targetOffset after_palm = (150, 0)"
  "lastDetectedGesture after_palm = ''Open_Palm''"
  by (simp_all add: after_palm_def neon_render_gesture_fields detectGestures_def neon_frame_def
      neon_init_def palm_left_def note_gesture_def)

theorem recognition_error_keeps_state_witness:
  "recognition (neon_frame 1016 quiet_bins 2 (Inl RecognizerError)) = Inl RecognizerError
   \<and> isFrozen (snd (neon_render (neon_frame 1016 quiet_bins 2 (Inl RecognizerError)) after_palm))
   \<and> targetOffset (snd (neon_render (neon_frame 1016 quiet_bins 2 (Inl RecognizerError)) after_palm))
        = (150, 0)
   \<and> lastDetectedGesture
        (snd (neon_render (neon_frame 1016 quiet_bins 2 (Inl RecognizerError)) after_palm))
        = ''Open_Palm''"
proof -
  have r: "recognition (neon_frame 1016 quiet_bins 2 (Inl RecognizerError)) = Inl RecognizerError"
    by (simp add: neon_frame_def)
  show ?thesis
    using recognition_error_keeps_state
      [of "neon_frame 1016 quiet_bins 2 (Inl RecognizerError)" RecognizerError after_palm] r
    by (simp add: after_palm_fields)
qed

section \<open>Frozen frames\<close>

lemma palm_seen_frozen: "palm_seen f s \<Longrightarrow> neon_frozen f s"
  by (auto simp add: palm_seen_def neon_frozen_def detectGestures_def note_gesture_def Let_def
      split: sum.splits list.splits)

lemma frozen_stays: "isFrozen s \<Longrightarrow> \<not> clears f \<Longrightarrow> neon_frozen f s"
  by (auto simp add: clears_def neon_frozen_def detectGestures_def note_gesture_def Let_def
      split: sum.splits list.splits)

lemma clear_seen_thaws: "clear_seen f s \<Longrightarrow> \<not> neon_frozen f s"
  by (auto simp add: clear_seen_def clears_def neon_frozen_def detectGestures_def note_gesture_def
      Let_def split: sum.splits list.splits)

lemma settled_visible: "settled 200 p \<Longrightarrow> alive p \<and> neon_scale_positive p"
  by (simp add: settled_def alive_def neon_scale_positive_def neon_scale_def)

lemma neon_reachable_visible: "neon_reachable s \<Longrightarrow> visible (particles s)"
  using neon_reachable_inv [of s] settled_visible by (auto simp: neon_inv_def visible_def)

lemma frozen_frame_general:
  assumes "neon_frozen f s"
  shows "particles (snd (neon_render f s)) = filter alive (particles s)"
    and "spawnCalls (fst (neon_render f s)) = []"
    and "drawn (fst (neon_render f s)) = filter neon_scale_positive (rev (filter alive (particles s)))"
    and "isFrozen (snd (neon_render f s))"
proof -
  have h: "neon_hears f s = None" using assms by (simp add: neon_hears_def)
  have ag: "map (neon_aged True en) ps = ps" for en ps
    by (induction ps) (simp_all add: neon_aged_def)
  show "particles (snd (neon_render f s)) = filter alive (particles s)"
    using assms by (simp add: neon_render_idle [OF h] ag)
  show "spawnCalls (fst (neon_render f s)) = []"
    by (simp add: neon_render_idle [OF h])
  show "drawn (fst (neon_render f s)) = filter neon_scale_positive (rev (filter alive (particles s)))"
    using assms by (simp add: neon_render_idle [OF h] ag)
  show "isFrozen (snd (neon_render f s))"
    using assms by (simp add: neon_render_idle [OF h] neon_panned_vis)
qed

lemma frozen_frame_still:
  assumes "neon_frozen f s" "visible (particles s)"
  shows "still_frame f s"
proof -
  have a: "filter alive (particles s) = particles s"
    using assms(2) by (simp add: visible_def)
  have b: "filter neon_scale_positive (rev (particles s)) = rev (particles s)"
    using assms(2) by (simp add: visible_def)
  show ?thesis
    using frozen_frame_general [OF assms(1)] by (simp add: still_frame_def a b)
qed

lemma frozen_run_still:
  "isFrozen s \<Longrightarrow> visible (particles s) \<Longrightarrow> \<forall>f \<in> set fs. \<not> clears f \<Longrightarrow> still_run fs s"
proof (induction fs arbitrary: s)
  case Nil
  show ?case by simp
next
  case (Cons f fs)
  have fr: "neon_frozen f s" using Cons.prems(1,3) by (simp add: frozen_stays)
  have st: "still_frame f s" by (rule frozen_frame_still [OF fr Cons.prems(2)])
  then have "isFrozen (snd (neon_render f s))" "visible (particles (snd (neon_render f s)))"
    using Cons.prems(2) by (simp_all add: still_frame_def)
  then have "still_run fs (snd (neon_render f s))" using Cons.prems(3) by (intro Cons.IH) simp_all
  then show ?case using st by simp
qed

lemma palm_run_still:
  assumes "palm_seen f s" "visible (particles s)" "\<forall>f' \<in> set fs. \<not> clears f'"
  shows "still_run (f # fs) s"
proof -
  have st: "still_frame f s" by (rule frozen_frame_still [OF palm_seen_frozen [OF assms(1)] assms(2)])
  then have "isFrozen (snd (neon_render f s))" "visible (particles (snd (neon_render f s)))"
    using assms(2) by (simp_all add: still_frame_def)
  then have "still_run fs (snd (neon_render f s))" using assms(3) by (rule frozen_run_still)
  then show ?thesis using st by simp
qed

text \<open>
  Claim C8. In a neon session, a frame whose detection sees an open palm is a frozen frame,
  and so is every following frame until one supplies a detection that is empty or not a
  palm: in each of them every particle record (position, velocity, angle, life and the
  rest) is as before the frame, no spawn call is made, and every particle is handed to the
  canvas as it is. The same holds from any reachable state whose flag is already set.
  In any state, reachable or not, a frozen frame changes no particle and spawns nothing:
  it only drops what is not alive and draws what is alive and in front of the eye.
  A frame whose detection runs and is empty or not a palm is not frozen.
\<close>

theorem frozen_frames_are_still:
  "(neon_reachable s \<and> palm_seen f s \<and> (\<forall>f' \<in> set fs. \<not> clears f') \<longrightarrow> still_run (f # fs) s)
   \<and> (neon_reachable s0 \<and> isFrozen s0 \<and> (\<forall>f' \<in> set fs0. \<not> clears f') \<longrightarrow> still_run fs0 s0)
   \<and> (neon_frozen f1 s1 \<longrightarrow>
         particles (snd (neon_render f1 s1)) = filter alive (particles s1)
         \<and> spawnCalls (fst (neon_render f1 s1)) = []
         \<and> drawn (fst (neon_render f1 s1))
              = filter neon_scale_positive (rev (filter alive (particles s1)))
         \<and> isFrozen (snd (neon_render f1 s1)))
   \<and> (clear_seen f2 s2 \<longrightarrow> \<not> neon_frozen f2 s2)"
  using palm_run_still [of f s fs] frozen_run_still [of s0 fs0] neon_reachable_visible
    frozen_frame_general [of f1 s1] clear_seen_thaws [of f2 s2]
  by blast

lemma neon_render_video_time:
  "lastVideoTime (snd (neon_render f s)) = lastVideoTime (detectGestures f s)"
proof -
  have p: "lastVideoTime (neon_panned f s) = lastVideoTime (detectGestures f s)"
    by (simp add: neon_panned_def Let_def)
  show ?thesis
    by (cases "neon_hears f s") (simp_all add: neon_render_idle neon_render_beat neon_beat_gesture_fields p)
qed

lemma neon_frame_draws: "unit_draws (rand (neon_frame t bs vt outcome))"
  by (simp add: neon_frame_def unit_draws_half)

lemma neon_lit_reachable: "neon_reachable neon_lit"
  unfolding neon_lit_def by (rule neon_frame [OF neon_start neon_frame_draws])

lemma after_palm_reachable: "neon_reachable after_palm"
  unfolding after_palm_def by (rule neon_frame [OF neon_start neon_frame_draws])

lemma neon_lit_video_time: "lastVideoTime neon_lit = 1"
  by (simp add: neon_lit_def neon_render_video_time neon_frame_no_hand)

lemma palm_seen_lit: "palm_seen (neon_frame 1016 quiet_bins 2 (Inr palm)) neon_lit"
  by (simp add: palm_seen_def neon_lit_video_time) (simp add: neon_frame_def palm_def)

lemma no_clear:
  "\<not> clears (neon_frame t bs vt (Inl RecognizerError))"
  "\<not> clears (neon_frame t bs vt (Inr palm))"
  by (simp_all add: clears_def neon_frame_def palm_def)

lemma after_palm_video_time: "lastVideoTime after_palm = 1"
  by (simp add: after_palm_def neon_render_video_time detectGestures_def neon_frame_def
      neon_init_def palm_left_def note_gesture_def)

lemma fist_clears: "clear_seen (neon_frame 1016 quiet_bins 2 (Inr fist)) after_palm"
  by (simp add: clear_seen_def clears_def after_palm_video_time) (simp add: neon_frame_def fist_def)

theorem frozen_frames_are_still_witness:
  "neon_reachable neon_lit
   \<and> palm_seen (neon_frame 1016 quiet_bins 2 (Inr palm)) neon_lit
   \<and> \<not> clears (neon_frame 1032 quiet_bins 3 (Inl RecognizerError))
   \<and> \<not> clears (neon_frame 1048 quiet_bins 3 (Inr palm))
   \<and> still_run [neon_frame 1016 quiet_bins 2 (Inr palm),
                  neon_frame 1032 quiet_bins 3 (Inl RecognizerError),
                  neon_frame 1048 quiet_bins 3 (Inr palm)] neon_lit
   \<and> particles (snd (neon_render (neon_frame 1016 quiet_bins 2 (Inr palm)) neon_lit))
        = particles neon_lit
   \<and> neon_reachable after_palm \<and> isFrozen after_palm
   \<and> still_run [neon_frame 1032 quiet_bins 3 (Inl RecognizerError)] after_palm
   \<and> neon_frozen (neon_frame 1000 quiet_bins 1 (Inr palm)) neon_init
   \<and> spawnCalls (fst (neon_render (neon_frame 1000 quiet_bins 1 (Inr palm)) neon_init)) = []
   \<and> clear_seen (neon_frame 1016 quiet_bins 2 (Inr fist)) after_palm
   \<and> \<not> neon_frozen (neon_frame 1016 quiet_bins 2 (Inr fist)) after_palm"
proof -
  have fz: "neon_frozen (neon_frame 1000 quiet_bins 1 (Inr palm)) neon_init"
    by (simp add: neon_frozen_def neon_frame_palm)
  have runs: "still_run [neon_frame 1016 quiet_bins 2 (Inr palm),
                  neon_frame 1032 quiet_bins 3 (Inl RecognizerError),
                  neon_frame 1048 quiet_bins 3 (Inr palm)] neon_lit
     \<and> still_run [neon_frame 1032 quiet_bins 3 (Inl RecognizerError)] after_palm
     \<and> spawnCalls (fst (neon_render (neon_frame 1000 quiet_bins 1 (Inr palm)) neon_init)) = []
     \<and> \<not> neon_frozen (neon_frame 1016 quiet_bins 2 (Inr fist)) after_palm"
    using frozen_frames_are_still [of neon_lit "neon_frame 1016 quiet_bins 2 (Inr palm)"
        "[neon_frame 1032 quiet_bins 3 (Inl RecognizerError), neon_frame 1048 quiet_bins 3 (Inr palm)]"
        after_palm "[neon_frame 1032 quiet_bins 3 (Inl RecognizerError)]"
        "neon_frame 1000 quiet_bins 1 (Inr palm)" neon_init
        "neon_frame 1016 quiet_bins 2 (Inr fist)" after_palm]
      neon_lit_reachable palm_seen_lit no_clear after_palm_reachable after_palm_fields(1) fz
      fist_clears
    by simp
  then have "still_frame (neon_frame 1016 quiet_bins 2 (Inr palm)) neon_lit" by simp
  then have "particles (snd (neon_render (neon_frame 1016 quiet_bins 2 (Inr palm)) neon_lit))
        = particles neon_lit" by (simp add: still_frame_def)
  then show ?thesis
    using runs neon_lit_reachable palm_seen_lit no_clear after_palm_reachable after_palm_fields(1)
      fz fist_clears
    by simp
qed

section \<open>Particle lifetime\<close>


















lemma audio_frame_draws: "unit_draws (rand (audio_frame t bs))"
  by (simp add: audio_frame_def unit_draws_half)

lemma after_loud_reachable: "classic_reachable after_loud"
  unfolding after_loud_def by (rule classic_frame [OF classic_start audio_frame_draws])


section \<open>The two projections\<close>

lemma rotate3D_zero: "rotate3D x0 y0 z0 0 0 = (x0, y0, z0)"
  by (simp add: rotate3D_def)

lemma classic_reachable_rotation: "classic_reachable c \<Longrightarrow> rotation c = (0, 0)"
  using classic_reachable_inv [of c] by (simp add: classic_inv_def)

lemma classic_scale_zero: "classic_scale (0, 0) p = neon_scale p"
  by (simp add: classic_scale_def neon_scale_def rotate3D_zero add.commute)

lemma classic_offset_zero: "classic_offset (0, 0) p = neon_offset p"
  by (simp add: classic_offset_def neon_offset_def rotate3D_zero classic_scale_zero)

lemma classic_draw_zero:
  "classic_draw f (0, 0) q = Some d \<Longrightarrow>
   x2d d = px q * neon_scale q + innerWidth f / 2
   \<and> y2d d = py q * neon_scale q + innerHeight f / 2
   \<and> size2d d = max 0.1 (psize q * neon_scale q)"
  by (auto simp add: classic_draw_def rotate3D_zero neon_scale_def Let_def add.commute
      split: if_splits)

lemma classic_draw_guard: "(classic_draw f (0, 0) q \<noteq> None) = (0 < pz q + 800)"
  by (simp add: classic_draw_def rotate3D_zero Let_def)

lemma neon_guard: "pz p \<noteq> - 800 \<Longrightarrow> neon_scale_positive p = (0 < pz p + 800)"
  by (auto simp add: neon_scale_positive_def neon_scale_def zero_less_divide_iff)

text \<open>
  Claim C10. In a classic session the rotation is \<open>(0, 0)\<close> in every reachable state:
  no frame writes it. With that rotation \<open>rotate3D\<close> returns its point unchanged, so the
  scale of the classic projection is \<open>800 / (800 + z)\<close>, the scale of the neon loop, and
  the offset from the canvas centre at which a particle is drawn is the one the neon loop
  translates by. The two tests that decide whether a particle is drawn agree as well,
  except at \<open>z = -800\<close>, where the neon quotient is infinite and passes its test.
\<close>

theorem classic_projection_is_neon_projection:
  "rotation classic_init = (0, 0)
   \<and> (classic_reachable c \<longrightarrow>
        rotation c = (0, 0)
        \<and> rotate3D x0 y0 z0 (fst (rotation c)) (snd (rotation c)) = (x0, y0, z0)
        \<and> classic_scale (rotation c) p = 800 / (800 + pz p)
        \<and> classic_scale (rotation c) p = neon_scale p
        \<and> classic_offset (rotation c) p = neon_offset p
        \<and> (classic_draw f (rotation c) q \<noteq> None) = (0 < pz q + 800)
        \<and> (pz q \<noteq> - 800 \<longrightarrow> (classic_draw f (rotation c) q \<noteq> None) = neon_scale_positive q)
        \<and> (\<forall>d. classic_draw f (rotation c) q = Some d \<longrightarrow>
              x2d d = px q * neon_scale q + innerWidth f / 2
              \<and> y2d d = py q * neon_scale q + innerHeight f / 2))"
proof -
  have "rotation classic_init = (0, 0)" by (simp add: classic_init_def)
  moreover have "classic_scale (0, 0) p = 800 / (800 + pz p)"
    by (simp add: classic_scale_zero neon_scale_def)
  ultimately show ?thesis
    using classic_reachable_rotation [of c] rotate3D_zero [of x0 y0 z0]
      classic_scale_zero [of p] classic_offset_zero [of p] classic_draw_guard [of f q]
      neon_guard [of q] classic_draw_zero [of f q]
    by auto
qed

theorem classic_projection_is_neon_projection_witness:
  "classic_reachable after_loud
   \<and> rotation after_loud = (0, 0)
   \<and> classic_scale (rotation after_loud) dust = 8 / 9
   \<and> neon_scale dust = 8 / 9
   \<and> classic_offset (rotation after_loud) dust = neon_offset dust
   \<and> pz dust \<noteq> - 800
   \<and> classic_draw (audio_frame 1016 quiet_bins) (rotation after_loud) dust \<noteq> None
   \<and> neon_scale_positive dust"
proof -
  have z: "pz dust = 100" "pz dust \<noteq> - 800" by (simp_all add: dust_def)
  show ?thesis
    using classic_projection_is_neon_projection
      [of after_loud 1 2 3 dust "audio_frame 1016 quiet_bins" dust] after_loud_reachable z
    by auto
qed

section \<open>The particle cap\<close>

lemma spawnNeonSnowflake_appends_only:
  "\<exists>new t. fst (spawnNeonSnowflake f band i s g) = s\<lparr>particles := particles s @ new, lastSpawnTime := t\<rparr>"
  using spawnNeonSnowflake_effect [of f band i s g] by blast

lemma spawnNeonSnowflake_time:
  "length (particles s) \<le> 2000 \<Longrightarrow> lastSpawnTime (fst (spawnNeonSnowflake f band i s g)) = now f"
  by (simp add: spawnNeonSnowflake_def Let_def split_def)

lemma spawnSnowflake_full:
  "4000 < length (particles c) \<Longrightarrow> fst (spawnSnowflake f band i c g) = c\<lparr>lastSpawnTime := now f\<rparr>"
  using spawnSnowflake_effect [of f band i c g] by auto

lemma classic_reachable_size: "classic_reachable c \<Longrightarrow> length (particles c) \<le> 4001"
  using classic_reachable_inv [of c] by (simp add: classic_inv_def)

text \<open>
  How far a neon spawn can go. The arm of a blueprint that the generator made has at
  most 1956 points and at least one, so the six arms ask for at most 11736 particles;
  the particle budget is at least 300, so a draw of 0.995 passes the skip test.
\<close>

lemma neon_addLine_length:
  "real (length (neon_addLine pts x1 y1 x2 y2))
     \<le> real (length pts) + 3 + 60 * (\<bar>x2 - x1\<bar> + \<bar>y2 - y1\<bar>)"
proof -
  let ?d = "sqrt ((x2 - x1)\<^sup>2 + (y2 - y1)\<^sup>2)"
  have d0: "0 \<le> ?d" by simp
  have d1: "?d \<le> \<bar>x2 - x1\<bar> + \<bar>y2 - y1\<bar>" by (rule sqrt_sum_squares_le_sum_abs)
  have n: "real (nat \<lfloor>?d * 60\<rfloor>) \<le> ?d * 60" using d0 by simp
  have m: "max 2 k \<le> 2 + k" for k :: nat by simp
  have "real (max 2 (nat \<lfloor>?d * 60\<rfloor>)) \<le> real 2 + real (nat \<lfloor>?d * 60\<rfloor>)"
    using of_nat_mono [OF m, where 'a = real] by (simp only: of_nat_add)
  then have "real (max 2 (nat \<lfloor>?d * 60\<rfloor>)) \<le> 2 + ?d * 60" using n by linarith
  then show ?thesis using d1 by (simp add: neon_addLine_def Let_def)
qed

lemma neon_addLine_nonempty: "neon_addLine pts x1 y1 x2 y2 \<noteq> []"
  by (simp add: neon_addLine_def Let_def)

lemma neon_addLine_keeps: "\<exists>more. neon_addLine pts x1 y1 x2 y2 = pts @ more"
  by (simp add: neon_addLine_def Let_def)

lemma foldl_length_bound:
  fixes step :: "points \<Rightarrow> 'b \<Rightarrow> points"
  assumes "\<And>acc x. x \<in> set xs \<Longrightarrow> real (length (step acc x)) \<le> real (length acc) + c"
  shows "real (length (foldl step pts xs)) \<le> real (length pts) + c * real (length xs)"
  using assms
proof (induction xs arbitrary: pts)
  case Nil
  then show ?case by simp
next
  case (Cons x xs)
  have "real (length (foldl step (step pts x) xs)) \<le> real (length (step pts x)) + c * real (length xs)"
    by (rule Cons.IH) (simp add: Cons.prems)
  moreover have "real (length (step pts x)) \<le> real (length pts) + c" by (simp add: Cons.prems)
  ultimately show ?case by (simp add: algebra_simps)
qed

lemma foldl_nonempty:
  fixes step :: "points \<Rightarrow> 'b \<Rightarrow> points"
  assumes "\<And>acc x. acc \<noteq> [] \<Longrightarrow> step acc x \<noteq> []" "pts \<noteq> []"
  shows "foldl step pts xs \<noteq> []"
  using assms by (induction xs arbitrary: pts) simp_all

lemma neon_subribs_length:
  assumes "small_rib rib"
  shows "real (length (neon_subribs pts rib ex ey)) \<le> real (length pts) + 42"
proof (cases "subRibs rib = 0")
  case True
  then show ?thesis by (simp add: neon_subribs_def)
next
  case False
  have l: "0 \<le> ribLength rib" "ribLength rib \<le> 1" and k: "subRibs rib \<le> 2"
    using assms by (simp_all add: small_rib_def)
  let ?step = "\<lambda>acc sr.
             let t = real sr / real (subRibs rib + 1);
                 sx = pos rib + (ex - pos rib) * t;
                 sy = 0 + (ey - 0) * t
             in neon_addLine acc sx sy (sx + ribLength rib * 0.3) sy"
  have step: "real (length (?step acc sr)) \<le> real (length acc) + 21" for acc sr
  proof -
    have "real (length (?step acc sr)) \<le> real (length acc) + 3 + 60 * (ribLength rib * 0.3)"
      using neon_addLine_length [of acc "pos rib + (ex - pos rib) * (real sr / real (subRibs rib + 1))"
          "0 + (ey - 0) * (real sr / real (subRibs rib + 1))"
          "pos rib + (ex - pos rib) * (real sr / real (subRibs rib + 1)) + ribLength rib * 0.3"
          "0 + (ey - 0) * (real sr / real (subRibs rib + 1))"] l
      by (simp add: Let_def)
    then show ?thesis using l by simp
  qed
  have "real (length (foldl ?step pts [1..<Suc (subRibs rib)]))
      \<le> real (length pts) + 21 * real (length [1..<Suc (subRibs rib)])"
    by (rule foldl_length_bound) (rule step)
  moreover have "real (length [1..<Suc (subRibs rib)]) \<le> 2" using k by simp
  ultimately show ?thesis using False by (simp add: neon_subribs_def)
qed

lemma neon_subribs_nonempty: "pts \<noteq> [] \<Longrightarrow> neon_subribs pts rib ex ey \<noteq> []"
  by (simp add: neon_subribs_def Let_def foldl_nonempty neon_addLine_nonempty)

lemma neon_rib_length:
  assumes "small_rib rib"
  shows "real (length (neon_rib pts rib)) \<le> real (length pts) + 330"
proof -
  have l: "0 \<le> ribLength rib" "ribLength rib \<le> 1" using assms by (simp_all add: small_rib_def)
  have tr: "\<bar>ribLength rib * cos a\<bar> + \<bar>ribLength rib * sin a\<bar> \<le> 2" for a
  proof -
    have "\<bar>ribLength rib * cos a\<bar> \<le> 1 * 1" "\<bar>ribLength rib * sin a\<bar> \<le> 1 * 1"
      unfolding abs_mult using l by (intro mult_mono; simp)+
    then show ?thesis by simp
  qed
  let ?a = "ribAngle rib"
  let ?p1 = "neon_addLine pts (pos rib) 0 (pos rib + ribLength rib * cos ?a) (ribLength rib * sin ?a)"
  let ?p2 = "neon_subribs ?p1 rib (pos rib + ribLength rib * cos ?a) (ribLength rib * sin ?a)"
  let ?p3 = "neon_addLine ?p2 (pos rib) 0 (pos rib + ribLength rib * cos (- ?a)) (ribLength rib * sin (- ?a))"
  let ?p4 = "neon_subribs ?p3 rib (pos rib + ribLength rib * cos (- ?a)) (ribLength rib * sin (- ?a))"
  have e: "neon_rib pts rib = ?p4" by (simp add: neon_rib_def Let_def)
  have 1: "real (length ?p1) \<le> real (length pts) + 123"
    using neon_addLine_length [of pts "pos rib" 0 "pos rib + ribLength rib * cos ?a" "ribLength rib * sin ?a"]
      tr [of ?a] by simp
  have 2: "real (length ?p2) \<le> real (length ?p1) + 42" by (rule neon_subribs_length [OF assms])
  have 3: "real (length ?p3) \<le> real (length ?p2) + 123"
    using neon_addLine_length [of ?p2 "pos rib" 0 "pos rib + ribLength rib * cos (- ?a)" "ribLength rib * sin (- ?a)"]
      tr [of "- ?a"] by simp
  have 4: "real (length ?p4) \<le> real (length ?p3) + 42" by (rule neon_subribs_length [OF assms])
  show ?thesis unfolding e using 1 2 3 4 by linarith
qed

lemma neon_rib_nonempty: "neon_rib pts rib \<noteq> []"
  by (simp add: neon_rib_def Let_def neon_subribs_nonempty neon_addLine_nonempty)

lemma neon_points_length:
  assumes "plain_blueprint bp"
  shows "real (length (neon_points bp)) \<le> 1956" and "neon_points bp \<noteq> []"
proof -
  let ?s = "centerPlateSize bp"
  let ?p0 = "if ?s > 0
             then neon_addLine [] (?s * cos (pi / 6)) (?s * sin (pi / 6))
                    (?s * cos (- (pi / 6))) (?s * sin (- (pi / 6)))
             else []"
  let ?p1 = "neon_addLine ?p0 0 0 (armLength bp) 0"
  have e: "neon_points bp = foldl neon_rib ?p1 (ribs bp)" by (simp add: neon_points_def Let_def)
  have s: "0 \<le> ?s" "?s \<le> 1" and arm: "armLength bp = 1" and n: "length (ribs bp) \<le> 5"
    and small: "\<And>rib. rib \<in> set (ribs bp) \<Longrightarrow> small_rib rib"
    using assms by (simp_all add: plain_blueprint_def list_all_iff)
  have "\<bar>?s * sin (pi / 6) + ?s * sin (pi / 6)\<bar> \<le> 1" using s by (simp add: sin_30)
  then have 0: "real (length ?p0) \<le> 63"
    using neon_addLine_length [of "[]" "?s * cos (pi / 6)" "?s * sin (pi / 6)"
        "?s * cos (- (pi / 6))" "?s * sin (- (pi / 6))"]
    by simp
  have 1: "real (length ?p1) \<le> real (length ?p0) + 63"
    using neon_addLine_length [of ?p0 0 0 "armLength bp" 0] arm by simp
  have 2: "real (length (foldl neon_rib ?p1 (ribs bp))) \<le> real (length ?p1) + 330 * real (length (ribs bp))"
    by (rule foldl_length_bound) (rule neon_rib_length [OF small])
  have "330 * real (length (ribs bp)) \<le> 1650" using n by simp
  then show "real (length (neon_points bp)) \<le> 1956" unfolding e using 0 1 2 by linarith
  show "neon_points bp \<noteq> []"
    unfolding e by (rule foldl_nonempty) (simp_all add: neon_rib_nonempty neon_addLine_nonempty)
qed

lemma gen_ribs_small:
  assumes "unit_draws g" "\<forall>r \<in> set idxs. r < n"
  shows "list_all small_rib (fst (gen_ribs n idxs g)) \<and> length (fst (gen_ribs n idxs g)) = length idxs"
  using assms
proof (induction idxs arbitrary: g)
  case Nil
  then show ?case by simp
next
  case (Cons r idxs)
  let ?p = "0.2 + (real r / real n) * 0.6 :: real"
  let ?u = "fst (random g)"
  let ?len = "(1 - ?p) * 0.6 * (0.4 + ?u * 0.6)"
  let ?g1 = "snd (random g)"
  let ?w = "fst (random ?g1)"
  let ?g2 = "if ?len > 0.3 then snd (random ?g1) else ?g1"
  have rn: "r < n" using Cons.prems(2) by simp
  have q: "0 \<le> real r / real n" "real r / real n < 1" using rn by simp_all
  have u: "0 \<le> ?u" "?u < 1" using unit_draws_fst_random [OF Cons.prems(1)] by simp_all
  have g1: "unit_draws ?g1" using Cons.prems(1) by (rule unit_draws_snd_random)
  have w: "0 \<le> ?w" "?w < 1" using unit_draws_fst_random [OF g1] by simp_all
  have g2: "unit_draws ?g2" using g1 by (simp add: unit_draws_snd_random)
  have p1: "0 \<le> (1 - ?p) * 0.6" "(1 - ?p) * 0.6 \<le> 1"
  proof -
    define q where "q = real r / real n"
    have "0 \<le> q" "q < 1" using q by (simp_all add: q_def)
    then have "0 \<le> (1 - (0.2 + q * 0.6)) * 0.6 \<and> (1 - (0.2 + q * 0.6)) * 0.6 \<le> 1" by simp
    then show "0 \<le> (1 - ?p) * 0.6" "(1 - ?p) * 0.6 \<le> 1" unfolding q_def by blast+
  qed
  have f1: "0 \<le> 0.4 + ?u * 0.6" "0.4 + ?u * 0.6 \<le> 1" using u by simp_all
  have len: "0 \<le> ?len" "?len \<le> 1"
  proof -
    show "0 \<le> ?len" using p1(1) f1(1) by (rule mult_nonneg_nonneg)
    have "?len \<le> 1 * 1" using p1 f1 by (intro mult_mono) simp_all
    then show "?len \<le> 1" by simp
  qed
  have sub: "nat \<lfloor>?w * 3\<rfloor> \<le> 2"
  proof -
    have "\<lfloor>?w * 3\<rfloor> < 3" using w by (simp add: floor_less_iff)
    then show ?thesis by linarith
  qed
  obtain rib where e: "fst (gen_ribs n (r # idxs) g) = rib # fst (gen_ribs n idxs ?g2)"
    and rib: "ribLength rib = ?len" "subRibs rib = (if ?len > 0.3 then nat \<lfloor>?w * 3\<rfloor> else 0)"
    by (simp add: Let_def split_def)
  have "small_rib rib" using len sub unfolding small_rib_def rib by simp
  moreover have "list_all small_rib (fst (gen_ribs n idxs ?g2))
      \<and> length (fst (gen_ribs n idxs ?g2)) = length idxs"
    using Cons.IH [OF g2] Cons.prems(2) by simp
  ultimately show ?case unfolding e by simp
qed

lemma neon_blueprint_plain:
  assumes "unit_draws g"
  shows "plain_blueprint (fst (neon_blueprint g))"
proof -
  have d: "0 \<le> g k \<and> g k < 1" for k using assms by (simp add: unit_draws_def)
  have sh: "unit_draws (\<lambda>n. g (n + k))" for k using assms by (simp add: unit_draws_def)
  obtain k j where r: "ribs (fst (neon_blueprint g)) =
      fst (gen_ribs (rib_count (g k)) [0..<rib_count (g k)] (\<lambda>n. g (n + j)))"
  proof (cases "g 0 < 0.3")
    case True
    then have "ribs (fst (neon_blueprint g)) =
        fst (gen_ribs (rib_count (g 3)) [0..<rib_count (g 3)] (\<lambda>n. g (n + 4)))"
      by (simp add: neon_blueprint_def Let_def split_def random_def rib_count_def eval_nat_numeral)
    then show ?thesis by (rule that)
  next
    case False
    then have "ribs (fst (neon_blueprint g)) =
        fst (gen_ribs (rib_count (g 2)) [0..<rib_count (g 2)] (\<lambda>n. g (n + 3)))"
      by (simp add: neon_blueprint_def Let_def split_def random_def rib_count_def eval_nat_numeral)
    then show ?thesis by (rule that)
  qed
  have rc: "rib_count (g k) \<le> 5" using rib_count_range [of "g k"] d by simp
  have "list_all small_rib (ribs (fst (neon_blueprint g))) \<and> length (ribs (fst (neon_blueprint g))) \<le> 5"
    unfolding r using gen_ribs_small [OF sh, of "[0..<rib_count (g k)]" "rib_count (g k)" j] rc by simp
  moreover have "armLength (fst (neon_blueprint g)) = 1"
    by (simp add: neon_blueprint_def Let_def split_def)
  moreover have "0 \<le> centerPlateSize (fst (neon_blueprint g)) \<and> centerPlateSize (fst (neon_blueprint g)) \<le> 1"
    using d [of 1] by (simp add: neon_blueprint_def Let_def split_def random_def)
  ultimately show ?thesis by (simp add: plain_blueprint_def)
qed

lemma neon_emit_arm_first:
  assumes "pts \<noteq> []" "skipRatio b \<le> fst (random g)"
  shows "length ps < length (fst (neon_emit_arm b h c s pts ps g))"
proof -
  obtain pt rest where pts: "pts = pt # rest" using assms(1) by (cases pts) auto
  have ns: "\<not> (skipRatio b > 0 \<and> fst (random g) < skipRatio b)" using assms(2) by simp
  obtain q g2 where step: "neon_emit_arm b h c s (pt # rest) ps g = neon_emit_arm b h c s rest (ps @ [q]) g2"
    using ns by (cases "skipRatio b > 0") (simp_all add: Let_def split_def)
  from neon_emit_arm_new [of b h c s rest "ps @ [q]" g2] obtain new where
    "fst (neon_emit_arm b h c s rest (ps @ [q]) g2) = (ps @ [q]) @ new" by blast
  then show ?thesis unfolding pts step by simp
qed

lemma neon_emit_first:
  assumes "pts \<noteq> []" "skipRatio b \<le> fst (random g)"
  shows "length ps < length (fst (neon_emit b h arms pts (i # idxs) ps g))"
proof -
  let ?r = "neon_emit_arm b h (cos (real i / real arms * pi * 2)) (sin (real i / real arms * pi * 2)) pts ps g"
  have e: "neon_emit b h arms pts (i # idxs) ps g = neon_emit b h arms pts idxs (fst ?r) (snd ?r)"
    by (simp add: Let_def split_def)
  from neon_emit_new [of b h arms pts idxs "fst ?r" "snd ?r"] obtain new where
    "fst (neon_emit b h arms pts idxs (fst ?r) (snd ?r)) = fst ?r @ new" by blast
  moreover have "length ps < length (fst ?r)" by (rule neon_emit_arm_first [OF assms])
  ultimately show ?thesis unfolding e by simp
qed

lemma unit_draws_high: "unit_draws high_draws"
  by (simp add: unit_draws_def high_draws_def)

lemma random_high: "random high_draws = (0.995, high_draws)"
  by (simp add: random_def high_draws_def)

lemma gen_ribs_high: "snd (gen_ribs n idxs high_draws) = high_draws"
  by (induction idxs) (simp_all add: Let_def split_def random_high)

lemma neon_blueprint_high: "snd (neon_blueprint high_draws) = high_draws"
  by (simp add: neon_blueprint_def Let_def split_def random_high gen_ribs_high)

lemma skip_bound:
  fixes tp tpn :: real
  assumes "1200 \<le> tp" "0 < tpn" "tpn \<le> 11736"
  shows "(if tpn > tp then 1 - tp / tpn else 0) \<le> 199 / 200"
proof -
  have "tpn \<le> 200 * tp" using assms by linarith
  then have "1 / 200 \<le> tp / tpn" using assms(2) by (simp add: pos_le_divide_eq)
  then show ?thesis by simp
qed

lemma neon_spawn_beyond_cap:
  "2000 < length (particles (fst (spawnNeonSnowflake (audio_frame 1000 loud_bins) Bass 1
       (neon_crowd 2000) high_draws)))"
proof -
  let ?bp = "fst (neon_blueprint high_draws)"
  let ?pts = "neon_points ?bp"
  let ?tp = "1200 * sqrt (2.489 * 1.2) :: real"
  let ?tpn = "real (length ?pts * 6)"
  let ?skip = "if ?tpn > ?tp then 1 - ?tp / ?tpn else 0"
  have pl: "plain_blueprint ?bp" by (rule neon_blueprint_plain [OF unit_draws_high])
  have n: "real (length ?pts) \<le> 1956" and ne: "?pts \<noteq> []"
    by (rule neon_points_length [OF pl])+
  have "1 \<le> sqrt (2.489 * 1.2 :: real)" by (simp add: real_le_rsqrt)
  then have tp: "1200 \<le> ?tp" by simp
  have pos: "0 < ?tpn" using ne by simp
  have tpn: "?tpn \<le> 11736" using n by simp
  have "?skip \<le> 199 / 200" using tp pos tpn by (rule skip_bound)
  then have skip: "?skip \<le> 0.995" by simp
  obtain b h where
    sp: "particles (fst (spawnNeonSnowflake (audio_frame 1000 loud_bins) Bass 1 (neon_crowd 2000) high_draws))
       = fst (neon_emit b h 6 ?pts [0..<6] (replicate 2000 spark) high_draws)"
    and b: "skipRatio b = ?skip"
    by (simp add: spawnNeonSnowflake_def Let_def split_def random_high neon_blueprint_high
        neon_crowd_def neon_init_def MIN_PARTICLES_PER_FIREWORK_def MAX_PARTICLES_PER_FIREWORK_def)
  have "[0..<6] = 0 # [1..<6]" by (simp add: upt_rec)
  then have "length (replicate 2000 spark)
      < length (fst (neon_emit b h 6 ?pts [0..<6] (replicate 2000 spark) high_draws))"
    using neon_emit_first [of ?pts b high_draws "replicate 2000 spark" h 6 0 "[1..<6]"] ne skip
    by (simp add: b random_high)
  then show ?thesis unfolding sp by simp
qed

text \<open>
  Claim C4, as amended. A spawn is dropped once the collection holds more than the cap.
  Neon: \<open>spawnNeonSnowflake\<close> tests \<open>length > 2000\<close> once, on entry; a call made above
  2000 changes nothing at all, a call made at or below 2000 records the spawn time and
  only adds particles at the end of the collection, with no further test, so that a call
  made with exactly 2000 particles can leave more than 2000. Classic:
  \<open>addParticle\<close> tests \<open>length > 4000\<close> before every push, so no call of \<open>addParticle\<close>
  or \<open>spawnSnowflake\<close> takes the collection beyond 4001 particles, and no reachable state
  holds more; a call of \<open>spawnSnowflake\<close> made above 4000 adds nothing but still records
  the spawn time.
\<close>

theorem spawn_cap:
  "(2000 < length (particles s) \<longrightarrow> spawnNeonSnowflake f band i s g = (s, g))
   \<and> (length (particles s0) \<le> 2000 \<longrightarrow>
         lastSpawnTime (fst (spawnNeonSnowflake f band i s0 g)) = now f)
   \<and> (\<exists>new t. fst (spawnNeonSnowflake f band i s0 g)
                  = s0\<lparr>particles := particles s0 @ new, lastSpawnTime := t\<rparr>)
   \<and> (4000 < length (particles c) \<longrightarrow> addParticle x0 y0 z0 a b d col lm sm c g = (c, g))
   \<and> length (particles (fst (addParticle x0 y0 z0 a b d col lm sm c0 g)))
        \<le> max (length (particles c0)) 4001
   \<and> length (particles (fst (spawnSnowflake f' band i c0 g))) \<le> max (length (particles c0)) 4001
   \<and> (4000 < length (particles c) \<longrightarrow>
         fst (spawnSnowflake f' band i c g) = c\<lparr>lastSpawnTime := now f'\<rparr>)
   \<and> (classic_reachable c1 \<longrightarrow> length (particles c1) \<le> 4001)"
  using spawnNeonSnowflake_full [of s f band i g] spawnNeonSnowflake_time [of s0 f band i g]
    spawnNeonSnowflake_appends_only [of f band i s0 g]
    addParticle_full [of c x0 y0 z0 a b d col lm sm g]
    addParticle_size [of x0 y0 z0 a b d col lm sm c0 g]
    spawnSnowflake_size [of f' band i c0 g] spawnSnowflake_full [of c f' band i g]
    classic_reachable_size [of c1]
  by blast

theorem spawn_cap_counterexample:
  "length (particles (crowd 4000)) = 4000
   \<and> length (particles (fst (addParticle 0 0 0 1 1 0 COLOR_BASE 1 1 (crowd 4000) half_draws))) = 4001
   \<and> length (particles (neon_crowd 2000)) = 2000
   \<and> 2000 < length (particles (fst (spawnNeonSnowflake (audio_frame 1000 loud_bins) Bass 1
              (neon_crowd 2000) high_draws)))"
proof -
  have "length (particles (crowd 4000)) = 4000
      \<and> length (particles (fst (addParticle 0 0 0 1 1 0 COLOR_BASE 1 1 (crowd 4000) half_draws))) = 4001"
    by (simp add: crowd_def addParticle_def Let_def split_def)
  moreover have "length (particles (neon_crowd 2000)) = 2000" by (simp add: neon_crowd_def)
  ultimately show ?thesis using neon_spawn_beyond_cap by blast
qed

theorem spawn_cap_witness:
  "2000 < length (particles (neon_crowd 2001))
   \<and> length (particles neon_init) \<le> 2000
   \<and> 4000 < length (particles (crowd 4001))
   \<and> classic_reachable after_loud
   \<and> spawnNeonSnowflake (audio_frame 1000 loud_bins) Bass 1 (neon_crowd 2001) half_draws
        = (neon_crowd 2001, half_draws)
   \<and> lastSpawnTime (fst (spawnNeonSnowflake (audio_frame 1000 loud_bins) Bass 1 neon_init half_draws))
        = 1000
   \<and> addParticle 0 0 0 1 1 0 COLOR_BASE 1 1 (crowd 4001) half_draws = (crowd 4001, half_draws)
   \<and> fst (spawnSnowflake (audio_frame 1000 loud_bins) Bass 1 (crowd 4001) half_draws)
        = (crowd 4001)\<lparr>lastSpawnTime := 1000\<rparr>
   \<and> length (particles after_loud) \<le> 4001"
proof -
  have l: "2000 < length (particles (neon_crowd 2001))" "length (particles neon_init) \<le> 2000"
    "4000 < length (particles (crowd 4001))"
    by (simp_all add: neon_crowd_def crowd_def neon_init_def)
  have n: "now (audio_frame 1000 loud_bins) = 1000" by (simp add: audio_frame_def)
  show ?thesis
    using spawn_cap [of "neon_crowd 2001" "audio_frame 1000 loud_bins" Bass 1 half_draws neon_init
        "crowd 4001" 0 0 0 1 1 0 COLOR_BASE 1 1 "crowd 4001" "audio_frame 1000 loud_bins" after_loud]
      l after_loud_reachable
    by (simp add: n)
qed

end
